(* ===== verification/Prelude.thy ===== *)
theory Prelude
  imports Complex_Main
begin

text \<open>
  Shared vocabulary of the development. The viewer in \<open>src/main.js\<close> keeps its numbers
  as JavaScript doubles; they are modelled as \<^typ>\<open>real\<close> (exact arithmetic, no rounding).
  Colours, positions and quaternions are tuples of reals, as the three.js \<open>Color\<close>,
  \<open>Vector3\<close> and \<open>Quaternion\<close> objects hold them.
  This theory holds:
  \<^item> the JavaScript built-ins the program calls: \<open>String.prototype.includes\<close>,
    \<open>toLowerCase\<close> (ASCII), the \<open>x || null\<close> idiom;
  \<^item> the three.js interpolation helpers the program calls (\<open>MathUtils.lerp\<close>,
    \<open>Color.lerpColors\<close> and \<open>Vector3.lerpVectors\<close>);
  \<^item> the smoothstep ease \<open>t * t * (3 - 2 * t)\<close> the program writes inline three times;
  \<^item> their shared lemmas, declared \<open>[simp]\<close> or collected in \<open>ease_bounds\<close>.
\<close>

named_theorems ease_bounds "bounds of the ease and interpolation helpers on [0, 1]"

type_synonym rgb = "real \<times> real \<times> real"
type_synonym vec3 = "real \<times> real \<times> real"
type_synonym quat = "real \<times> real \<times> real \<times> real"

section \<open>JavaScript string built-ins\<close>

text \<open>\<open>s.includes(t)\<close>: \<open>t\<close> occurs in \<open>s\<close> as a contiguous substring.\<close>

fun js_includes :: "string \<Rightarrow> string \<Rightarrow> bool" where
  "js_includes [] t = (t = [])"
| "js_includes (c # cs) t = (take (length t) (c # cs) = t \<or> js_includes cs t)"

text \<open>\<open>toLowerCase\<close> on one character, for the ASCII letters mesh and material names use:
  an upper-case letter (codes 65 to 90) gets bit 5 set, which adds 32.\<close>

fun js_lower_char :: "char \<Rightarrow> char" where
  "js_lower_char (Char b0 b1 b2 b3 b4 b5 b6 b7) =
     (if (65::nat) \<le> of_char (Char b0 b1 b2 b3 b4 b5 b6 b7)
         \<and> of_char (Char b0 b1 b2 b3 b4 b5 b6 b7) \<le> (90::nat)
      then Char b0 b1 b2 b3 b4 True b6 b7 else Char b0 b1 b2 b3 b4 b5 b6 b7)"

definition js_to_lower :: "string \<Rightarrow> string" where
  "js_to_lower s = map js_lower_char s"

text \<open>\<open>x || null\<close> on an optional string: the empty string is falsy and becomes null.\<close>

fun js_or_null :: "string option \<Rightarrow> string option" where
  "js_or_null None = None"
| "js_or_null (Some s) = (if s = [] then None else Some s)"

section \<open>three.js interpolation helpers\<close>

text \<open>\<open>MathUtils.lerp(x, y, t) = (1 - t) * x + t * y\<close>.\<close>

definition lerp :: "real \<Rightarrow> real \<Rightarrow> real \<Rightarrow> real" where
  "lerp x y t = (1 - t) * x + t * y"

text \<open>\<open>Color.lerpColors(c1, c2, a)\<close> and \<open>Vector3.lerpVectors(v1, v2, a)\<close> both compute
  \<open>c1 + (c2 - c1) * a\<close> component-wise.\<close>

fun lerp3 :: "real \<times> real \<times> real \<Rightarrow> real \<times> real \<times> real \<Rightarrow> real \<Rightarrow> real \<times> real \<times> real" where
  "lerp3 (a1, a2, a3) (b1, b2, b3) al = (a1 + (b1 - a1) * al, a2 + (b2 - a2) * al, a3 + (b3 - a3) * al)"

text \<open>The ease of \<open>main.js\<close> lines 726, 783 and 813.\<close>

definition smoothstep :: "real \<Rightarrow> real" where
  "smoothstep t = t * t * (3 - 2 * t)"

definition white :: rgb where
  "white = (1, 1, 1)"

definition in_unit :: "real \<Rightarrow> bool" where
  "in_unit x \<longleftrightarrow> 0 \<le> x \<and> x \<le> 1"

fun rgb_in_unit :: "rgb \<Rightarrow> bool" where
  "rgb_in_unit (r, g, b) \<longleftrightarrow> in_unit r \<and> in_unit g \<and> in_unit b"

section \<open>Lemmas\<close>

lemma js_includes_iff: "js_includes s t \<longleftrightarrow> (\<exists>xs ys. s = xs @ t @ ys)"
proof (induction s)
  case Nil
  then show ?case by simp
next
  case (Cons c cs)
  have "take (length t) (c # cs) = t \<longleftrightarrow> (\<exists>ys. c # cs = t @ ys)"
    by (metis append_take_drop_id append_eq_conv_conj)
  moreover have "(\<exists>xs ys. c # cs = xs @ t @ ys) \<longleftrightarrow>
      (\<exists>ys. c # cs = t @ ys) \<or> (\<exists>xs ys. cs = xs @ t @ ys)"
    by (auto simp: Cons_eq_append_conv)
  ultimately show ?case using Cons.IH by simp
qed

lemma js_or_null_Some: "js_or_null x = Some s \<Longrightarrow> s \<noteq> []"
  by (cases x) (auto split: if_splits)

lemma lerp_0 [simp]: "lerp x y 0 = x"
  and lerp_1 [simp]: "lerp x y 1 = y"
  by (simp_all add: lerp_def)

lemma lerp3_0 [simp]: "lerp3 a b 0 = a"
  by (cases a, cases b) simp

lemma lerp3_1 [simp]: "lerp3 a b 1 = b"
  by (cases a, cases b) simp

lemma smoothstep_0 [simp]: "smoothstep 0 = 0"
  and smoothstep_1 [simp]: "smoothstep 1 = 1"
  and smoothstep_half [simp]: "smoothstep (1/2) = 1/2"
  by (simp_all add: smoothstep_def)

lemma one_minus_smoothstep: "1 - smoothstep t = (1 - t) * (1 - t) * (1 + 2 * t)"
  by (simp add: smoothstep_def algebra_simps)

lemma smoothstep_in_unit [ease_bounds]: "in_unit t \<Longrightarrow> in_unit (smoothstep t)"
proof -
  assume t: "in_unit t"
  then have "0 \<le> t * t * (3 - 2 * t)" by (simp add: in_unit_def)
  moreover have "0 \<le> (1 - t) * (1 - t) * (1 + 2 * t)" using t by (simp add: in_unit_def)
  ultimately show ?thesis
    using one_minus_smoothstep [of t] by (simp add: in_unit_def smoothstep_def)
qed

lemma smoothstep_diff:
  "smoothstep t - smoothstep s = (t - s) * (3 * (t + s) - 2 * (t * t + t * s + s * s))"
  by (simp add: smoothstep_def algebra_simps)

lemma smoothstep_mono:
  assumes "0 \<le> s" and "s \<le> t" and "t \<le> 1"
  shows "smoothstep s \<le> smoothstep t"
proof -
  have "t * t \<le> t" and "s * s \<le> s" and "t * s \<le> s"
    using assms by (simp_all add: mult_left_le mult_left_le_one_le mult_le_one)
  then have "0 \<le> 3 * (t + s) - 2 * (t * t + t * s + s * s)"
    using assms by (simp add: algebra_simps)
  with assms have "0 \<le> (t - s) * (3 * (t + s) - 2 * (t * t + t * s + s * s))" by simp
  then show ?thesis using smoothstep_diff [of t s] by linarith
qed

lemma lerp_in_unit [ease_bounds]:
  "in_unit x \<Longrightarrow> in_unit y \<Longrightarrow> in_unit t \<Longrightarrow> in_unit (lerp x y t)"
proof -
  assume x: "in_unit x" and y: "in_unit y" and t: "in_unit t"
  then have "(1 - t) * x \<le> 1 - t" and "t * y \<le> t"
    by (simp_all add: in_unit_def mult_left_le)
  with x y t show ?thesis by (simp add: in_unit_def lerp_def)
qed

lemma lerp3_eq_lerp: "lerp3 (a1, a2, a3) (b1, b2, b3) t = (lerp a1 b1 t, lerp a2 b2 t, lerp a3 b3 t)"
  by (simp add: lerp_def algebra_simps)

lemma lerp3_in_unit [ease_bounds]:
  "rgb_in_unit a \<Longrightarrow> rgb_in_unit b \<Longrightarrow> in_unit t \<Longrightarrow> rgb_in_unit (lerp3 a b t)"
  by (cases a; cases b) (simp add: lerp3_eq_lerp lerp_in_unit del: lerp3.simps)

lemma in_unit_0 [simp]: "in_unit 0" and in_unit_1 [simp]: "in_unit 1"
  by (simp_all add: in_unit_def)

lemma rgb_in_unit_white [simp]: "rgb_in_unit white"
  by (simp add: white_def)

lemma in_unit_div [ease_bounds]: "0 \<le> x \<Longrightarrow> x \<le> d \<Longrightarrow> 0 < d \<Longrightarrow> in_unit (x / d)"
  by (simp add: in_unit_def)

text \<open>A property of the entries of a heap at the indices in \<open>S\<close> survives an update
  with a value that has it.\<close>

lemma all_at_list_update:
  "\<forall>k \<in> S. k < length h \<and> P (h ! k) \<Longrightarrow> P x \<Longrightarrow> \<forall>k \<in> S. k < length (h[n := x]) \<and> P (h[n := x] ! k)"
  by (metis length_list_update nth_list_update_eq nth_list_update_neq)

lemma in_unit_min_div [ease_bounds]: "0 \<le> x \<Longrightarrow> 0 < d \<Longrightarrow> in_unit (min (x / d) 1)"
  by (simp add: in_unit_def)

end
