(* ===== verification/Configs.thy ===== *)
theory Configs
  imports Prelude
begin

text \<open>
  The Config Store: the \<open>MODEL_CONFIG\<close> objects of \<open>src/configs/*.js\<close>. Each nested
  object is a record; a field a config may leave out (JavaScript \<open>undefined\<close>) is an
  \<^typ>\<open>'a option\<close>. The code reads the optional fields through JavaScript truthiness
  (\<open>config.frame.trans\<close>, \<open>config.glass.gradient\<close>), \<open>=== true\<close>
  (\<open>config.glass.animate\<close>), \<open>|| null\<close> (\<open>animateCamera\<close>) and \<open>??\<close>
  (\<open>opacity\<close>, \<open>reflectivity\<close>, \<open>emissiveIntensity\<close>); the helpers below say so.
  The invariant \<open>config_valid\<close> (colours and opacities in [0, 1]) holds of every config.
\<close>

record frame_cfg =
  fr_baseColor :: rgb
  fr_roughness :: real
  fr_metalness :: real
  fr_trans :: "bool option"
  fr_opacity :: "real option"
  fr_reflectivity :: "real option"

record arms_text_cfg =
  at_overlay :: string
  at_color :: rgb

record glass_cfg =
  gl_color :: rgb
  gl_roughness :: real
  gl_metalness :: real
  gl_opacity :: real
  gl_animate :: "bool option"
  gl_gradient :: "bool option"
  gl_animateCamera :: "string option"
  gl_opacityMap :: "string option"

record fake_cfg =
  fk_texture :: "string option"

record logo_cfg =
  lg_texture :: string
  lg_emissiveIntensity :: "real option"

record model_config =
  cfg_name :: string
  cfg_glb :: string
  cfg_frame :: frame_cfg
  cfg_armsText :: arms_text_cfg
  cfg_glass :: glass_cfg
  cfg_fake :: "fake_cfg option"
  cfg_logo :: logo_cfg
  cfg_startCamera :: string
  cfg_freeCamera :: string

section \<open>How the code reads optional fields\<close>

text \<open>JavaScript truthiness of an optional boolean: \<open>undefined\<close> is falsy.\<close>

fun js_truthy :: "bool option \<Rightarrow> bool" where
  "js_truthy None = False"
| "js_truthy (Some b) = b"

text \<open>\<open>x ?? d\<close>.\<close>

fun js_nullish :: "'a option \<Rightarrow> 'a \<Rightarrow> 'a" where
  "js_nullish None d = d"
| "js_nullish (Some x) d = x"

text \<open>\<open>config.fake?.texture\<close> read as a truthy string.\<close>

definition fake_texture :: "model_config \<Rightarrow> string option" where
  "fake_texture c =
     (case cfg_fake c of None \<Rightarrow> None
      | Some f \<Rightarrow> (case fk_texture f of None \<Rightarrow> None
                  | Some p \<Rightarrow> if p = [] then None else Some p))"

section \<open>The compiled-in configs\<close>

definition SHINY_COSMIC_BLUE :: model_config where
  "SHINY_COSMIC_BLUE = \<lparr>
     cfg_name = ''Cosmic_blue'', cfg_glb = ''./models/Standard_Wayfarer.glb'',
     cfg_frame = \<lparr>fr_baseColor = (0.015, 0.015, 0.03), fr_roughness = 0.35, fr_metalness = 0.1,
                  fr_trans = None, fr_opacity = None, fr_reflectivity = None\<rparr>,
     cfg_armsText = \<lparr>at_overlay = ''./textures/Temples_wayfarer_standard_2k.png'',
                     at_color = (0.04, 0.04, 0.09)\<rparr>,
     cfg_glass = \<lparr>gl_color = (0.05, 0.06, 0.10), gl_roughness = 0.1, gl_metalness = 0.5,
                  gl_opacity = 0.9, gl_animate = Some True, gl_gradient = Some False,
                  gl_animateCamera = Some ''Cam_Lenses'', gl_opacityMap = None\<rparr>,
     cfg_fake = None,
     cfg_logo = \<lparr>lg_texture = ''./textures/Standard_alpha.jpg'', lg_emissiveIntensity = Some 0.6\<rparr>,
     cfg_startCamera = ''Cam_Front'', cfg_freeCamera = ''Cam_Free'' \<rparr>"

definition MATTE_BLACK_CLEAR :: model_config where
  "MATTE_BLACK_CLEAR = \<lparr>
     cfg_name = ''Matte Black Clear'', cfg_glb = ''./models/Standard_Wayfarer.glb'',
     cfg_frame = \<lparr>fr_baseColor = (0.01, 0.01, 0.01), fr_roughness = 0.55, fr_metalness = 0.1,
                  fr_trans = None, fr_opacity = None, fr_reflectivity = None\<rparr>,
     cfg_armsText = \<lparr>at_overlay = ''./textures/Temples_wayfarer_standard_2k.png'',
                     at_color = (0.04, 0.04, 0.04)\<rparr>,
     cfg_glass = \<lparr>gl_color = (0, 0, 0), gl_roughness = 0.1, gl_metalness = 0.9,
                  gl_opacity = 0.15, gl_animate = Some False, gl_gradient = Some False,
                  gl_animateCamera = Some ''Cam_Lenses'', gl_opacityMap = None\<rparr>,
     cfg_fake = None,
     cfg_logo = \<lparr>lg_texture = ''./textures/Standard_alpha_clear.jpg'', lg_emissiveIntensity = Some 2.6\<rparr>,
     cfg_startCamera = ''Cam_Front'', cfg_freeCamera = ''Cam_Free'' \<rparr>"

definition SHINY_BLACK_GREEN :: model_config where
  "SHINY_BLACK_GREEN = \<lparr>
     cfg_name = ''Shiny Black Green'', cfg_glb = ''./models/Standard_Wayfarer.glb'',
     cfg_frame = \<lparr>fr_baseColor = (0.01, 0.01, 0.01), fr_roughness = 0.15, fr_metalness = 0.1,
                  fr_trans = None, fr_opacity = None, fr_reflectivity = None\<rparr>,
     cfg_armsText = \<lparr>at_overlay = ''./textures/Temples_wayfarer_standard_2k.png'',
                     at_color = (0.04, 0.04, 0.04)\<rparr>,
     cfg_glass = \<lparr>gl_color = (0.064, 0.068, 0.051), gl_roughness = 0.03, gl_metalness = 0,
                  gl_opacity = 0.9, gl_animate = Some False, gl_gradient = None,
                  gl_animateCamera = Some ''Cam_Lenses'', gl_opacityMap = None\<rparr>,
     cfg_fake = None,
     cfg_logo = \<lparr>lg_texture = ''./textures/Standard_alpha.jpg'', lg_emissiveIntensity = Some 0.6\<rparr>,
     cfg_startCamera = ''Cam_Front'', cfg_freeCamera = ''Cam_Free'' \<rparr>"

definition MATTE_BLACK_GGRAPH :: model_config where
  "MATTE_BLACK_GGRAPH = \<lparr>
     cfg_name = ''Matte Black CGraph'', cfg_glb = ''./models/Standard_Wayfarer.glb'',
     cfg_frame = \<lparr>fr_baseColor = (0.01, 0.01, 0.01), fr_roughness = 0.55, fr_metalness = 0.1,
                  fr_trans = None, fr_opacity = None, fr_reflectivity = None\<rparr>,
     cfg_armsText = \<lparr>at_overlay = ''./textures/Temples_wayfarer_standard_2k.png'',
                     at_color = (0.04, 0.04, 0.04)\<rparr>,
     cfg_glass = \<lparr>gl_color = (0, 0, 0), gl_roughness = 0.1, gl_metalness = 0.2,
                  gl_opacity = 0.95, gl_animate = Some False, gl_gradient = Some True,
                  gl_animateCamera = Some ''Cam_Lenses'', gl_opacityMap = None\<rparr>,
     cfg_fake = None,
     cfg_logo = \<lparr>lg_texture = ''./textures/Standard_alpha_polar.jpg'', lg_emissiveIntensity = Some 0.6\<rparr>,
     cfg_startCamera = ''Cam_Front'', cfg_freeCamera = ''Cam_Free'' \<rparr>"

definition MATTE_BLACK_CGREY :: model_config where
  "MATTE_BLACK_CGREY = \<lparr>
     cfg_name = ''Matte Black CGrey'', cfg_glb = ''./models/Standard_Wayfarer.glb'',
     cfg_frame = \<lparr>fr_baseColor = (0.01, 0.01, 0.01), fr_roughness = 0.55, fr_metalness = 0.1,
                  fr_trans = None, fr_opacity = None, fr_reflectivity = None\<rparr>,
     cfg_armsText = \<lparr>at_overlay = ''./textures/Temples_wayfarer_standard_2k.png'',
                     at_color = (0.04, 0.04, 0.04)\<rparr>,
     cfg_glass = \<lparr>gl_color = (0, 0, 0), gl_roughness = 0.1, gl_metalness = 0.2,
                  gl_opacity = 0.8, gl_animate = Some True, gl_gradient = Some False,
                  gl_animateCamera = Some ''Cam_Lenses'', gl_opacityMap = None\<rparr>,
     cfg_fake = None,
     cfg_logo = \<lparr>lg_texture = ''./textures/Standard_alpha_clear.jpg'', lg_emissiveIntensity = Some 0.6\<rparr>,
     cfg_startCamera = ''Cam_Front'', cfg_freeCamera = ''Cam_Free'' \<rparr>"

definition CLEAR_SAPPHIRE :: model_config where
  "CLEAR_SAPPHIRE = \<lparr>
     cfg_name = ''Clear_Sapphire'', cfg_glb = ''./models/Standard_Wayfarer.glb'',
     cfg_frame = \<lparr>fr_baseColor = (0.02, 0.02, 0.02), fr_roughness = 0.1, fr_metalness = 0,
                  fr_trans = Some True, fr_opacity = Some 0.3, fr_reflectivity = Some 1\<rparr>,
     cfg_armsText = \<lparr>at_overlay = ''./textures/Temples_wayfarer_standard_2k.png'',
                     at_color = (0.5, 0.5, 0.5)\<rparr>,
     cfg_glass = \<lparr>gl_color = (0.025, 0.03, 0.04), gl_roughness = 0.1, gl_metalness = 0.5,
                  gl_opacity = 0.9, gl_animate = Some True, gl_gradient = Some False,
                  gl_animateCamera = Some ''Cam_Lenses'', gl_opacityMap = None\<rparr>,
     cfg_fake = Some \<lparr>fk_texture = Some ''./textures/w_interior_fake.jpg''\<rparr>,
     cfg_logo = \<lparr>lg_texture = ''./textures/Standard_alpha_clear.jpg'', lg_emissiveIntensity = Some 0.6\<rparr>,
     cfg_startCamera = ''Cam_Front'', cfg_freeCamera = ''Cam_Free'' \<rparr>"

definition BLUE_JEANS :: model_config where
  "BLUE_JEANS = \<lparr>
     cfg_name = ''Clear_Sapphire'', cfg_glb = ''./models/Standard_Wayfarer.glb'',
     cfg_frame = \<lparr>fr_baseColor = (0.018, 0.025, 0.037), fr_roughness = 0.5, fr_metalness = 0,
                  fr_trans = Some True, fr_opacity = Some 0.9, fr_reflectivity = Some 0.2\<rparr>,
     cfg_armsText = \<lparr>at_overlay = ''./textures/Temples_wayfarer_standard_2k.png'',
                     at_color = (0.06, 0.06, 0.07)\<rparr>,
     cfg_glass = \<lparr>gl_color = (0.05, 0.06, 0.08), gl_roughness = 0.1, gl_metalness = 0.5,
                  gl_opacity = 0.9, gl_animate = Some False, gl_gradient = Some False,
                  gl_animateCamera = Some ''Cam_Lenses'', gl_opacityMap = None\<rparr>,
     cfg_fake = Some \<lparr>fk_texture = Some ''./textures/w_interior_fake_blur.jpg''\<rparr>,
     cfg_logo = \<lparr>lg_texture = ''./textures/Standard_alpha_polar.jpg'', lg_emissiveIntensity = Some 0.6\<rparr>,
     cfg_startCamera = ''Cam_Front'', cfg_freeCamera = ''Cam_Free'' \<rparr>"

text \<open>
  The skin buttons of \<open>main.js\<close> lines 86 to 93, in their order, as (label, config).
  Line 90's \<open>SHINY_BLACK_CGREEN\<close> is imported from
  \<open>./configs/w_shiny_black_cgreen.js\<close>, a file the repository does not contain, so its
  button is not in the list.
\<close>

definition model_buttons :: "(string \<times> model_config) list" where
  "model_buttons =
     [(''Shiny Cosmic Blue'', SHINY_COSMIC_BLUE),
      (''Matte Black Clear'', MATTE_BLACK_CLEAR),
      (''Shiny Black Green'', SHINY_BLACK_GREEN),
      (''Matte Black Gradient Graphite'', MATTE_BLACK_GGRAPH),
      (''Matte Black Clear to Grey'', MATTE_BLACK_CGREY),
      (''Clear Sapphire'', CLEAR_SAPPHIRE),
      (''Blue Jeans'', BLUE_JEANS)]"

definition all_configs :: "model_config list" where
  "all_configs = map snd model_buttons"

lemmas config_defs = SHINY_COSMIC_BLUE_def MATTE_BLACK_CLEAR_def SHINY_BLACK_GREEN_def
  MATTE_BLACK_GGRAPH_def MATTE_BLACK_CGREY_def CLEAR_SAPPHIRE_def BLUE_JEANS_def

section \<open>Validity of a config\<close>

text \<open>The data-model invariant of the spec: every colour is three components in [0, 1],
  every opacity the code reads is in [0, 1], every intensity and roughness is non-negative.\<close>

definition config_valid :: "model_config \<Rightarrow> bool" where
  "config_valid c \<longleftrightarrow>
     rgb_in_unit (fr_baseColor (cfg_frame c)) \<and>
     in_unit (js_nullish (fr_opacity (cfg_frame c)) 0.6) \<and>
     in_unit (js_nullish (fr_opacity (cfg_frame c)) 0.8) \<and>
     in_unit (fr_roughness (cfg_frame c)) \<and> in_unit (fr_metalness (cfg_frame c)) \<and>
     in_unit (js_nullish (fr_reflectivity (cfg_frame c)) 1) \<and>
     rgb_in_unit (at_color (cfg_armsText c)) \<and>
     rgb_in_unit (gl_color (cfg_glass c)) \<and> in_unit (gl_opacity (cfg_glass c)) \<and>
     in_unit (gl_roughness (cfg_glass c)) \<and> in_unit (gl_metalness (cfg_glass c)) \<and>
     0 \<le> js_nullish (lg_emissiveIntensity (cfg_logo c)) 0.6"

lemma config_valid_buttons: "list_all config_valid all_configs"
  by (simp add: all_configs_def model_buttons_def config_defs config_valid_def in_unit_def)

text \<open>C8. Every config the skin buttons offer satisfies the data-model invariant: its
  colours have three components in [0, 1] and its opacities lie in [0, 1].\<close>

theorem all_configs_valid: "\<forall>c \<in> set all_configs. config_valid c"
  using config_valid_buttons by (simp add: list_all_iff)

theorem all_configs_valid_witness: "CLEAR_SAPPHIRE \<in> set all_configs \<and> config_valid CLEAR_SAPPHIRE"
proof -
  have mem: "CLEAR_SAPPHIRE \<in> set all_configs" by (simp add: all_configs_def model_buttons_def)
  with all_configs_valid show ?thesis by blast
qed

end
