(* ===== verification/Materials.thy ===== *)
theory Materials
  imports Configs
begin

text \<open>
  The Material Builder of \<open>src/main.js\<close>: the three.js material objects the program
  creates and updates, as one record \<open>material\<close> holding the properties the code sets
  (the kind says whether the object is a \<open>MeshStandardMaterial\<close> or a
  \<open>MeshPhysicalMaterial\<close>); fields the code never sets keep the three.js defaults of
  \<open>mesh_standard_material\<close> and \<open>mesh_physical_material\<close>. A texture is the path it
  was loaded from with its \<open>flipY\<close> and colour-space flags; the image itself is outside
  the model. The \<open>onBeforeCompile\<close> overlay hook of the arm-text material is the
  pair (overlay texture, text colour) it closes over, and its GLSL fragment code is
  \<open>overlay_fragment\<close>. The post-processing and HDR shaders are the per-pixel functions
  \<open>contrast_fragment\<close> and \<open>desaturate_fragment\<close>.
  \<open>needsUpdate\<close> (a version counter for shader recompilation) is not modelled.
\<close>

record texture =
  tex_path :: string
  tex_flipY :: bool
  tex_sRGB :: bool

text \<open>\<open>textureLoader.load(path)\<close>: three.js defaults \<open>flipY = true\<close> and no colour space.\<close>

definition load_texture :: "string \<Rightarrow> texture" where
  "load_texture p = \<lparr>tex_path = p, tex_flipY = True, tex_sRGB = False\<rparr>"

text \<open>The pattern the code repeats for the logo, overlay and fake textures:
  load, then \<open>flipY = false\<close> and \<open>colorSpace = SRGBColorSpace\<close>.\<close>

definition load_srgb_texture :: "string \<Rightarrow> texture" where
  "load_srgb_texture p = (load_texture p)\<lparr>tex_flipY := False, tex_sRGB := True\<rparr>"

text \<open>\<open>gradientTexture\<close>, loaded once at module start (lines 28 to 30).\<close>

definition gradientTexture :: texture where
  "gradientTexture = load_srgb_texture ''./textures/w_lens_gradient.jpg''"

datatype mat_kind = Standard | Physical

record material =
  m_kind :: mat_kind
  m_name :: string
  m_color :: rgb
  m_roughness :: real
  m_metalness :: real
  m_transparent :: bool
  m_opacity :: real
  m_depthWrite :: bool
  m_envMapIntensity :: real
  m_clearcoat :: real
  m_clearcoatRoughness :: real
  m_ior :: real
  m_transmission :: real
  m_emissive :: rgb
  m_emissiveIntensity :: real
  m_emissiveMap :: "texture option"
  m_alphaMap :: "texture option"
  m_map :: "texture option"
  m_overlay :: "(texture \<times> rgb) option"

text \<open>The three.js defaults of a fresh \<open>MeshStandardMaterial\<close>.\<close>

definition mesh_standard_material :: material where
  "mesh_standard_material = \<lparr>
     m_kind = Standard, m_name = [], m_color = (1, 1, 1), m_roughness = 1, m_metalness = 0,
     m_transparent = False, m_opacity = 1, m_depthWrite = True, m_envMapIntensity = 1,
     m_clearcoat = 0, m_clearcoatRoughness = 0, m_ior = 1.5, m_transmission = 0,
     m_emissive = (0, 0, 0), m_emissiveIntensity = 1, m_emissiveMap = None,
     m_alphaMap = None, m_map = None, m_overlay = None \<rparr>"

definition mesh_physical_material :: material where
  "mesh_physical_material = mesh_standard_material\<lparr>m_kind := Physical\<rparr>"

text \<open>\<open>MeshPhysicalMaterial.reflectivity\<close> is a setter over the index of refraction:
  \<open>ior = (1 + 0.4 * r) / (1 - 0.4 * r)\<close>.\<close>

definition set_reflectivity :: "real \<Rightarrow> material \<Rightarrow> material" where
  "set_reflectivity r m = m\<lparr>m_ior := (1 + 0.4 * r) / (1 - 0.4 * r)\<rparr>"

definition REFLECTION_TINT :: real where
  "REFLECTION_TINT = 1.1"

section \<open>Builders of applyConfig\<close>

text \<open>Lines 258 to 281: the base of the arm-text material, translucent or opaque.\<close>

definition arm_text_base :: "frame_cfg \<Rightarrow> material" where
  "arm_text_base f =
     (if js_truthy (fr_trans f) then
        mesh_physical_material\<lparr>
          m_color := fr_baseColor f, m_roughness := fr_roughness f, m_metalness := fr_metalness f,
          m_transparent := True, m_opacity := js_nullish (fr_opacity f) 0.6, m_depthWrite := True,
          m_envMapIntensity := 5.2, m_clearcoat := 5.0, m_clearcoatRoughness := fr_roughness f\<rparr>
      else
        mesh_standard_material\<lparr>
          m_color := fr_baseColor f, m_roughness := fr_roughness f, m_metalness := fr_metalness f,
          m_envMapIntensity := 2.2\<rparr>)"

text \<open>Lines 283 to 336: the overlay texture and the \<open>onBeforeCompile\<close> hook that closes
  over it and over \<open>armsText.color\<close>.\<close>

definition build_arm_text_material :: "model_config \<Rightarrow> material" where
  "build_arm_text_material c =
     (arm_text_base (cfg_frame c))\<lparr>
        m_overlay := Some (load_srgb_texture (at_overlay (cfg_armsText c)), at_color (cfg_armsText c))\<rparr>"

text \<open>Lines 338 to 365: the frame material.\<close>

definition build_frame_material :: "frame_cfg \<Rightarrow> material" where
  "build_frame_material f =
     (if js_truthy (fr_trans f) then
        set_reflectivity (js_nullish (fr_reflectivity f) 1)
          (mesh_physical_material\<lparr>
             m_color := fr_baseColor f, m_roughness := fr_roughness f, m_metalness := 0,
             m_transparent := True, m_opacity := js_nullish (fr_opacity f) 0.8, m_depthWrite := True,
             m_envMapIntensity := 3.5, m_clearcoat := 1, m_clearcoatRoughness := fr_roughness f\<rparr>)
      else
        mesh_standard_material\<lparr>
          m_color := fr_baseColor f, m_roughness := fr_roughness f, m_metalness := fr_metalness f\<rparr>)"

text \<open>Lines 411 to 417: the material of a mesh whose material is named \<open>fake\<close>.\<close>

definition build_fake_material :: "texture \<Rightarrow> material" where
  "build_fake_material t =
     mesh_standard_material\<lparr>m_map := Some t, m_metalness := 0, m_roughness := 1, m_name := ''fake''\<rparr>"

text \<open>Lines 430 to 458: the in-place update of an arm-text mesh's material. The branch on
  \<open>userData.textColorUniform\<close> (lines 456 to 458) never runs: no line of the program
  sets that field.\<close>

definition update_arm_text_material :: "model_config \<Rightarrow> material \<Rightarrow> material" where
  "update_arm_text_material c m =
     (let f = cfg_frame c;
          m1 = m\<lparr>m_color := fr_baseColor f, m_roughness := fr_roughness f,
                 m_metalness := fr_metalness f, m_envMapIntensity := 2.2\<rparr>
      in if js_truthy (fr_trans f)
         then m1\<lparr>m_transparent := True, m_opacity := js_nullish (fr_opacity f) 0.6, m_depthWrite := False\<rparr>
         else m1\<lparr>m_transparent := False, m_opacity := 1, m_depthWrite := True\<rparr>)"

text \<open>Lines 465 to 476: the in-place tuning of a glass material by \<open>applyConfig\<close>. The
  logo texture is the module's \<open>logoTexture\<close>, \<open>null\<close> until the first load.\<close>

definition tune_glass_material :: "model_config \<Rightarrow> texture option \<Rightarrow> material \<Rightarrow> material" where
  "tune_glass_material c logo m =
     m\<lparr>m_color := gl_color (cfg_glass c), m_opacity := gl_opacity (cfg_glass c),
       m_emissiveMap := logo,
       m_emissiveIntensity := js_nullish (lg_emissiveIntensity (cfg_logo c)) 0.6,
       m_alphaMap := (if js_truthy (gl_gradient (cfg_glass c)) then Some gradientTexture else None)\<rparr>"

section \<open>The glass material of loadModel\<close>

text \<open>Lines 205 to 233: a fresh glass material for a mesh whose material name contains
  \<open>glass\<close>. The opacity map is set first and the gradient overrides it.\<close>

definition build_glass_material :: "model_config \<Rightarrow> texture option \<Rightarrow> material" where
  "build_glass_material c logo =
     (let g = cfg_glass c;
          m0 = mesh_physical_material\<lparr>
                 m_color := gl_color g, m_roughness := gl_roughness g, m_metalness := gl_metalness g,
                 m_transparent := True, m_opacity := gl_opacity g, m_transmission := 0,
                 m_ior := 1.45, m_depthWrite := False, m_envMapIntensity := REFLECTION_TINT\<rparr>;
          m1 = (case gl_opacityMap g of None \<Rightarrow> m0
                | Some p \<Rightarrow> if p = [] then m0
                            else m0\<lparr>m_alphaMap := Some ((load_texture p)\<lparr>tex_flipY := False\<rparr>)\<rparr>);
          m2 = m1\<lparr>m_emissiveMap := logo, m_emissive := (1, 1, 1),
                  m_emissiveIntensity := js_nullish (lg_emissiveIntensity (cfg_logo c)) 0.6\<rparr>
      in if js_truthy (gl_gradient g) then m2\<lparr>m_alphaMap := Some gradientTexture\<rparr> else m2)"

text \<open>A material whose colour and opacity lie in [0, 1].\<close>

definition mat_in_unit :: "material \<Rightarrow> bool" where
  "mat_in_unit m \<longleftrightarrow> rgb_in_unit (m_color m) \<and> in_unit (m_opacity m)"

section \<open>Shader fragments\<close>

text \<open>GLSL \<open>mix(x, y, a) = x * (1 - a) + y * a\<close>, component-wise.\<close>

fun glsl_mix3 :: "rgb \<Rightarrow> rgb \<Rightarrow> real \<Rightarrow> rgb" where
  "glsl_mix3 (x1, x2, x3) (y1, y2, y3) a = (lerp x1 y1 a, lerp x2 y2 a, lerp x3 y3 a)"

text \<open>Lines 322 to 331: the arm-text overlay. The overlay's alpha is the mask; the
  diffuse colour moves towards the text colour by the mask, and the alpha is the larger
  of the two alphas.\<close>

definition overlay_fragment :: "rgb \<times> real \<Rightarrow> rgb \<times> real \<Rightarrow> rgb \<Rightarrow> rgb \<times> real" where
  "overlay_fragment diffuse overlay textColor =
     (let mask = snd overlay
      in (glsl_mix3 (fst diffuse) textColor mask, max (snd diffuse) mask))"

text \<open>Lines 116 to 118: the contrast pass, \<open>(c - 0.5) * contrast + 0.5\<close> on RGB.\<close>

fun contrast_fragment :: "real \<Rightarrow> rgb \<times> real \<Rightarrow> rgb \<times> real" where
  "contrast_fragment k ((r, g, b), a) = (((r - 0.5) * k + 0.5, (g - 0.5) * k + 0.5, (b - 0.5) * k + 0.5), a)"

text \<open>Lines 623 to 630: the HDR pre-pass, mixing the Rec. 601 luminance grey with the
  colour by the saturation.\<close>

fun desaturate_fragment :: "real \<Rightarrow> rgb \<times> real \<Rightarrow> rgb \<times> real" where
  "desaturate_fragment s ((r, g, b), a) =
     (let l = 0.299 * r + 0.587 * g + 0.114 * b in (glsl_mix3 (l, l, l) (r, g, b) s, a))"

section \<open>Lemmas\<close>

lemma build_glass_rest: "m_color (build_glass_material c lg) = gl_color (cfg_glass c)"
  "m_opacity (build_glass_material c lg) = gl_opacity (cfg_glass c)"
  by (simp_all add: build_glass_material_def Let_def split: option.split)

end
