(* ===== verification/Glass.thy ===== *)
theory Glass
  imports Materials
begin

text \<open>
  The Glass Animation State Machine of \<open>src/main.js\<close>: the object \<open>glassAnim\<close>
  (lines 485 to 492) is the record \<open>glass_anim\<close>, its string-valued \<open>state\<close> the
  datatype \<open>glass_phase\<close>; the module globals it works with (\<open>glassMaterials\<close>,
  \<open>originalGlassColors\<close>, \<open>originalGlassOpacities\<close>, \<open>glassAnimationEnabled\<close>,
  \<open>glassAnimateCamera\<close>, \<open>wasAnimatingGlass\<close> and the \<open>THREE.Clock\<close>) are the record
  \<open>glass_sys\<close>. Materials are shared objects: \<open>glassMaterials[i]\<close> is the same object
  as the glass mesh's \<open>material\<close>, so materials live in a heap (a list indexed by
  material id) and \<open>gs_materials\<close> holds ids. The frame update (lines 756 to 850) is
  \<open>glass_frame\<close>; its \<open>forEach\<close> over the materials is \<open>glass_loop\<close>, whose body
  \<open>glass_mat_step\<close> both animates one material and switches the shared phase.
  Times: the clock reads milliseconds and returns seconds, as \<open>THREE.Clock\<close> does.
\<close>

datatype glass_phase = WaitGreen | ToClear | WaitClear | ToGreen

record glass_anim =
  ga_state :: glass_phase
  ga_timer :: real
  ga_duration :: real
  ga_waitGreen :: real
  ga_waitClear :: real

definition glassAnim_init :: glass_anim where
  "glassAnim_init = \<lparr>ga_state = WaitGreen, ga_timer = 0, ga_duration = 1.5, ga_waitGreen = 1.0, ga_waitClear = 1.0\<rparr>"

record glass_sys =
  gs_materials :: "nat list"
  gs_origColors :: "rgb list"
  gs_origOpacities :: "real list"
  gs_anim :: glass_anim
  gs_enabled :: bool
  gs_animateCamera :: "string option"
  gs_wasAnimating :: bool
  gs_clock :: "real option"

text \<open>\<open>THREE.Clock.getDelta()\<close> of a clock created with \<open>autoStart\<close>: the first call
  starts the clock and returns 0; later calls return the seconds since the previous
  call. The clock is only read on frames that animate (line 765).\<close>

fun clock_getDelta :: "real \<Rightarrow> real option \<Rightarrow> real \<times> real option" where
  "clock_getDelta now None = (0, Some now)"
| "clock_getDelta now (Some old) = ((now - old) / 1000, Some now)"

text \<open>The body of the \<open>forEach\<close> (lines 770 to 833) for one material with its rest
  colour and rest opacity: the new shared animation state and the material.\<close>

definition glass_mat_step :: "glass_anim \<Rightarrow> rgb \<Rightarrow> real \<Rightarrow> material \<Rightarrow> glass_anim \<times> material" where
  "glass_mat_step a oc oo m =
     (case ga_state a of
        WaitGreen \<Rightarrow>
          (if ga_timer a > ga_waitGreen a then (a\<lparr>ga_timer := 0, ga_state := ToClear\<rparr>, m) else (a, m))
      | ToClear \<Rightarrow>
          (let t = min (ga_timer a / ga_duration a) 1; e = smoothstep t
           in (if t \<ge> 1 then a\<lparr>ga_timer := 0, ga_state := WaitClear\<rparr> else a,
               m\<lparr>m_color := lerp3 oc white e, m_opacity := lerp oo 0 e\<rparr>))
      | WaitClear \<Rightarrow>
          (if ga_timer a > ga_waitClear a then (a\<lparr>ga_timer := 0, ga_state := ToGreen\<rparr>, m) else (a, m))
      | ToGreen \<Rightarrow>
          (let t = min (ga_timer a / ga_duration a) 1; e = smoothstep t
           in (if t \<ge> 1 then a\<lparr>ga_timer := 0, ga_state := WaitGreen\<rparr> else a,
               m\<lparr>m_color := lerp3 white oc e, m_opacity := lerp 0 oo e\<rparr>)))"

text \<open>\<open>glassMaterials.forEach((mat, i) => ...)\<close> over the heap: the \<open>i\<close>-th id with the
  \<open>i\<close>-th rest colour and rest opacity.\<close>

fun glass_loop :: "glass_anim \<Rightarrow> material list \<Rightarrow> nat list \<Rightarrow> rgb list \<Rightarrow> real list \<Rightarrow> nat
    \<Rightarrow> glass_anim \<times> material list" where
  "glass_loop a h [] cs os i = (a, h)"
| "glass_loop a h (mid # ms) cs os i =
     (case glass_mat_step a (cs ! i) (os ! i) (h ! mid) of
        (a', m') \<Rightarrow> glass_loop a' (h[mid := m']) ms cs os (Suc i))"

text \<open>Lines 841 to 844: every glass material back to its rest colour and opacity.\<close>

fun glass_reset :: "material list \<Rightarrow> nat list \<Rightarrow> rgb list \<Rightarrow> real list \<Rightarrow> nat \<Rightarrow> material list" where
  "glass_reset h [] cs os i = h"
| "glass_reset h (mid # ms) cs os i =
     glass_reset (h[mid := (h ! mid)\<lparr>m_color := cs ! i, m_opacity := os ! i\<rparr>]) ms cs os (Suc i)"

text \<open>Lines 756 to 759: the gate. \<open>activeCameraName === glassAnimateCamera\<close> compares
  two values that may both be \<open>null\<close>.\<close>

definition should_animate :: "string option \<Rightarrow> glass_sys \<Rightarrow> bool" where
  "should_animate active g \<longleftrightarrow>
     gs_enabled g \<and> 0 < length (gs_materials g) \<and> active = gs_animateCamera g"

text \<open>Lines 756 to 850: one frame of the glass animation at time \<open>now\<close> (ms) with the
  active camera \<open>active\<close>.\<close>

definition glass_frame :: "real \<Rightarrow> string option \<Rightarrow> glass_sys \<Rightarrow> material list \<Rightarrow> glass_sys \<times> material list" where
  "glass_frame now active g h =
     (if should_animate active g then
        (case clock_getDelta now (gs_clock g) of
           (d, clk) \<Rightarrow>
             (case glass_loop ((gs_anim g)\<lparr>ga_timer := ga_timer (gs_anim g) + d\<rparr>) h
                     (gs_materials g) (gs_origColors g) (gs_origOpacities g) 0 of
                (a', h') \<Rightarrow> (g\<lparr>gs_wasAnimating := True, gs_clock := clk, gs_anim := a'\<rparr>, h')))
      else if gs_wasAnimating g then
        (g\<lparr>gs_anim := (gs_anim g)\<lparr>ga_state := WaitGreen, ga_timer := 0\<rparr>, gs_wasAnimating := False\<rparr>,
         glass_reset h (gs_materials g) (gs_origColors g) (gs_origOpacities g) 0)
      else (g, h))"


text \<open>The invariant of the glass state against the heap: every glass material id is
  allocated and its colour and opacity lie in [0, 1]; the rest-value lists cover the
  materials and hold values in [0, 1]; the timer is non-negative and the ease duration
  positive.\<close>

definition glass_inv :: "glass_sys \<Rightarrow> material list \<Rightarrow> bool" where
  "glass_inv g h \<longleftrightarrow>
     (\<forall>mid \<in> set (gs_materials g). mid < length h \<and> mat_in_unit (h ! mid)) \<and>
     length (gs_materials g) \<le> length (gs_origColors g) \<and>
     length (gs_materials g) \<le> length (gs_origOpacities g) \<and>
     (\<forall>c \<in> set (gs_origColors g). rgb_in_unit c) \<and> (\<forall>x \<in> set (gs_origOpacities g). in_unit x) \<and>
     0 \<le> ga_timer (gs_anim g) \<and> 0 < ga_duration (gs_anim g)"

text \<open>The render loop calls the update once per frame (\<open>requestAnimationFrame\<close>,
  line 717); a run is a list of frames, each its timestamp and the camera active then.\<close>

fun glass_frames :: "(real \<times> string option) list \<Rightarrow> glass_sys \<Rightarrow> material list \<Rightarrow> glass_sys \<times> material list" where
  "glass_frames [] g h = (g, h)"
| "glass_frames ((t, act) # fs) g h = (case glass_frame t act g h of (g', h') \<Rightarrow> glass_frames fs g' h')"

text \<open>Fixtures for the witnesses: lenses of rest colour black and rest opacity 0.9 that
  animate on \<open>Cam_Lenses\<close>, in a given phase and timer, with a clock last read at \<open>clk\<close>.\<close>

definition demo_lens :: material where
  "demo_lens = mesh_physical_material\<lparr>m_color := (0, 0, 0), m_opacity := 0.9, m_transparent := True\<rparr>"

definition demo_glass :: "glass_phase \<Rightarrow> real \<Rightarrow> real option \<Rightarrow> nat list \<Rightarrow> bool \<Rightarrow> glass_sys" where
  "demo_glass st tm clk ids was = \<lparr>
     gs_materials = ids, gs_origColors = map (\<lambda>_. (0, 0, 0)) ids, gs_origOpacities = map (\<lambda>_. 0.9) ids,
     gs_anim = glassAnim_init\<lparr>ga_state := st, ga_timer := tm\<rparr>, gs_enabled = True,
     gs_animateCamera = Some ''Cam_Lenses'', gs_wasAnimating = was, gs_clock = clk\<rparr>"

section \<open>Lemmas\<close>

lemma glass_loop_length [simp]: "length (snd (glass_loop a h ms cs os i)) = length h"
  by (induction a h ms cs os i rule: glass_loop.induct) (auto split: prod.split)

text \<open>In a wait phase whose time is not up, the loop writes nothing.\<close>

lemma glass_loop_hold:
  assumes "ga_state a = WaitGreen \<and> \<not> ga_waitGreen a < ga_timer a \<or>
           ga_state a = WaitClear \<and> \<not> ga_waitClear a < ga_timer a"
  shows "glass_loop a h ms cs os i = (a, h)"
  using assms by (induction ms arbitrary: h i) (auto simp: glass_mat_step_def)

lemma glass_step_end_clear:
  "ga_state a = ToClear \<Longrightarrow> 0 < ga_duration a \<Longrightarrow> ga_duration a \<le> ga_timer a \<Longrightarrow>
   glass_mat_step a oc oo m = (a\<lparr>ga_timer := 0, ga_state := WaitClear\<rparr>, m\<lparr>m_color := white, m_opacity := 0\<rparr>)"
  by (simp add: glass_mat_step_def Let_def)

lemma glass_step_end_green:
  "ga_state a = ToGreen \<Longrightarrow> 0 < ga_duration a \<Longrightarrow> ga_duration a \<le> ga_timer a \<Longrightarrow>
   glass_mat_step a oc oo m = (a\<lparr>ga_timer := 0, ga_state := WaitGreen\<rparr>, m\<lparr>m_color := oc, m_opacity := oo\<rparr>)"
  by (simp add: glass_mat_step_def Let_def)

text \<open>The frame that ends a fade writes the endpoint into the first material, switches
  the shared phase to the following wait, and then writes nothing more.\<close>

lemma glass_loop_end_clear:
  assumes "ga_state a = ToClear" "0 < ga_duration a" "ga_duration a \<le> ga_timer a" "0 \<le> ga_waitClear a"
  shows "glass_loop a h (mid # ms) cs os i =
           (a\<lparr>ga_timer := 0, ga_state := WaitClear\<rparr>, h[mid := (h ! mid)\<lparr>m_color := white, m_opacity := 0\<rparr>])"
  using assms by (simp add: glass_step_end_clear glass_loop_hold)

lemma glass_loop_end_green:
  assumes "ga_state a = ToGreen" "0 < ga_duration a" "ga_duration a \<le> ga_timer a" "0 \<le> ga_waitGreen a"
  shows "glass_loop a h (mid # ms) cs os i =
           (a\<lparr>ga_timer := 0, ga_state := WaitGreen\<rparr>, h[mid := (h ! mid)\<lparr>m_color := cs ! i, m_opacity := os ! i\<rparr>])"
  using assms by (simp add: glass_step_end_green glass_loop_hold)

lemma glass_frame_animating:
  "should_animate act g \<Longrightarrow> gs_clock g = Some old \<Longrightarrow>
   glass_frame now act g h =
     (case glass_loop ((gs_anim g)\<lparr>ga_timer := ga_timer (gs_anim g) + (now - old) / 1000\<rparr>) h
             (gs_materials g) (gs_origColors g) (gs_origOpacities g) 0 of
        (a', h') \<Rightarrow> (g\<lparr>gs_wasAnimating := True, gs_clock := Some now, gs_anim := a'\<rparr>, h'))"
  by (simp add: glass_frame_def)

lemmas glass_frame_end_simps = glass_frame_animating glass_loop_end_clear glass_loop_end_green

lemma glass_reset_length [simp]: "length (glass_reset h ms cs os i) = length h"
  by (induction h ms cs os i rule: glass_reset.induct) simp_all

lemma glass_reset_other: "mid \<notin> set ms \<Longrightarrow> glass_reset h ms cs os i ! mid = h ! mid"
  by (induction h ms cs os i rule: glass_reset.induct) simp_all

lemma glass_reset_nth:
  "distinct ms \<Longrightarrow> j < length ms \<Longrightarrow> ms ! j < length h \<Longrightarrow>
   glass_reset h ms cs os i ! (ms ! j) = (h ! (ms ! j))\<lparr>m_color := cs ! (i + j), m_opacity := os ! (i + j)\<rparr>"
proof (induction ms arbitrary: h i j)
  case Nil
  then show ?case by simp
next
  case (Cons mid ms)
  show ?case
  proof (cases j)
    case 0
    with Cons.prems show ?thesis by (simp add: glass_reset_other)
  next
    case (Suc k)
    with Cons.prems have "ms ! k \<noteq> mid" and "ms ! k < length h" by (auto simp: nth_mem)
    with Cons.prems Suc show ?thesis by (simp add: Cons.IH)
  qed
qed

lemma glass_mat_step_unit:
  assumes "glass_mat_step a oc oo m = (a', m')" and "0 \<le> ga_timer a" and "0 < ga_duration a"
    and "rgb_in_unit oc" and "in_unit oo" and "mat_in_unit m"
  shows "mat_in_unit m' \<and> 0 \<le> ga_timer a' \<and> ga_duration a' = ga_duration a"
proof -
  have e: "in_unit (smoothstep (min (ga_timer a / ga_duration a) 1))"
    using assms(2,3) by (intro ease_bounds)
  show ?thesis
    using assms(1-6) e by (cases "ga_state a")
      (auto simp: glass_mat_step_def Let_def mat_in_unit_def split: if_splits intro!: ease_bounds)
qed

lemma rest_values_shift:
  "\<forall>j < length (mid # ms). rgb_in_unit (cs ! (i + j)) \<and> in_unit (os ! (i + j)) \<Longrightarrow>
   \<forall>j < length ms. rgb_in_unit (cs ! (Suc i + j)) \<and> in_unit (os ! (Suc i + j))"
proof (intro allI impI)
  fix j assume all: "\<forall>j < length (mid # ms). rgb_in_unit (cs ! (i + j)) \<and> in_unit (os ! (i + j))"
    and "j < length ms"
  then have "Suc j < length (mid # ms)" by simp
  with all show "rgb_in_unit (cs ! (Suc i + j)) \<and> in_unit (os ! (Suc i + j))" by fastforce
qed

lemma glass_loop_unit:
  assumes "glass_loop a h ms cs os i = (a', h')" and "0 \<le> ga_timer a" and "0 < ga_duration a"
    and "\<forall>j < length ms. rgb_in_unit (cs ! (i + j)) \<and> in_unit (os ! (i + j))"
    and "\<forall>mid \<in> S. mid < length h \<and> mat_in_unit (h ! mid)" and "set ms \<subseteq> S"
  shows "(\<forall>mid \<in> S. mid < length h' \<and> mat_in_unit (h' ! mid)) \<and> 0 \<le> ga_timer a' \<and> ga_duration a' = ga_duration a"
  using assms
proof (induction ms arbitrary: a h i)
  case Nil
  then show ?case by simp
next
  case (Cons mid ms)
  obtain a1 m1 where st: "glass_mat_step a (cs ! i) (os ! i) (h ! mid) = (a1, m1)"
    by (cases "glass_mat_step a (cs ! i) (os ! i) (h ! mid)") blast
  from Cons.prems(4) have u0: "rgb_in_unit (cs ! i) \<and> in_unit (os ! i)" by fastforce
  from Cons.prems(5,6) have "mat_in_unit (h ! mid)" by auto
  with st u0 Cons.prems(2,3) have m1: "mat_in_unit m1 \<and> 0 \<le> ga_timer a1 \<and> ga_duration a1 = ga_duration a"
    by (meson glass_mat_step_unit)
  have h1: "\<forall>mid' \<in> S. mid' < length (h[mid := m1]) \<and> mat_in_unit (h[mid := m1] ! mid')"
    using all_at_list_update [where P = mat_in_unit and x = m1 and n = mid, OF Cons.prems(5)] m1 by simp
  from Cons.prems(1) st have "glass_loop a1 (h[mid := m1]) ms cs os (Suc i) = (a', h')" by simp
  from Cons.IH [OF this] m1 Cons.prems(3,6) rest_values_shift [OF Cons.prems(4)] h1 show ?case by auto
qed

lemma glass_reset_unit:
  assumes "\<forall>j < length ms. rgb_in_unit (cs ! (i + j)) \<and> in_unit (os ! (i + j))"
    and "\<forall>mid \<in> S. mid < length h \<and> mat_in_unit (h ! mid)"
  shows "\<forall>mid \<in> S. mid < length (glass_reset h ms cs os i) \<and> mat_in_unit (glass_reset h ms cs os i ! mid)"
  using assms
proof (induction ms arbitrary: h i)
  case Nil
  then show ?case by simp
next
  case (Cons mid ms)
  have "rgb_in_unit (cs ! i) \<and> in_unit (os ! i)" using Cons.prems(1) by fastforce
  then have "\<forall>mid' \<in> S. mid' < length (h[mid := (h ! mid)\<lparr>m_color := cs ! i, m_opacity := os ! i\<rparr>])
      \<and> mat_in_unit (h[mid := (h ! mid)\<lparr>m_color := cs ! i, m_opacity := os ! i\<rparr>] ! mid')"
    using Cons.prems(2) by (intro all_at_list_update [where P = mat_in_unit]) (simp_all add: mat_in_unit_def)
  from Cons.IH [OF rest_values_shift [OF Cons.prems(1)] this] show ?case by simp
qed

lemma glass_inv_rest_values:
  "glass_inv g h \<Longrightarrow> \<forall>j < length (gs_materials g).
     rgb_in_unit (gs_origColors g ! (0 + j)) \<and> in_unit (gs_origOpacities g ! (0 + j))"
  by (auto simp: glass_inv_def)

lemma clock_getDelta_nonneg:
  "(\<forall>old. c = Some old \<longrightarrow> old \<le> now) \<Longrightarrow> 0 \<le> fst (clock_getDelta now c)"
  by (cases c) simp_all


lemma glass_frame_length [simp]: "length (snd (glass_frame now act g h)) = length h"
  by (auto simp: glass_frame_def split: prod.splits) (metis glass_loop_length snd_conv)

text \<open>In the middle of the fade to clear the shared phase is untouched and every lens is
  written with the eased interpolation of its own rest values.\<close>

lemma glass_step_mid_clear:
  "ga_state a = ToClear \<Longrightarrow> ga_timer a / ga_duration a < 1 \<Longrightarrow>
   glass_mat_step a oc oo m = (a, m\<lparr>m_color := lerp3 oc white (smoothstep (ga_timer a / ga_duration a)),
                                    m_opacity := lerp oo 0 (smoothstep (ga_timer a / ga_duration a))\<rparr>)"
  by (simp add: glass_mat_step_def Let_def)

lemma glass_loop_mid_clear:
  assumes "ga_state a = ToClear" and "ga_timer a / ga_duration a < 1"
  shows "fst (glass_loop a h ms cs os i) = a"
    and "mid \<notin> set ms \<Longrightarrow> snd (glass_loop a h ms cs os i) ! mid = h ! mid"
  using assms by (induction ms arbitrary: h i) (simp_all add: glass_step_mid_clear)

lemma glass_loop_mid_clear_nth:
  assumes "ga_state a = ToClear" and "ga_timer a / ga_duration a < 1"
    and "distinct ms" and "j < length ms" and "ms ! j < length h"
  shows "snd (glass_loop a h ms cs os i) ! (ms ! j) =
           (h ! (ms ! j))\<lparr>m_color := lerp3 (cs ! (i + j)) white (smoothstep (ga_timer a / ga_duration a)),
                          m_opacity := lerp (os ! (i + j)) 0 (smoothstep (ga_timer a / ga_duration a))\<rparr>"
  using assms(3-5)
proof (induction ms arbitrary: h i j)
  case Nil
  then show ?case by simp
next
  case (Cons mid ms)
  show ?case
  proof (cases j)
    case 0
    with Cons.prems assms(1,2) show ?thesis by (simp add: glass_step_mid_clear glass_loop_mid_clear(2))
  next
    case (Suc k)
    with Cons.prems have "ms ! k \<noteq> mid" and "ms ! k < length h" by (auto simp: nth_mem)
    with Cons.prems Suc assms(1,2) show ?thesis by (simp add: glass_step_mid_clear Cons.IH)
  qed
qed

text \<open>The frame on which the dark wait is over starts the fade to clear: the first lens
  switches the shared phase, and the lenses after it see a fade at time 0.\<close>

lemma glass_frame_starts_fade:
  assumes "should_animate act g" and "gs_clock g = Some old" and "ga_state (gs_anim g) = WaitGreen"
    and "ga_waitGreen (gs_anim g) < ga_timer (gs_anim g) + (now - old) / 1000"
  shows "fst (glass_frame now act g h) =
           g\<lparr>gs_wasAnimating := True, gs_clock := Some now,
             gs_anim := (gs_anim g)\<lparr>ga_timer := 0, ga_state := ToClear\<rparr>\<rparr>"
proof -
  obtain mid ms where ms: "gs_materials g = mid # ms"
    using assms(1) by (cases "gs_materials g") (auto simp: should_animate_def)
  let ?a = "(gs_anim g)\<lparr>ga_timer := 0, ga_state := ToClear\<rparr>"
  obtain a2 h2 where lp: "glass_loop ?a h ms (gs_origColors g) (gs_origOpacities g) (Suc 0) = (a2, h2)"
    by (cases "glass_loop ?a h ms (gs_origColors g) (gs_origOpacities g) (Suc 0)") blast
  have "a2 = ?a" using glass_loop_mid_clear(1) [of ?a h ms "gs_origColors g" "gs_origOpacities g" "Suc 0"] lp
    by simp
  with assms ms lp show ?thesis
    by (simp add: glass_frame_animating glass_mat_step_def)
qed

lemma glass_frame_mid_clear:
  assumes "should_animate act g" and "gs_clock g = Some old" and "ga_state (gs_anim g) = ToClear"
    and "(ga_timer (gs_anim g) + (now - old) / 1000) / ga_duration (gs_anim g) < 1"
    and "distinct (gs_materials g)" and "j < length (gs_materials g)" and "gs_materials g ! j < length h"
  shows "ga_state (gs_anim (fst (glass_frame now act g h))) = ToClear"
    and "snd (glass_frame now act g h) ! (gs_materials g ! j) =
           (h ! (gs_materials g ! j))\<lparr>
              m_color := lerp3 (gs_origColors g ! j) white
                (smoothstep ((ga_timer (gs_anim g) + (now - old) / 1000) / ga_duration (gs_anim g))),
              m_opacity := lerp (gs_origOpacities g ! j) 0
                (smoothstep ((ga_timer (gs_anim g) + (now - old) / 1000) / ga_duration (gs_anim g)))\<rparr>"
proof -
  let ?a = "(gs_anim g)\<lparr>ga_timer := ga_timer (gs_anim g) + (now - old) / 1000\<rparr>"
  have fr: "glass_frame now act g h = (g\<lparr>gs_wasAnimating := True, gs_clock := Some now,
      gs_anim := fst (glass_loop ?a h (gs_materials g) (gs_origColors g) (gs_origOpacities g) 0)\<rparr>,
      snd (glass_loop ?a h (gs_materials g) (gs_origColors g) (gs_origOpacities g) 0))"
    using assms(1,2) by (simp add: glass_frame_animating split: prod.split)
  show "ga_state (gs_anim (fst (glass_frame now act g h))) = ToClear"
    using assms(3,4) by (simp add: fr glass_loop_mid_clear(1))
  show "snd (glass_frame now act g h) ! (gs_materials g ! j) =
           (h ! (gs_materials g ! j))\<lparr>
              m_color := lerp3 (gs_origColors g ! j) white
                (smoothstep ((ga_timer (gs_anim g) + (now - old) / 1000) / ga_duration (gs_anim g))),
              m_opacity := lerp (gs_origOpacities g ! j) 0
                (smoothstep ((ga_timer (gs_anim g) + (now - old) / 1000) / ga_duration (gs_anim g)))\<rparr>"
    using glass_loop_mid_clear_nth [of ?a, OF _ _ assms(5-7)] assms(3,4) by (simp add: fr)
qed

text \<open>A frame keeps the glass invariant when time does not run backwards.\<close>

lemma glass_frame_inv:
  assumes "glass_inv g h" and "\<forall>old. gs_clock g = Some old \<longrightarrow> old \<le> now"
  shows "glass_inv (fst (glass_frame now act g h)) (snd (glass_frame now act g h))"
proof (cases "should_animate act g")
  case True
  obtain d clk where dl: "clock_getDelta now (gs_clock g) = (d, clk)"
    by (cases "clock_getDelta now (gs_clock g)") blast
  have "0 \<le> d" using clock_getDelta_nonneg [OF assms(2)] dl by simp
  obtain a' h' where lp: "glass_loop ((gs_anim g)\<lparr>ga_timer := ga_timer (gs_anim g) + d\<rparr>) h
      (gs_materials g) (gs_origColors g) (gs_origOpacities g) 0 = (a', h')"
    by (cases "glass_loop ((gs_anim g)\<lparr>ga_timer := ga_timer (gs_anim g) + d\<rparr>) h
      (gs_materials g) (gs_origColors g) (gs_origOpacities g) 0") blast
  have fr: "glass_frame now act g h = (g\<lparr>gs_wasAnimating := True, gs_clock := clk, gs_anim := a'\<rparr>, h')"
    using True dl lp by (simp add: glass_frame_def)
  have "(\<forall>mid \<in> set (gs_materials g). mid < length h' \<and> mat_in_unit (h' ! mid))
        \<and> 0 \<le> ga_timer a' \<and> ga_duration a' = ga_duration (gs_anim g)"
    using glass_loop_unit [OF lp, where S = "set (gs_materials g)"] assms(1) \<open>0 \<le> d\<close>
      glass_inv_rest_values [OF assms(1)]
    unfolding glass_inv_def by simp
  with assms(1) show ?thesis unfolding fr glass_inv_def by simp
next
  case False
  note rv = glass_inv_rest_values [OF assms(1)]
  show ?thesis
  proof (cases "gs_wasAnimating g")
    case True
    with False have fr: "glass_frame now act g h =
        (g\<lparr>gs_anim := (gs_anim g)\<lparr>ga_state := WaitGreen, ga_timer := 0\<rparr>, gs_wasAnimating := False\<rparr>,
         glass_reset h (gs_materials g) (gs_origColors g) (gs_origOpacities g) 0)"
      by (simp add: glass_frame_def)
    have "\<forall>mid \<in> set (gs_materials g).
        mid < length (glass_reset h (gs_materials g) (gs_origColors g) (gs_origOpacities g) 0)
      \<and> mat_in_unit (glass_reset h (gs_materials g) (gs_origColors g) (gs_origOpacities g) 0 ! mid)"
      using glass_reset_unit [OF rv, where S = "set (gs_materials g)" and h = h] assms(1)
      unfolding glass_inv_def by simp
    with assms(1) show ?thesis unfolding fr glass_inv_def by simp
  next
    case was: False
    with False assms(1) show ?thesis by (simp add: glass_frame_def)
  qed
qed


section \<open>Properties\<close>

text \<open>C1. The scenario of the specification, for any timing: lenses at rest in the dark
  wait on the gating camera, whose clock has not started. The first frame starts the clock,
  a frame more than the dark wait later starts the fade, and a frame \<open>df\<close> ms into the
  fade (short of its end) gives every lens the opacity \<open>lerp(rest, 0, e)\<close> and the colour
  \<open>lerp(rest, white, e)\<close> with \<open>e = smoothstep(df / duration)\<close>. With rest opacity 0.9,
  1001 ms and 750 ms this is the opacity 0.45 of the specification.\<close>

theorem glass_spec_scenario:
  assumes "should_animate act g" and "gs_clock g = None"
    and "ga_state (gs_anim g) = WaitGreen" and "ga_timer (gs_anim g) = 0" and "0 \<le> ga_waitGreen (gs_anim g)"
    and "1000 * ga_waitGreen (gs_anim g) < dw" and "0 \<le> df" and "df < 1000 * ga_duration (gs_anim g)"
    and "distinct (gs_materials g)" and "j < length (gs_materials g)" and "gs_materials g ! j < length h"
  shows "m_opacity (snd (glass_frames [(ts, act), (ts + dw, act), (ts + dw + df, act)] g h) ! (gs_materials g ! j))
           = lerp (gs_origOpacities g ! j) 0 (smoothstep (df / (1000 * ga_duration (gs_anim g))))
       \<and> m_color (snd (glass_frames [(ts, act), (ts + dw, act), (ts + dw + df, act)] g h) ! (gs_materials g ! j))
           = lerp3 (gs_origColors g ! j) white (smoothstep (df / (1000 * ga_duration (gs_anim g))))
       \<and> ga_state (gs_anim (fst (glass_frames [(ts, act), (ts + dw, act), (ts + dw + df, act)] g h))) = ToClear"
proof -
  let ?A = "gs_anim g"
  define g1 where "g1 = g\<lparr>gs_wasAnimating := True, gs_clock := Some ts\<rparr>"
  have f1: "glass_frame ts act g h = (g1, h)"
    using assms(1-5) by (simp add: glass_frame_def glass_loop_hold g1_def)
  have s1: "should_animate act g1" using assms(1) by (simp add: g1_def should_animate_def)
  define g2 where "g2 = fst (glass_frame (ts + dw) act g1 h)"
  define h2 where "h2 = snd (glass_frame (ts + dw) act g1 h)"
  have "fst (glass_frame (ts + dw) act g1 h) = g1\<lparr>gs_wasAnimating := True, gs_clock := Some (ts + dw),
                     gs_anim := (gs_anim g1)\<lparr>ga_timer := 0, ga_state := ToClear\<rparr>\<rparr>"
    by (rule glass_frame_starts_fade [OF s1, where old = ts]) (use assms(3,4,6) in \<open>simp_all add: g1_def\<close>)
  then have e2: "g2 = g1\<lparr>gs_wasAnimating := True, gs_clock := Some (ts + dw),
                     gs_anim := ?A\<lparr>ga_timer := 0, ga_state := ToClear\<rparr>\<rparr>"
    by (simp add: g2_def g1_def)
  have s2: "should_animate act g2" using assms(1) by (simp add: e2 g1_def should_animate_def)
  have d: "0 < ga_duration ?A" using assms(7,8) by simp
  have lt: "(0 + (ts + dw + df - (ts + dw)) / 1000) / ga_duration ?A < 1"
    using assms(8) d by (simp add: divide_less_eq)
  have arg: "(0 + (ts + dw + df - (ts + dw)) / 1000) / ga_duration ?A = df / (1000 * ga_duration ?A)"
    by simp
  have run: "glass_frames [(ts, act), (ts + dw, act), (ts + dw + df, act)] g h = glass_frame (ts + dw + df) act g2 h2"
    by (simp add: f1 g2_def h2_def split: prod.split)
  have hj: "gs_materials g2 ! j < length h2" using assms(11) by (simp add: h2_def e2 g1_def)
  note m = glass_frame_mid_clear [OF s2, of "ts + dw", where now = "ts + dw + df" and j = j and h = h2]
  show ?thesis
    using m lt hj assms(9,10) unfolding run arg [symmetric] by (simp add: e2 g1_def)
qed

theorem glass_spec_scenario_witness:
  "m_opacity (snd (glass_frames [(0, Some ''Cam_Lenses''), (1001, Some ''Cam_Lenses''), (1751, Some ''Cam_Lenses'')]
      (demo_glass WaitGreen 0 None [0, 1] False) [demo_lens, demo_lens]) ! 1) = 0.45"
proof -
  have "m_opacity (snd (glass_frames [(0, Some ''Cam_Lenses''), (0 + 1001, Some ''Cam_Lenses''), (0 + 1001 + 750, Some ''Cam_Lenses'')]
      (demo_glass WaitGreen 0 None [0, 1] False) [demo_lens, demo_lens]) ! (gs_materials (demo_glass WaitGreen 0 None [0, 1] False) ! 1))
    = lerp (gs_origOpacities (demo_glass WaitGreen 0 None [0, 1] False) ! 1) 0
        (smoothstep (750 / (1000 * ga_duration (gs_anim (demo_glass WaitGreen 0 None [0, 1] False)))))"
    using glass_spec_scenario [where act = "Some ''Cam_Lenses''" and g = "demo_glass WaitGreen 0 None [0, 1] False"
        and dw = 1001 and df = 750 and j = 1 and h = "[demo_lens, demo_lens]" and ts = 0]
    by (simp add: demo_glass_def should_animate_def glassAnim_init_def)
  then show ?thesis by (simp add: demo_glass_def glassAnim_init_def smoothstep_def lerp_def)
qed

text \<open>C2. Boundary exactness at the clear end: on the frame whose accumulated time reaches
  the fade duration, the first glass material is set to exactly white and opacity 0, and
  the shared phase becomes the clear wait with its timer reset.\<close>

theorem glass_clear_endpoint_exact:
  assumes "should_animate act g" and "gs_clock g = Some old"
    and "ga_state (gs_anim g) = ToClear" and "0 < ga_duration (gs_anim g)" and "0 \<le> ga_waitClear (gs_anim g)"
    and "ga_duration (gs_anim g) \<le> ga_timer (gs_anim g) + (now - old) / 1000"
    and "gs_materials g = mid # ms" and "mid < length h"
  shows "m_color (snd (glass_frame now act g h) ! mid) = white
       \<and> m_opacity (snd (glass_frame now act g h) ! mid) = 0
       \<and> ga_state (gs_anim (fst (glass_frame now act g h))) = WaitClear
       \<and> ga_timer (gs_anim (fst (glass_frame now act g h))) = 0"
  using assms by (simp add: glass_frame_end_simps del: glass_loop.simps)

theorem glass_clear_endpoint_exact_witness:
  "m_color (snd (glass_frame 1200 (Some ''Cam_Lenses'') (demo_glass ToClear 1.4 (Some 1000) [0] True) [demo_lens]) ! 0) = white
 \<and> m_opacity (snd (glass_frame 1200 (Some ''Cam_Lenses'') (demo_glass ToClear 1.4 (Some 1000) [0] True) [demo_lens]) ! 0) = 0
 \<and> ga_state (gs_anim (fst (glass_frame 1200 (Some ''Cam_Lenses'') (demo_glass ToClear 1.4 (Some 1000) [0] True) [demo_lens]))) = WaitClear
 \<and> ga_timer (gs_anim (fst (glass_frame 1200 (Some ''Cam_Lenses'') (demo_glass ToClear 1.4 (Some 1000) [0] True) [demo_lens]))) = 0"
  by (rule glass_clear_endpoint_exact [where old = 1000 and mid = 0 and ms = "[]"])
    (simp_all add: demo_glass_def should_animate_def glassAnim_init_def)

text \<open>C3. Boundary exactness at the dark end: on the frame that ends the fade back, the
  first glass material gets exactly its rest colour and rest opacity, and the phase
  returns to the dark wait with its timer reset.\<close>

theorem glass_dark_endpoint_exact:
  assumes "should_animate act g" and "gs_clock g = Some old"
    and "ga_state (gs_anim g) = ToGreen" and "0 < ga_duration (gs_anim g)" and "0 \<le> ga_waitGreen (gs_anim g)"
    and "ga_duration (gs_anim g) \<le> ga_timer (gs_anim g) + (now - old) / 1000"
    and "gs_materials g = mid # ms" and "mid < length h"
  shows "m_color (snd (glass_frame now act g h) ! mid) = gs_origColors g ! 0
       \<and> m_opacity (snd (glass_frame now act g h) ! mid) = gs_origOpacities g ! 0
       \<and> ga_state (gs_anim (fst (glass_frame now act g h))) = WaitGreen
       \<and> ga_timer (gs_anim (fst (glass_frame now act g h))) = 0"
  using assms by (simp add: glass_frame_end_simps del: glass_loop.simps)

theorem glass_dark_endpoint_exact_witness:
  "m_color (snd (glass_frame 1200 (Some ''Cam_Lenses'') (demo_glass ToGreen 1.4 (Some 1000) [0] True) [demo_lens]) ! 0) = (0, 0, 0)
 \<and> m_opacity (snd (glass_frame 1200 (Some ''Cam_Lenses'') (demo_glass ToGreen 1.4 (Some 1000) [0] True) [demo_lens]) ! 0) = 0.9
 \<and> ga_state (gs_anim (fst (glass_frame 1200 (Some ''Cam_Lenses'') (demo_glass ToGreen 1.4 (Some 1000) [0] True) [demo_lens]))) = WaitGreen
 \<and> ga_timer (gs_anim (fst (glass_frame 1200 (Some ''Cam_Lenses'') (demo_glass ToGreen 1.4 (Some 1000) [0] True) [demo_lens]))) = 0"
proof -
  have "m_color (snd (glass_frame 1200 (Some ''Cam_Lenses'') (demo_glass ToGreen 1.4 (Some 1000) [0] True) [demo_lens]) ! 0)
          = gs_origColors (demo_glass ToGreen 1.4 (Some 1000) [0] True) ! 0
      \<and> m_opacity (snd (glass_frame 1200 (Some ''Cam_Lenses'') (demo_glass ToGreen 1.4 (Some 1000) [0] True) [demo_lens]) ! 0)
          = gs_origOpacities (demo_glass ToGreen 1.4 (Some 1000) [0] True) ! 0
      \<and> ga_state (gs_anim (fst (glass_frame 1200 (Some ''Cam_Lenses'') (demo_glass ToGreen 1.4 (Some 1000) [0] True) [demo_lens]))) = WaitGreen
      \<and> ga_timer (gs_anim (fst (glass_frame 1200 (Some ''Cam_Lenses'') (demo_glass ToGreen 1.4 (Some 1000) [0] True) [demo_lens]))) = 0"
    by (rule glass_dark_endpoint_exact [where old = 1000 and mid = 0 and ms = "[]"])
      (simp_all add: demo_glass_def should_animate_def glassAnim_init_def)
  then show ?thesis by (simp add: demo_glass_def)
qed

text \<open>C4. The phase switch happens inside the per-material loop, so on the frame that
  ends a fade every glass material after the first is skipped: it keeps the value of the
  previous frame and never receives the endpoint of the fade.\<close>

theorem glass_endpoint_skips_later_lenses:
  assumes "should_animate act g" and "gs_clock g = Some old"
    and "ga_state (gs_anim g) = ToClear" and "0 < ga_duration (gs_anim g)" and "0 \<le> ga_waitClear (gs_anim g)"
    and "ga_duration (gs_anim g) \<le> ga_timer (gs_anim g) + (now - old) / 1000"
    and "gs_materials g = mid # ms" and "mid' \<noteq> mid"
  shows "snd (glass_frame now act g h) ! mid' = h ! mid'"
  using assms by (simp add: glass_frame_end_simps del: glass_loop.simps)

theorem glass_endpoint_skips_later_lenses_witness:
  "m_opacity (snd (glass_frame 1200 (Some ''Cam_Lenses'') (demo_glass ToClear 1.4 (Some 1000) [0, 1] True)
                     [demo_lens, demo_lens\<lparr>m_opacity := 0.2\<rparr>]) ! 1) = 0.2"
proof -
  have "snd (glass_frame 1200 (Some ''Cam_Lenses'') (demo_glass ToClear 1.4 (Some 1000) [0, 1] True)
              [demo_lens, demo_lens\<lparr>m_opacity := 0.2\<rparr>]) ! 1 = [demo_lens, demo_lens\<lparr>m_opacity := 0.2\<rparr>] ! 1"
    by (rule glass_endpoint_skips_later_lenses [where old = 1000 and mid = 0 and ms = "[1]"])
      (simp_all add: demo_glass_def should_animate_def glassAnim_init_def)
  then show ?thesis by simp
qed

text \<open>C5. Leaving the gate: on the first frame where the animation may not run after one
  where it ran, every glass material is set back to exactly its rest colour and rest
  opacity, and the phase goes back to the dark wait with timer 0.\<close>

theorem glass_leave_gate_resets:
  assumes "\<not> should_animate act g" and "gs_wasAnimating g"
    and "distinct (gs_materials g)" and "i < length (gs_materials g)" and "gs_materials g ! i < length h"
  shows "m_color (snd (glass_frame now act g h) ! (gs_materials g ! i)) = gs_origColors g ! i
       \<and> m_opacity (snd (glass_frame now act g h) ! (gs_materials g ! i)) = gs_origOpacities g ! i
       \<and> ga_state (gs_anim (fst (glass_frame now act g h))) = WaitGreen
       \<and> ga_timer (gs_anim (fst (glass_frame now act g h))) = 0
       \<and> \<not> gs_wasAnimating (fst (glass_frame now act g h))"
  using assms by (simp add: glass_frame_def glass_reset_nth)

theorem glass_leave_gate_resets_witness:
  "m_color (snd (glass_frame 1200 (Some ''Cam_Front'') (demo_glass ToClear 0.5 (Some 1000) [0, 1] True)
                   [demo_lens\<lparr>m_opacity := 0.3\<rparr>, demo_lens\<lparr>m_opacity := 0.3\<rparr>]) ! 1) = (0, 0, 0)
 \<and> m_opacity (snd (glass_frame 1200 (Some ''Cam_Front'') (demo_glass ToClear 0.5 (Some 1000) [0, 1] True)
                   [demo_lens\<lparr>m_opacity := 0.3\<rparr>, demo_lens\<lparr>m_opacity := 0.3\<rparr>]) ! 1) = 0.9
 \<and> ga_state (gs_anim (fst (glass_frame 1200 (Some ''Cam_Front'') (demo_glass ToClear 0.5 (Some 1000) [0, 1] True)
                   [demo_lens\<lparr>m_opacity := 0.3\<rparr>, demo_lens\<lparr>m_opacity := 0.3\<rparr>]))) = WaitGreen"
  using glass_leave_gate_resets [where act = "Some ''Cam_Front''" and g = "demo_glass ToClear 0.5 (Some 1000) [0, 1] True"
      and i = 1 and h = "[demo_lens\<lparr>m_opacity := 0.3\<rparr>, demo_lens\<lparr>m_opacity := 0.3\<rparr>]" and now = 1200]
  by (simp add: demo_glass_def should_animate_def)

text \<open>C6. Bounds: with time not running backwards, a frame keeps every glass material's
  colour and opacity in [0, 1] (given rest values in [0, 1]), and keeps the rest of the
  invariant.\<close>

theorem glass_frame_keeps_unit:
  assumes "glass_inv g h" and "\<forall>old. gs_clock g = Some old \<longrightarrow> old \<le> now"
  shows "glass_inv (fst (glass_frame now act g h)) (snd (glass_frame now act g h))"
  using assms by (rule glass_frame_inv)

theorem glass_frame_keeps_unit_witness:
  "glass_inv (fst (glass_frame 1751 (Some ''Cam_Lenses'') (demo_glass ToClear 0 (Some 1001) [0] True) [demo_lens]))
             (snd (glass_frame 1751 (Some ''Cam_Lenses'') (demo_glass ToClear 0 (Some 1001) [0] True) [demo_lens]))"
  by (rule glass_frame_keeps_unit)
    (simp_all add: glass_inv_def demo_glass_def demo_lens_def glassAnim_init_def mat_in_unit_def
       mesh_physical_material_def mesh_standard_material_def in_unit_def)

text \<open>C7. Re-entering the gate: the clock is read only on animating frames, so the first
  frame back on the gating camera receives as its delta all the time since the last
  animating frame, including the time spent on other cameras. Whenever that exceeds the
  dark wait, the lenses start their fade on the very frame they return, whatever the time
  of the frame that left the gate: the 1 s dark wait the reset promises is skipped.\<close>

theorem glass_reentry_skips_dark_wait:
  assumes "should_animate act g" and "gs_wasAnimating g" and "gs_clock g = Some old"
    and "\<not> should_animate act' g" and "1000 * ga_waitGreen (gs_anim g) < tback - old"
  shows "ga_state (gs_anim (fst (glass_frame tback act (fst (glass_frame tleave act' g h))
                                                     (snd (glass_frame tleave act' g h))))) = ToClear"
proof -
  define g1 where "g1 = g\<lparr>gs_anim := (gs_anim g)\<lparr>ga_state := WaitGreen, ga_timer := 0\<rparr>, gs_wasAnimating := False\<rparr>"
  have l: "fst (glass_frame tleave act' g h) = g1" using assms(2,4) by (simp add: glass_frame_def g1_def)
  have "should_animate act g1" using assms(1) by (simp add: g1_def should_animate_def)
  then have "fst (glass_frame tback act g1 (snd (glass_frame tleave act' g h))) =
      g1\<lparr>gs_wasAnimating := True, gs_clock := Some tback,
         gs_anim := (gs_anim g1)\<lparr>ga_timer := 0, ga_state := ToClear\<rparr>\<rparr>"
    by (rule glass_frame_starts_fade [where old = old]) (use assms(3,5) in \<open>simp_all add: g1_def\<close>)
  then show ?thesis by (simp add: l)
qed

theorem glass_reentry_skips_dark_wait_witness:
  "ga_state (gs_anim (fst (glass_frame 10000 (Some ''Cam_Lenses'')
      (fst (glass_frame 600 (Some ''Cam_Front'') (demo_glass ToClear 0.5 (Some 500) [0] True) [demo_lens]))
      (snd (glass_frame 600 (Some ''Cam_Front'') (demo_glass ToClear 0.5 (Some 500) [0] True) [demo_lens]))))) = ToClear"
  by (rule glass_reentry_skips_dark_wait [where old = 500])
    (simp_all add: demo_glass_def should_animate_def glassAnim_init_def)

end
