(* ===== verification/Camera.thy ===== *)
theory Camera
  imports Prelude
begin

text \<open>
  The Camera Transition State Machine of \<open>src/main.js\<close>. The entries of
  \<open>cameraTargets\<close> (lines 183 to 188) are \<open>cam_data\<close>; the \<open>transition\<close> object
  (lines 524 to 532) is the record \<open>transition\<close>; the perspective camera, the orbit
  controls and \<open>activeCameraName\<close> together are the \<open>camera_rig\<close>.
  \<open>smoothSwitchCamera\<close> (lines 662 to 701) is \<open>smooth_switch_camera\<close> and the
  transition and controls blocks of \<open>animate\<close> (lines 722 to 750) are \<open>camera_frame\<close>.
  Three operations belong to three.js and are parameters of the model, collected in the
  record \<open>engine\<close>: \<open>Quaternion.slerp\<close>, \<open>Object3D.lookAt\<close> (the orientation
  that looks from a position at a target) and \<open>OrbitControls.update\<close> (which moves the
  camera about the controls' target from the user's pointer input). The one fact of
  three.js the properties use is that \<open>slerp\<close> returns its first argument at 0 and its
  second at 1 (\<open>slerp_endpoints\<close>): the library tests for exactly these two values.
  Timestamps are milliseconds, as \<open>performance.now()\<close> and the
  \<open>requestAnimationFrame\<close> argument are.
\<close>

record cam_data =
  cd_position :: vec3
  cd_quaternion :: quat
  cd_target :: vec3
  cd_fov :: real

record transition =
  tr_active :: bool
  tr_startTime :: real
  tr_duration :: real
  tr_fromPos :: vec3
  tr_toPos :: vec3
  tr_fromQuat :: quat
  tr_toQuat :: quat

record camera =
  cam_position :: vec3
  cam_quaternion :: quat
  cam_fov :: real

record controls =
  ctl_enabled :: bool
  ctl_target :: vec3

record camera_rig =
  rig_camera :: camera
  rig_controls :: controls
  rig_transition :: transition
  rig_active :: "string option"

record engine =
  eng_slerp :: "quat \<Rightarrow> quat \<Rightarrow> real \<Rightarrow> quat"
  eng_lookAt :: "vec3 \<Rightarrow> vec3 \<Rightarrow> quat"
  eng_orbit :: "vec3 \<Rightarrow> camera \<Rightarrow> camera"

definition slerp_endpoints :: "engine \<Rightarrow> bool" where
  "slerp_endpoints eng \<longleftrightarrow> (\<forall>a b. eng_slerp eng a b 0 = a \<and> eng_slerp eng a b 1 = b)"

text \<open>The free-roam camera's name, hard-coded at lines 179, 669 and 734.\<close>

definition CAM_FREE :: string where
  "CAM_FREE = ''Cam_Free''"

text \<open>The start state: the camera of lines 508 to 513 (field of view 80, at the origin,
  identity orientation), the controls disabled (line 569), no transition in flight
  (lines 524 to 532) and no active camera (line 41).\<close>

definition identity_quat :: quat where
  "identity_quat = (0, 0, 0, 1)"

definition rig_init :: camera_rig where
  "rig_init = \<lparr>
     rig_camera = \<lparr>cam_position = (0, 0, 0), cam_quaternion = identity_quat, cam_fov = 80\<rparr>,
     rig_controls = \<lparr>ctl_enabled = False, ctl_target = (0, 0, 0)\<rparr>,
     rig_transition = \<lparr>tr_active = False, tr_startTime = 0, tr_duration = 0.8,
                       tr_fromPos = (0, 0, 0), tr_toPos = (0, 0, 0),
                       tr_fromQuat = identity_quat, tr_toQuat = identity_quat\<rparr>,
     rig_active = None \<rparr>"

text \<open>Lines 662 to 701. The active name is set before the lookup, so a name with no
  camera still becomes the active camera name.\<close>

definition smooth_switch_camera ::
  "engine \<Rightarrow> (string \<rightharpoonup> cam_data) \<Rightarrow> real \<Rightarrow> string \<Rightarrow> camera_rig \<Rightarrow> camera_rig" where
  "smooth_switch_camera eng targets now name rig =
     (let rig1 = rig\<lparr>rig_active := Some name\<rparr>
      in case targets name of
           None \<Rightarrow> rig1
         | Some cd \<Rightarrow>
             (if name = CAM_FREE then
                (let cam1 = (rig_camera rig)\<lparr>cam_position := cd_position cd,
                                             cam_quaternion := eng_lookAt eng (cd_position cd) (cd_target cd)\<rparr>
                 in rig1\<lparr>rig_transition := (rig_transition rig)\<lparr>tr_active := False\<rparr>,
                         rig_camera := eng_orbit eng (cd_target cd) cam1,
                         rig_controls := \<lparr>ctl_enabled = True, ctl_target = cd_target cd\<rparr>\<rparr>)
              else
                rig1\<lparr>rig_controls := (rig_controls rig)\<lparr>ctl_enabled := False\<rparr>,
                     rig_camera := (rig_camera rig)\<lparr>cam_fov := cd_fov cd\<rparr>,
                     rig_transition := (rig_transition rig)\<lparr>
                        tr_fromPos := cam_position (rig_camera rig),
                        tr_fromQuat := cam_quaternion (rig_camera rig),
                        tr_toPos := cd_position cd, tr_toQuat := cd_quaternion cd,
                        tr_startTime := now, tr_active := True\<rparr>\<rparr>))"

text \<open>Lines 722 to 743: one frame of the transition at \<open>requestAnimationFrame\<close> time
  \<open>time\<close>. Progress is clamped from above only.\<close>

definition transition_frame :: "engine \<Rightarrow> real \<Rightarrow> camera_rig \<Rightarrow> camera_rig" where
  "transition_frame eng time rig =
     (let tr = rig_transition rig
      in if tr_active tr then
           (let elapsed = (time - tr_startTime tr) / 1000;
                t = min (elapsed / tr_duration tr) 1;
                e = smoothstep t;
                cam1 = (rig_camera rig)\<lparr>cam_position := lerp3 (tr_fromPos tr) (tr_toPos tr) e\<rparr>;
                cam2 = (if rig_active rig \<noteq> Some CAM_FREE
                        then cam1\<lparr>cam_quaternion := eng_slerp eng (tr_fromQuat tr) (tr_toQuat tr) e\<rparr>
                        else cam1)
            in rig\<lparr>rig_camera := cam2,
                   rig_transition := (if t \<ge> 1 then tr\<lparr>tr_active := False\<rparr> else tr)\<rparr>)
         else rig)"

text \<open>Lines 748 to 750: the orbit controls update the camera while they are enabled.\<close>

definition controls_frame :: "engine \<Rightarrow> camera_rig \<Rightarrow> camera_rig" where
  "controls_frame eng rig =
     (if ctl_enabled (rig_controls rig)
      then rig\<lparr>rig_camera := eng_orbit eng (ctl_target (rig_controls rig)) (rig_camera rig)\<rparr>
      else rig)"

definition camera_frame :: "engine \<Rightarrow> real \<Rightarrow> camera_rig \<Rightarrow> camera_rig" where
  "camera_frame eng time rig = controls_frame eng (transition_frame eng time rig)"

text \<open>The invariant of the rig: the orbit controls are never enabled while a transition
  is in flight, and the transition duration is positive.\<close>

definition camera_inv :: "camera_rig \<Rightarrow> bool" where
  "camera_inv rig \<longleftrightarrow>
     (ctl_enabled (rig_controls rig) \<longrightarrow> \<not> tr_active (rig_transition rig)) \<and>
     0 < tr_duration (rig_transition rig)"

text \<open>A concrete engine for the witnesses: component-wise interpolation of quaternions
  (exact at 0 and 1, as \<open>slerp\<close> is), a fixed orientation for \<open>lookAt\<close>, and orbit
  controls with no user input.\<close>

fun lerp4 :: "quat \<Rightarrow> quat \<Rightarrow> real \<Rightarrow> quat" where
  "lerp4 (a1, a2, a3, a4) (b1, b2, b3, b4) e =
     (a1 + (b1 - a1) * e, a2 + (b2 - a2) * e, a3 + (b3 - a3) * e, a4 + (b4 - a4) * e)"

definition demo_engine :: engine where
  "demo_engine = \<lparr>eng_slerp = lerp4, eng_lookAt = (\<lambda>p t. identity_quat), eng_orbit = (\<lambda>t c. c)\<rparr>"


text \<open>A run of frames (the render loop calls \<open>animate\<close> once per display refresh).\<close>

fun camera_frames :: "engine \<Rightarrow> real list \<Rightarrow> camera_rig \<Rightarrow> camera_rig" where
  "camera_frames eng [] rig = rig"
| "camera_frames eng (t # ts) rig = camera_frames eng ts (camera_frame eng t rig)"

section \<open>Lemmas\<close>

lemma slerp_endpoints_demo [simp]: "slerp_endpoints demo_engine"
  by (simp add: slerp_endpoints_def demo_engine_def)

lemma slerp_at_0: "slerp_endpoints eng \<Longrightarrow> eng_slerp eng a b 0 = a"
  and slerp_at_1: "slerp_endpoints eng \<Longrightarrow> eng_slerp eng a b 1 = b"
  unfolding slerp_endpoints_def by blast+

lemma smoothstep_neg_pos: "t < 0 \<Longrightarrow> 0 < smoothstep t"
proof -
  assume t: "t < 0"
  then have "0 < t * t" by (simp add: mult_neg_neg)
  moreover have "0 < 3 - 2 * t" using t by linarith
  ultimately show ?thesis by (simp add: smoothstep_def)
qed

lemma lerp3_stays_start: "lerp3 a b e = a \<Longrightarrow> e \<noteq> 0 \<Longrightarrow> a = b"
  by (cases a; cases b) simp

lemma progress_full:
  fixes d :: real
  assumes "0 < d" and "s + 1000 * d \<le> time"
  shows "min ((time - s) / (1000 * d)) 1 = 1"
proof -
  have "d \<le> (time - s) / 1000" using assms(2) by simp
  then have "1 \<le> (time - s) / (1000 * d)" using assms(1) by (simp add: le_divide_eq)
  then show ?thesis by simp
qed

lemma transition_frame_controls [simp]: "rig_controls (transition_frame eng time rig) = rig_controls rig"
  and transition_frame_active [simp]: "rig_active (transition_frame eng time rig) = rig_active rig"
  and transition_frame_duration [simp]:
    "tr_duration (rig_transition (transition_frame eng time rig)) = tr_duration (rig_transition rig)"
  by (simp_all add: transition_frame_def Let_def)

lemma controls_frame_fields [simp]:
  "rig_controls (controls_frame eng rig) = rig_controls rig"
  "rig_transition (controls_frame eng rig) = rig_transition rig"
  "rig_active (controls_frame eng rig) = rig_active rig"
  by (simp_all add: controls_frame_def)

lemma controls_frame_disabled: "\<not> ctl_enabled (rig_controls rig) \<Longrightarrow> controls_frame eng rig = rig"
  by (simp add: controls_frame_def)

lemma transition_frame_idle: "\<not> tr_active (rig_transition rig) \<Longrightarrow> transition_frame eng time rig = rig"
  by (simp add: transition_frame_def)

lemma camera_frame_keeps_inv: "camera_inv rig \<Longrightarrow> camera_inv (camera_frame eng time rig)"
  by (auto simp: camera_inv_def camera_frame_def transition_frame_def Let_def)

lemma camera_inv_init: "camera_inv rig_init"
  by (simp add: camera_inv_def rig_init_def)

lemma smooth_switch_keeps_inv:
  "camera_inv rig \<Longrightarrow> camera_inv (smooth_switch_camera eng targets now name rig)"
  by (cases "targets name") (simp_all add: camera_inv_def smooth_switch_camera_def Let_def)

lemma camera_frames_idle:
  "\<not> tr_active (rig_transition rig) \<Longrightarrow>
   \<not> tr_active (rig_transition (camera_frames eng ts rig))
   \<and> rig_controls (camera_frames eng ts rig) = rig_controls rig"
  by (induction ts arbitrary: rig) (simp_all add: camera_frame_def transition_frame_idle)

section \<open>Properties\<close>

text \<open>C9. A transition started by a switch ends exactly at the requested camera: on a frame
  at least the duration (0.8 s) after the start, the camera's position and orientation
  are the stored ones of the target camera and the transition is idle again.\<close>

theorem camera_transition_reaches_target:
  assumes "camera_inv rig" and "tr_active (rig_transition rig)" and "slerp_endpoints eng"
    and "rig_active rig \<noteq> Some CAM_FREE"
    and "tr_startTime (rig_transition rig) + 1000 * tr_duration (rig_transition rig) \<le> time"
  shows "cam_position (rig_camera (camera_frame eng time rig)) = tr_toPos (rig_transition rig)
       \<and> cam_quaternion (rig_camera (camera_frame eng time rig)) = tr_toQuat (rig_transition rig)
       \<and> \<not> tr_active (rig_transition (camera_frame eng time rig))"
proof -
  have d: "0 < tr_duration (rig_transition rig)" and off: "\<not> ctl_enabled (rig_controls rig)"
    using assms(1,2) by (auto simp: camera_inv_def)
  have one: "min ((time - tr_startTime (rig_transition rig)) / (1000 * tr_duration (rig_transition rig))) 1 = 1"
    using progress_full [OF d assms(5)] .
  show ?thesis
    using assms(2-4) off one
    by (simp add: camera_frame_def controls_frame_disabled transition_frame_def Let_def slerp_at_0 slerp_at_1)
qed

theorem camera_transition_reaches_target_witness:
  "cam_position (rig_camera (camera_frame demo_engine 1000
      (rig_init\<lparr>rig_active := Some ''Cam_Front'',
                rig_transition := (rig_transition rig_init)\<lparr>tr_active := True, tr_startTime := 100, tr_toPos := (0, 0, 2)\<rparr>\<rparr>)))
     = (0, 0, 2)
 \<and> cam_quaternion (rig_camera (camera_frame demo_engine 1000
      (rig_init\<lparr>rig_active := Some ''Cam_Front'',
                rig_transition := (rig_transition rig_init)\<lparr>tr_active := True, tr_startTime := 100, tr_toPos := (0, 0, 2)\<rparr>\<rparr>)))
     = identity_quat
 \<and> \<not> tr_active (rig_transition (camera_frame demo_engine 1000
      (rig_init\<lparr>rig_active := Some ''Cam_Front'',
                rig_transition := (rig_transition rig_init)\<lparr>tr_active := True, tr_startTime := 100, tr_toPos := (0, 0, 2)\<rparr>\<rparr>)))"
  using camera_transition_reaches_target [where eng = demo_engine and time = 1000 and
      rig = "rig_init\<lparr>rig_active := Some ''Cam_Front'',
                rig_transition := (rig_transition rig_init)\<lparr>tr_active := True, tr_startTime := 100, tr_toPos := (0, 0, 2)\<rparr>\<rparr>"]
  by (simp add: camera_inv_def rig_init_def CAM_FREE_def)

text \<open>C10. At the start of a transition (elapsed time 0) the camera is exactly at the
  captured starting position and orientation, and the transition is still running.\<close>

theorem camera_transition_starts_from:
  assumes "camera_inv rig" and "tr_active (rig_transition rig)" and "slerp_endpoints eng"
    and "rig_active rig \<noteq> Some CAM_FREE"
  shows "cam_position (rig_camera (camera_frame eng (tr_startTime (rig_transition rig)) rig)) = tr_fromPos (rig_transition rig)
       \<and> cam_quaternion (rig_camera (camera_frame eng (tr_startTime (rig_transition rig)) rig)) = tr_fromQuat (rig_transition rig)
       \<and> tr_active (rig_transition (camera_frame eng (tr_startTime (rig_transition rig)) rig))"
proof -
  have off: "\<not> ctl_enabled (rig_controls rig)" using assms(1,2) by (auto simp: camera_inv_def)
  show ?thesis
    using assms(2-4) off
    by (simp add: camera_frame_def controls_frame_disabled transition_frame_def Let_def slerp_at_0 slerp_at_1)
qed

theorem camera_transition_starts_from_witness:
  "cam_position (rig_camera (camera_frame demo_engine 100
      (rig_init\<lparr>rig_active := Some ''Cam_Front'',
                rig_transition := (rig_transition rig_init)\<lparr>tr_active := True, tr_startTime := 100, tr_toPos := (0, 0, 2)\<rparr>\<rparr>)))
     = (0, 0, 0)
 \<and> tr_active (rig_transition (camera_frame demo_engine 100
      (rig_init\<lparr>rig_active := Some ''Cam_Front'',
                rig_transition := (rig_transition rig_init)\<lparr>tr_active := True, tr_startTime := 100, tr_toPos := (0, 0, 2)\<rparr>\<rparr>)))"
  using camera_transition_starts_from [where eng = demo_engine and
      rig = "rig_init\<lparr>rig_active := Some ''Cam_Front'',
                rig_transition := (rig_transition rig_init)\<lparr>tr_active := True, tr_startTime := 100, tr_toPos := (0, 0, 2)\<rparr>\<rparr>"]
  by (simp add: camera_inv_def rig_init_def CAM_FREE_def)

text \<open>C11. Switching to the free-roam camera when it exists never engages the transition:
  the transition is idle and the orbit controls are enabled, aimed at the camera's
  target, and both stay so over any run of frames that follows.\<close>

theorem camera_free_never_transitions:
  assumes "targets CAM_FREE = Some cd"
  shows "\<not> tr_active (rig_transition (camera_frames eng ts (smooth_switch_camera eng targets now CAM_FREE rig)))
       \<and> ctl_enabled (rig_controls (camera_frames eng ts (smooth_switch_camera eng targets now CAM_FREE rig)))
       \<and> ctl_target (rig_controls (camera_frames eng ts (smooth_switch_camera eng targets now CAM_FREE rig))) = cd_target cd"
proof -
  let ?r = "smooth_switch_camera eng targets now CAM_FREE rig"
  have "\<not> tr_active (rig_transition ?r)" and "rig_controls ?r = \<lparr>ctl_enabled = True, ctl_target = cd_target cd\<rparr>"
    using assms by (simp_all add: smooth_switch_camera_def Let_def)
  then show ?thesis using camera_frames_idle [of ?r eng ts] by simp
qed

theorem camera_free_never_transitions_witness:
  "\<not> tr_active (rig_transition (camera_frames demo_engine [16, 32]
        (smooth_switch_camera demo_engine [CAM_FREE \<mapsto> \<lparr>cd_position = (0, 0, 1), cd_quaternion = identity_quat,
              cd_target = (0, 0, 0), cd_fov = 40\<rparr>] 0 CAM_FREE rig_init)))
 \<and> ctl_enabled (rig_controls (camera_frames demo_engine [16, 32]
        (smooth_switch_camera demo_engine [CAM_FREE \<mapsto> \<lparr>cd_position = (0, 0, 1), cd_quaternion = identity_quat,
              cd_target = (0, 0, 0), cd_fov = 40\<rparr>] 0 CAM_FREE rig_init)))
 \<and> ctl_target (rig_controls (camera_frames demo_engine [16, 32]
        (smooth_switch_camera demo_engine [CAM_FREE \<mapsto> \<lparr>cd_position = (0, 0, 1), cd_quaternion = identity_quat,
              cd_target = (0, 0, 0), cd_fov = 40\<rparr>] 0 CAM_FREE rig_init))) = (0, 0, 0)"
  using camera_free_never_transitions [where targets = "[CAM_FREE \<mapsto> \<lparr>cd_position = (0, 0, 1), cd_quaternion = identity_quat,
              cd_target = (0, 0, 0), cd_fov = 40\<rparr>]" and cd = "\<lparr>cd_position = (0, 0, 1), cd_quaternion = identity_quat,
              cd_target = (0, 0, 0), cd_fov = 40\<rparr>" and eng = demo_engine and ts = "[16, 32]" and now = 0 and rig = rig_init]
  by simp

text \<open>C12. A switch to a stored camera other than the free one restarts the transition from
  the camera's current pose, which mid-transition is the interpolated one, never from the
  previous target; the target's field of view applies at once and the controls turn off.\<close>

theorem camera_switch_restarts_from_current:
  assumes "targets name = Some cd" and "name \<noteq> CAM_FREE"
  shows "tr_fromPos (rig_transition (smooth_switch_camera eng targets now name rig)) = cam_position (rig_camera rig)
       \<and> tr_fromQuat (rig_transition (smooth_switch_camera eng targets now name rig)) = cam_quaternion (rig_camera rig)
       \<and> tr_toPos (rig_transition (smooth_switch_camera eng targets now name rig)) = cd_position cd
       \<and> tr_toQuat (rig_transition (smooth_switch_camera eng targets now name rig)) = cd_quaternion cd
       \<and> tr_startTime (rig_transition (smooth_switch_camera eng targets now name rig)) = now
       \<and> tr_active (rig_transition (smooth_switch_camera eng targets now name rig))
       \<and> cam_fov (rig_camera (smooth_switch_camera eng targets now name rig)) = cd_fov cd
       \<and> \<not> ctl_enabled (rig_controls (smooth_switch_camera eng targets now name rig))"
  using assms by (simp add: smooth_switch_camera_def Let_def)

text \<open>The witness switches half-way through a transition from the origin to (2, 0, 0):
  the new transition starts at (1, 0, 0), where the camera is.\<close>

theorem camera_switch_restarts_from_current_witness:
  "tr_fromPos (rig_transition (smooth_switch_camera demo_engine
      [''Cam_Side'' \<mapsto> \<lparr>cd_position = (0, 3, 0), cd_quaternion = identity_quat, cd_target = (0, 0, 0), cd_fov = 40\<rparr>]
      500 ''Cam_Side''
      (camera_frame demo_engine 500
        (rig_init\<lparr>rig_active := Some ''Cam_Front'',
                  rig_transition := (rig_transition rig_init)\<lparr>tr_active := True, tr_startTime := 100, tr_toPos := (2, 0, 0)\<rparr>\<rparr>))))
   = (1, 0, 0)"
proof -
  let ?r = "camera_frame demo_engine 500
        (rig_init\<lparr>rig_active := Some ''Cam_Front'',
                  rig_transition := (rig_transition rig_init)\<lparr>tr_active := True, tr_startTime := 100, tr_toPos := (2, 0, 0)\<rparr>\<rparr>)"
  have mid: "cam_position (rig_camera ?r) = (1, 0, 0)"
    by (simp add: camera_frame_def transition_frame_def controls_frame_def rig_init_def Let_def
        smoothstep_def CAM_FREE_def)
  have "tr_fromPos (rig_transition (smooth_switch_camera demo_engine
      [''Cam_Side'' \<mapsto> \<lparr>cd_position = (0, 3, 0), cd_quaternion = identity_quat, cd_target = (0, 0, 0), cd_fov = 40\<rparr>]
      500 ''Cam_Side'' ?r)) = cam_position (rig_camera ?r)"
    using camera_switch_restarts_from_current [where name = "''Cam_Side''" and eng = demo_engine and now = 500 and rig = ?r
        and targets = "[''Cam_Side'' \<mapsto> \<lparr>cd_position = (0, 3, 0), cd_quaternion = identity_quat, cd_target = (0, 0, 0), cd_fov = 40\<rparr>]"
        and cd = "\<lparr>cd_position = (0, 3, 0), cd_quaternion = identity_quat, cd_target = (0, 0, 0), cd_fov = 40\<rparr>"]
    by (simp add: CAM_FREE_def)
  with mid show ?thesis by simp
qed

text \<open>C13. The rig invariant (controls never enabled during a transition, positive
  duration) holds initially and is kept by every switch and every frame.\<close>

theorem camera_inv_preserved:
  "camera_inv rig_init
 \<and> (camera_inv rig \<longrightarrow> camera_inv (smooth_switch_camera eng targets now name rig))
 \<and> (camera_inv rig \<longrightarrow> camera_inv (camera_frame eng time rig))"
proof (intro conjI impI)
  show "camera_inv rig_init" by (rule camera_inv_init)
next
  assume inv: "camera_inv rig"
  then show "camera_inv (smooth_switch_camera eng targets now name rig)" by (rule smooth_switch_keeps_inv)
next
  assume "camera_inv rig"
  then show "camera_inv (camera_frame eng time rig)" by (rule camera_frame_keeps_inv)
qed

theorem camera_inv_preserved_witness:
  "camera_inv (camera_frame demo_engine 16 (smooth_switch_camera demo_engine
      [''Cam_Side'' \<mapsto> \<lparr>cd_position = (0, 3, 0), cd_quaternion = identity_quat, cd_target = (0, 0, 0), cd_fov = 40\<rparr>]
      0 ''Cam_Side'' rig_init))"
proof -
  have i0: "camera_inv rig_init" using camera_inv_preserved by blast
  have i1: "camera_inv (smooth_switch_camera demo_engine
      [''Cam_Side'' \<mapsto> \<lparr>cd_position = (0, 3, 0), cd_quaternion = identity_quat, cd_target = (0, 0, 0), cd_fov = 40\<rparr>]
      0 ''Cam_Side'' rig_init)"
    using camera_inv_preserved i0 by blast
  show ?thesis using camera_inv_preserved i1 by blast
qed

text \<open>C14. Progress is clamped from above only: on a frame whose timestamp precedes the
  transition's start (a \<open>requestAnimationFrame\<close> time can be earlier than the
  \<open>performance.now()\<close> read in the click handler), the ease of the negative progress is
  positive and the camera leaves its starting position, where a clamp to [0, 1] would keep it.\<close>

theorem camera_no_lower_clamp:
  assumes "tr_active (rig_transition rig)" and "0 < tr_duration (rig_transition rig)"
    and "time < tr_startTime (rig_transition rig)"
    and "tr_fromPos (rig_transition rig) \<noteq> tr_toPos (rig_transition rig)"
  shows "cam_position (rig_camera (transition_frame eng time rig)) \<noteq> tr_fromPos (rig_transition rig)"
proof
  let ?t = "(time - tr_startTime (rig_transition rig)) / (1000 * tr_duration (rig_transition rig))"
  have neg: "?t < 0" using assms(2,3) by (simp add: divide_neg_pos)
  then have m: "min ?t 1 = ?t" by simp
  have nz: "smoothstep ?t \<noteq> 0" using smoothstep_neg_pos [OF neg] by simp
  have pos: "cam_position (rig_camera (transition_frame eng time rig))
      = lerp3 (tr_fromPos (rig_transition rig)) (tr_toPos (rig_transition rig)) (smoothstep ?t)"
    using assms(1) m by (simp add: transition_frame_def Let_def)
  assume "cam_position (rig_camera (transition_frame eng time rig)) = tr_fromPos (rig_transition rig)"
  with pos nz have "tr_fromPos (rig_transition rig) = tr_toPos (rig_transition rig)"
    using lerp3_stays_start by metis
  with assms(4) show False ..
qed

theorem camera_no_lower_clamp_witness:
  "cam_position (rig_camera (transition_frame demo_engine 84
      (rig_init\<lparr>rig_transition := (rig_transition rig_init)\<lparr>tr_active := True, tr_startTime := 100, tr_toPos := (0, 0, 2)\<rparr>\<rparr>)))
   \<noteq> (0, 0, 0)"
  using camera_no_lower_clamp [where time = 84 and eng = demo_engine and
      rig = "rig_init\<lparr>rig_transition := (rig_transition rig_init)\<lparr>tr_active := True, tr_startTime := 100, tr_toPos := (0, 0, 2)\<rparr>\<rparr>"]
  by (simp add: rig_init_def)

end
