(* ===== verification/Scene.thy ===== *)
theory Scene
  imports Materials Camera
begin

text \<open>
  The loaded 3D asset and the role classification of its meshes. \<open>GLTFLoader\<close> hands
  \<open>loadModel\<close> a scene tree; the code only ever walks it with \<open>traverse\<close>
  (depth-first, parent before children), so the asset is modelled as its nodes in
  traversal order (\<open>gnode\<close>: cameras with their world position, orientation and
  effective field of view, meshes with the material the asset gives them, and other
  nodes) and the centre of its bounding box (\<open>Box3.setFromObject\<close>, computed by three.js).
  Once loaded, each mesh refers to its material by id in the material heap
  (\<open>snode\<close>); \<open>instantiate_nodes\<close> allocates the asset's own materials, one per
  mesh (multi-material meshes, whose \<open>material\<close> is an array, are not modelled).
  The name tests are those of \<open>loadModel\<close> (line 203) and \<open>applyConfig\<close> (lines
  380 to 391 and 409); \<open>mesh_role\<close> is the specification's role tag that they add up to.
\<close>

datatype gnode = GCamera string vec3 quat real | GMesh string material | GOther

record gltf =
  gt_nodes :: "gnode list"
  gt_center :: vec3

datatype snode = SCamera string vec3 quat real | SMesh string nat | SOther

fun instantiate_nodes :: "gnode list \<Rightarrow> material list \<Rightarrow> snode list \<times> material list" where
  "instantiate_nodes [] h = ([], h)"
| "instantiate_nodes (GCamera n p q f # ns) h =
     (case instantiate_nodes ns h of (ns', h') \<Rightarrow> (SCamera n p q f # ns', h'))"
| "instantiate_nodes (GMesh n m # ns) h =
     (case instantiate_nodes ns (h @ [m]) of (ns', h') \<Rightarrow> (SMesh n (length h) # ns', h'))"
| "instantiate_nodes (GOther # ns) h =
     (case instantiate_nodes ns h of (ns', h') \<Rightarrow> (SOther # ns', h'))"

section \<open>Name tests\<close>

text \<open>Line 380: \<open>obj.name.includes('Arm_Text')\<close>.\<close>

definition is_arm_text_name :: "string \<Rightarrow> bool" where
  "is_arm_text_name n \<longleftrightarrow> js_includes n ''Arm_Text''"

text \<open>Lines 385 to 391 (and the commented-out twin at 192 to 198).\<close>

definition is_frame_name :: "string \<Rightarrow> bool" where
  "is_frame_name n \<longleftrightarrow> js_includes n ''Frame'' \<or> (js_includes n ''Arm'' \<and> \<not> js_includes n ''Text'')"

text \<open>Line 203: \<open>obj.material?.name?.toLowerCase().includes('glass')\<close>.\<close>

definition is_glass_material :: "material \<Rightarrow> bool" where
  "is_glass_material m \<longleftrightarrow> js_includes (js_to_lower (m_name m)) ''glass''"

text \<open>Line 409: \<open>obj.material?.name?.toLowerCase() === 'fake'\<close>.\<close>

definition is_fake_material :: "material \<Rightarrow> bool" where
  "is_fake_material m \<longleftrightarrow> js_to_lower (m_name m) = ''fake''"

section \<open>Cameras\<close>

text \<open>Lines 171 to 189: every camera node becomes an entry of \<open>cameraTargets\<close> under its
  name, targeting the model centre; a later camera of the same name replaces an earlier
  one.\<close>

fun extract_cameras :: "vec3 \<Rightarrow> snode list \<Rightarrow> (string \<rightharpoonup> cam_data) \<Rightarrow> (string \<rightharpoonup> cam_data)" where
  "extract_cameras c [] t = t"
| "extract_cameras c (SCamera n p q f # ns) t =
     extract_cameras c ns (t(n \<mapsto> \<lparr>cd_position = p, cd_quaternion = q, cd_target = c, cd_fov = f\<rparr>))"
| "extract_cameras c (SMesh n m # ns) t = extract_cameras c ns t"
| "extract_cameras c (SOther # ns) t = extract_cameras c ns t"

section \<open>Roles\<close>

text \<open>The role tag of the specification, computed from the code's tests in the order
  they take effect: \<open>applyConfig\<close> gives arm-text meshes, then frame and arm meshes,
  their material by name, overriding the glass material \<open>loadModel\<close> gave by material
  name; the fake interior is matched on the material name last.\<close>

datatype role = RFrame | RArmNoText | RArmText | RGlass | RFakeInterior | ROther

definition mesh_role :: "string \<Rightarrow> material \<Rightarrow> role" where
  "mesh_role n m =
     (if is_arm_text_name n then RArmText
      else if js_includes n ''Frame'' then RFrame
      else if is_frame_name n then RArmNoText
      else if is_glass_material m then RGlass
      else if is_fake_material m then RFakeInterior
      else ROther)"

fun gnode_role :: "gnode \<Rightarrow> role option" where
  "gnode_role (GMesh n m) = Some (mesh_role n m)"
| "gnode_role _ = None"

end
