(* ===== verification/Viewer.thy ===== *)
theory Viewer
  imports Glass Scene
begin

text \<open>
  The whole program state of \<open>src/main.js\<close> and its operations. The module-level
  variables are the fields of the record \<open>viewer\<close>: \<open>currentConfig\<close>,
  \<open>currentModel\<close> (with the number of the load that produced it), the models attached
  to the three.js scene, the material heap and the ids disposed, \<open>logoTexture\<close>, the
  glass state (\<open>Glass\<close>), \<open>armsTextMeshes\<close>, \<open>cameraTargets\<close>, the camera rig
  (\<open>Camera\<close>), the asset requests \<open>loader.load\<close> still has in flight (each with the
  config its callback closes over), and the time of the last event.
  \<open>loadModel\<close> is split where the code is asynchronous: \<open>load_model_start\<close> is its
  synchronous part (lines 128 to 159) and \<open>load_model_complete\<close> the loader callback
  (lines 159 to 246). \<open>applyConfig\<close> (lines 253 to 478) returns a \<open>js_result\<close>: its
  \<open>currentModel.traverse\<close> throws a \<open>TypeError\<close> when no model has loaded yet, and the
  exception leaves the assignments made before it in place, so the error carries the state
  at the throw. \<open>viewer_frame\<close> is \<open>animate\<close> (lines 716 to 856).
\<close>

datatype js_error = TypeError string

datatype 'a js_result = Ok 'a | Throw js_error 'a

fun js_state :: "'a js_result \<Rightarrow> 'a" where
  "js_state (Ok s) = s"
| "js_state (Throw e s) = s"

record viewer =
  v_config :: model_config
  v_model :: "(nat \<times> snode list) option"
  v_scene :: "nat list"
  v_loads :: nat
  v_heap :: "material list"
  v_disposed :: "nat list"
  v_logo :: "texture option"
  v_glass :: glass_sys
  v_armsTextMeshes :: "nat list"
  v_targets :: "string \<rightharpoonup> cam_data"
  v_rig :: camera_rig
  v_pending :: "(nat \<times> model_config) list"
  v_now :: real

text \<open>The material ids the meshes of a model hold.\<close>

fun model_material_ids :: "snode list \<Rightarrow> nat list" where
  "model_material_ids [] = []"
| "model_material_ids (SMesh n mid # ns) = mid # model_material_ids ns"
| "model_material_ids (_ # ns) = model_material_ids ns"

text \<open>The state after the module's top level (lines 22 to 47, 485 to 532, 565 to 580):
  \<open>glassAnimationEnabled = true\<close>, no model, no active camera.\<close>

definition glass_init :: glass_sys where
  "glass_init = \<lparr>gs_materials = [], gs_origColors = [], gs_origOpacities = [], gs_anim = glassAnim_init,
     gs_enabled = True, gs_animateCamera = None, gs_wasAnimating = False, gs_clock = None\<rparr>"

definition viewer_init :: viewer where
  "viewer_init = \<lparr>
     v_config = SHINY_COSMIC_BLUE, v_model = None, v_scene = [], v_loads = 0, v_heap = [],
     v_disposed = [], v_logo = None, v_glass = glass_init, v_armsTextMeshes = [],
     v_targets = Map.empty, v_rig = rig_init, v_pending = [], v_now = 0 \<rparr>"

text \<open>The glass flags both \<open>loadModel\<close> (lines 130, 131) and \<open>applyConfig\<close> (lines 367,
  368) set: \<open>animate === true\<close> and \<open>animateCamera || null\<close>.\<close>

definition set_glass_flags :: "model_config \<Rightarrow> glass_sys \<Rightarrow> glass_sys" where
  "set_glass_flags c g =
     g\<lparr>gs_enabled := (gl_animate (cfg_glass c) = Some True),
       gs_animateCamera := js_or_null (gl_animateCamera (cfg_glass c))\<rparr>"

section \<open>loadModel\<close>

text \<open>Lines 128 to 159: set the flags and the logo, remove and dispose the current model,
  reset the glass lists (but not \<open>originalGlassOpacities\<close>), the arm-text list, the
  glass phase and the camera table, and issue the asset request.\<close>

definition load_model_start :: "model_config \<Rightarrow> viewer \<Rightarrow> viewer" where
  "load_model_start c s =
     (let s1 = s\<lparr>v_glass := set_glass_flags c (v_glass s),
                 v_logo := Some (load_srgb_texture (lg_texture (cfg_logo c)))\<rparr>;
          s2 = (case v_model s1 of
                  None \<Rightarrow> s1
                | Some (k, ns) \<Rightarrow> s1\<lparr>v_scene := removeAll k (v_scene s1),
                                     v_disposed := v_disposed s1 @ model_material_ids ns\<rparr>);
          g = v_glass s2
      in s2\<lparr>v_glass := g\<lparr>gs_materials := [], gs_origColors := [],
                          gs_anim := (gs_anim g)\<lparr>ga_state := WaitGreen, ga_timer := 0\<rparr>\<rparr>,
            v_armsTextMeshes := [], v_targets := Map.empty,
            v_pending := v_pending s2 @ [(v_loads s2, c)], v_loads := Suc (v_loads s2)\<rparr>)"

text \<open>Lines 202 to 240: a mesh whose material name contains \<open>glass\<close> gets a fresh glass
  material built from the callback's config and the current \<open>logoTexture\<close>; its id, colour
  and opacity are appended to the three glass lists.\<close>

fun load_glass :: "model_config \<Rightarrow> texture option \<Rightarrow> snode list \<Rightarrow> material list \<Rightarrow> glass_sys
    \<Rightarrow> snode list \<times> material list \<times> glass_sys" where
  "load_glass c lg [] h g = ([], h, g)"
| "load_glass c lg (SMesh n mid # ns) h g =
     (if is_glass_material (h ! mid) then
        (let m = build_glass_material c lg;
             g' = g\<lparr>gs_materials := gs_materials g @ [length h],
                    gs_origColors := gs_origColors g @ [m_color m],
                    gs_origOpacities := gs_origOpacities g @ [m_opacity m]\<rparr>
         in case load_glass c lg ns (h @ [m]) g' of (ns', h', g'') \<Rightarrow> (SMesh n (length h) # ns', h', g''))
      else (case load_glass c lg ns h g of (ns', h', g') \<Rightarrow> (SMesh n mid # ns', h', g')))"
| "load_glass c lg (nd # ns) h g = (case load_glass c lg ns h g of (ns', h', g') \<Rightarrow> (nd # ns', h', g'))"

section \<open>applyConfig\<close>

text \<open>Lines 376 to 397: by mesh name, arm-text meshes get the shared arm-text material
  and frame and arm meshes the shared frame material.\<close>

fun assign_by_name :: "nat \<Rightarrow> nat \<Rightarrow> snode \<Rightarrow> snode" where
  "assign_by_name atm fm (SMesh n mid) =
     (if is_arm_text_name n then SMesh n atm else if is_frame_name n then SMesh n fm else SMesh n mid)"
| "assign_by_name atm fm nd = nd"

text \<open>Lines 407 to 423: every mesh whose material is named \<open>fake\<close> gets a fresh fake
  material of its own.\<close>

fun fake_pass :: "texture \<Rightarrow> snode list \<Rightarrow> material list \<Rightarrow> snode list \<times> material list" where
  "fake_pass t [] h = ([], h)"
| "fake_pass t (SMesh n mid # ns) h =
     (if is_fake_material (h ! mid) then
        (case fake_pass t ns (h @ [build_fake_material t]) of (ns', h') \<Rightarrow> (SMesh n (length h) # ns', h'))
      else (case fake_pass t ns h of (ns', h') \<Rightarrow> (SMesh n mid # ns', h')))"
| "fake_pass t (nd # ns) h = (case fake_pass t ns h of (ns', h') \<Rightarrow> (nd # ns', h'))"

text \<open>Lines 430 to 460, over the meshes \<open>armsTextMeshes\<close> lists (by node index).\<close>

fun arm_text_updates :: "model_config \<Rightarrow> nat list \<Rightarrow> snode list \<Rightarrow> material list \<Rightarrow> material list" where
  "arm_text_updates c [] ns h = h"
| "arm_text_updates c (i # is) ns h =
     arm_text_updates c is ns
       (case ns ! i of SMesh n mid \<Rightarrow> h[mid := update_arm_text_material c (h ! mid)] | _ \<Rightarrow> h)"

text \<open>Lines 465 to 476.\<close>

fun tune_all :: "model_config \<Rightarrow> texture option \<Rightarrow> nat list \<Rightarrow> material list \<Rightarrow> material list" where
  "tune_all c lg [] h = h"
| "tune_all c lg (mid # ms) h = tune_all c lg ms (h[mid := tune_glass_material c lg (h ! mid)])"

text \<open>Lines 253 to 478. The arm-text and frame materials are created first (their ids are
  the next two of the heap), then the flags and the logo are set; only then is
  \<open>currentModel\<close> dereferenced.\<close>

definition apply_config :: "model_config \<Rightarrow> viewer \<Rightarrow> viewer js_result" where
  "apply_config c s =
     (let atm = length (v_heap s); fm = Suc atm;
          s1 = s\<lparr>v_heap := v_heap s @ [build_arm_text_material c, build_frame_material (cfg_frame c)],
                 v_glass := set_glass_flags c (v_glass s),
                 v_logo := Some (load_srgb_texture (lg_texture (cfg_logo c)))\<rparr>
      in case v_model s1 of
           None \<Rightarrow> Throw (TypeError ''currentModel is null'') s1
         | Some (k, ns) \<Rightarrow>
             (let ns1 = map (assign_by_name atm fm) ns;
                  (ns2, h2) = (case fake_texture c of None \<Rightarrow> (ns1, v_heap s1)
                               | Some p \<Rightarrow> fake_pass (load_srgb_texture p) ns1 (v_heap s1));
                  h3 = arm_text_updates c (v_armsTextMeshes s1) ns2 h2;
                  h4 = tune_all c (v_logo s1) (gs_materials (v_glass s1)) h3
              in Ok (s1\<lparr>v_model := Some (k, ns2), v_heap := h4\<rparr>)))"

text \<open>Lines 78 to 81: a skin button sets \<open>currentConfig\<close> and applies it.\<close>

definition select_config :: "model_config \<Rightarrow> viewer \<Rightarrow> viewer js_result" where
  "select_config c s = apply_config c (s\<lparr>v_config := c\<rparr>)"

text \<open>Lines 159 to 246: the loader callback of request \<open>k\<close> (made for config \<open>c\<close>) at
  time \<open>now\<close> with the loaded asset: attach the model, extract the cameras, create the
  glass materials, switch to the start camera, and apply \<open>c\<close> (the closure's config,
  not \<open>currentConfig\<close>).\<close>

definition load_model_complete :: "engine \<Rightarrow> real \<Rightarrow> nat \<Rightarrow> model_config \<Rightarrow> gltf \<Rightarrow> viewer \<Rightarrow> viewer js_result" where
  "load_model_complete eng now k c asset s =
     (case instantiate_nodes (gt_nodes asset) (v_heap s) of
        (ns, h) \<Rightarrow>
          (case load_glass c (v_logo s) ns h (v_glass s) of
             (ns', h', g') \<Rightarrow>
               (let targets = extract_cameras (gt_center asset) ns (v_targets s);
                    s1 = s\<lparr>v_model := Some (k, ns'), v_scene := v_scene s @ [k], v_heap := h',
                           v_glass := g', v_targets := targets,
                           v_pending := remove1 (k, c) (v_pending s), v_now := now\<rparr>;
                    s2 = s1\<lparr>v_rig := smooth_switch_camera eng targets now (cfg_startCamera c) (v_rig s1)\<rparr>
                in apply_config c s2)))"

section \<open>The render loop\<close>

text \<open>Lines 716 to 856: the camera transition, the orbit controls, then the glass
  animation gated on the camera active after them; \<open>composer.render()\<close> draws and
  changes no state.\<close>

definition viewer_frame :: "engine \<Rightarrow> real \<Rightarrow> viewer \<Rightarrow> viewer" where
  "viewer_frame eng t s =
     (let rig' = camera_frame eng t (v_rig s)
      in case glass_frame t (rig_active rig') (v_glass s) (v_heap s) of
           (g', h') \<Rightarrow> s\<lparr>v_rig := rig', v_glass := g', v_heap := h', v_now := t\<rparr>)"

text \<open>The camera buttons (lines 873 to 897) call \<open>smoothSwitchCamera\<close>.\<close>

definition camera_buttons :: "(string \<times> string) list" where
  "camera_buttons =
     [(''Front'', ''Cam_Front''), (''Side'', ''Cam_Side''), (''Camera'', ''Cam_Camera''),
      (''Capture'', ''Cam_Capture''), (''Power'', ''Cam_Power''), (''Lenses'', ''Cam_Lenses''),
      (''Free'', ''Cam_Free'')]"

definition select_camera :: "engine \<Rightarrow> real \<Rightarrow> string \<Rightarrow> viewer \<Rightarrow> viewer" where
  "select_camera eng now name s =
     s\<lparr>v_rig := smooth_switch_camera eng (v_targets s) now name (v_rig s), v_now := now\<rparr>"

text \<open>Line 900: the program's one call of \<open>loadModel\<close>, with \<open>currentConfig\<close>.\<close>

definition viewer_start :: viewer where
  "viewer_start = load_model_start (v_config viewer_init) viewer_init"


section \<open>Observations and fixtures\<close>

text \<open>The material the first mesh of the current model with a given name shows.\<close>

fun node_material :: "material list \<Rightarrow> string \<Rightarrow> snode list \<Rightarrow> material option" where
  "node_material h name [] = None"
| "node_material h name (SMesh n mid # ns) = (if n = name then Some (h ! mid) else node_material h name ns)"
| "node_material h name (_ # ns) = node_material h name ns"

definition mesh_material :: "viewer \<Rightarrow> string \<Rightarrow> material option" where
  "mesh_material s name = (case v_model s of None \<Rightarrow> None | Some (k, ns) \<Rightarrow> node_material (v_heap s) name ns)"

text \<open>What a load of an asset determines: its camera table and its number of glass meshes.\<close>

fun asset_camera_nodes :: "gnode list \<Rightarrow> snode list" where
  "asset_camera_nodes [] = []"
| "asset_camera_nodes (GCamera n p q f # ns) = SCamera n p q f # asset_camera_nodes ns"
| "asset_camera_nodes (_ # ns) = asset_camera_nodes ns"

definition asset_cameras :: "gltf \<Rightarrow> (string \<rightharpoonup> cam_data)" where
  "asset_cameras a = extract_cameras (gt_center a) (asset_camera_nodes (gt_nodes a)) Map.empty"

fun asset_glass_count :: "gnode list \<Rightarrow> nat" where
  "asset_glass_count [] = 0"
| "asset_glass_count (GMesh n m # ns) = (if is_glass_material m then Suc (asset_glass_count ns) else asset_glass_count ns)"
| "asset_glass_count (_ # ns) = asset_glass_count ns"

text \<open>An illustrative asset for the witnesses (the repository's \<open>Standard_Wayfarer.glb\<close>
  is binary and not part of the sources): three of the named cameras, a frame, an arm,
  an arm with the text overlay, two lenses whose material is named \<open>Glass\<close>, and an
  interior mesh whose material is named \<open>fake\<close>.\<close>

definition named_mat :: "string \<Rightarrow> material" where
  "named_mat n = mesh_standard_material\<lparr>m_name := n\<rparr>"

definition demo_asset :: gltf where
  "demo_asset = \<lparr>gt_nodes = [GOther,
     GCamera ''Cam_Front'' (0, 0, 1) identity_quat 40, GCamera ''Cam_Lenses'' (0, 0, 0.5) identity_quat 30,
     GCamera ''Cam_Free'' (0, 0.2, 1) identity_quat 50,
     GMesh ''Frame'' (named_mat ''Frame_Mat''), GMesh ''Arm_L'' (named_mat ''Arm''),
     GMesh ''Arm_Text_L'' (named_mat ''ArmText''),
     GMesh ''Lens_L'' (named_mat ''Glass''), GMesh ''Lens_R'' (named_mat ''Glass''),
     GMesh ''Interior'' (named_mat ''fake'')],
   gt_center = (0, 0, 0)\<rparr>"

text \<open>The program after its start-up load has completed with the illustrative asset.\<close>

definition demo_loaded :: viewer where
  "demo_loaded = js_state (load_model_complete demo_engine 100 0 SHINY_COSMIC_BLUE demo_asset viewer_start)"

text \<open>The loaded program with the lenses animating: the \<open>Lenses\<close> camera chosen at
  200 ms and one frame drawn at 300 ms.\<close>

definition demo_animating :: viewer where
  "demo_animating = viewer_frame demo_engine 300 (select_camera demo_engine 200 ''Cam_Lenses'' demo_loaded)"

section \<open>Lemmas\<close>


lemma apply_config_frame:
  "v_targets (js_state (apply_config c s)) = v_targets s
 \<and> v_rig (js_state (apply_config c s)) = v_rig s
 \<and> v_glass (js_state (apply_config c s)) = set_glass_flags c (v_glass s)
 \<and> v_pending (js_state (apply_config c s)) = v_pending s
 \<and> v_armsTextMeshes (js_state (apply_config c s)) = v_armsTextMeshes s
 \<and> v_scene (js_state (apply_config c s)) = v_scene s
 \<and> v_loads (js_state (apply_config c s)) = v_loads s
 \<and> v_now (js_state (apply_config c s)) = v_now s
 \<and> v_config (js_state (apply_config c s)) = v_config s"
  by (simp add: apply_config_def Let_def split: option.split prod.split)

lemma set_glass_flags_keeps [simp]:
  "gs_materials (set_glass_flags c g) = gs_materials g"
  "gs_origColors (set_glass_flags c g) = gs_origColors g"
  "gs_origOpacities (set_glass_flags c g) = gs_origOpacities g"
  "gs_anim (set_glass_flags c g) = gs_anim g"
  "gs_wasAnimating (set_glass_flags c g) = gs_wasAnimating g"
  "gs_clock (set_glass_flags c g) = gs_clock g"
  by (simp_all add: set_glass_flags_def)

lemma apply_config_no_model:
  "v_model s = None \<Longrightarrow>
   apply_config c s = Throw (TypeError ''currentModel is null'')
     (s\<lparr>v_heap := v_heap s @ [build_arm_text_material c, build_frame_material (cfg_frame c)],
        v_glass := set_glass_flags c (v_glass s),
        v_logo := Some (load_srgb_texture (lg_texture (cfg_logo c)))\<rparr>)"
  by (simp add: apply_config_def Let_def)

lemma fake_pass_ext: "fake_pass t ns h = (ns', h') \<Longrightarrow> \<exists>xs. h' = h @ xs"
  by (induction t ns h arbitrary: ns' h' rule: fake_pass.induct) (fastforce split: if_splits prod.splits)+

lemma tune_all_length [simp]: "length (tune_all c lg ms h) = length h"
  by (induction ms arbitrary: h) simp_all

lemma arm_text_updates_length [simp]: "length (arm_text_updates c ixs ns h) = length h"
  by (induction ixs arbitrary: h) (simp_all split: snode.split)

lemma apply_config_heap_length: "length (v_heap s) \<le> length (v_heap (js_state (apply_config c s)))"
  by (auto simp: apply_config_def Let_def split: option.splits prod.splits dest!: fake_pass_ext)

lemma filter_nth_append:
  "\<forall>x \<in> set xs. x < length h \<Longrightarrow> filter (\<lambda>x. P ((h @ ys) ! x)) xs = filter (\<lambda>x. P (h ! x)) xs"
  by (rule filter_cong) (simp_all add: nth_append)

lemma load_glass_count:
  "load_glass c lg ns H g = (ns', H', g') \<Longrightarrow> \<forall>mid \<in> set (model_material_ids ns). mid < length H \<Longrightarrow>
   length (gs_materials g') = length (gs_materials g) + length (filter (\<lambda>mid. is_glass_material (H ! mid)) (model_material_ids ns))
 \<and> gs_origColors g' = gs_origColors g
      @ replicate (length (filter (\<lambda>mid. is_glass_material (H ! mid)) (model_material_ids ns))) (gl_color (cfg_glass c))
 \<and> gs_origOpacities g' = gs_origOpacities g
      @ replicate (length (filter (\<lambda>mid. is_glass_material (H ! mid)) (model_material_ids ns))) (gl_opacity (cfg_glass c))"
proof (induction c lg ns H g arbitrary: ns' H' g' rule: load_glass.induct)
  case (2 c lg n mid ns h g)
  from "2.prems"(2) have b: "mid < length h" "\<forall>x \<in> set (model_material_ids ns). x < length h" by auto
  show ?case
  proof (cases "is_glass_material (h ! mid)")
    case True
    let ?m = "build_glass_material c lg"
    let ?g = "g\<lparr>gs_materials := gs_materials g @ [length h], gs_origColors := gs_origColors g @ [m_color ?m],
                gs_origOpacities := gs_origOpacities g @ [m_opacity ?m]\<rparr>"
    let ?N = "length (filter (\<lambda>x. is_glass_material (h ! x)) (model_material_ids ns))"
    obtain ns1 H1 g1 where r: "load_glass c lg ns (h @ [?m]) ?g = (ns1, H1, g1)"
      by (cases "load_glass c lg ns (h @ [?m]) ?g") blast
    with "2.prems"(1) True have "g' = g1" by (simp add: Let_def)
    moreover have "\<forall>x \<in> set (model_material_ids ns). x < length (h @ [?m])" using b(2) by auto
    moreover have "filter (\<lambda>x. is_glass_material ((h @ [?m]) ! x)) (model_material_ids ns)
        = filter (\<lambda>x. is_glass_material (h ! x)) (model_material_ids ns)"
      using b(2) by (rule filter_nth_append)
    ultimately have "length (gs_materials g') = length (gs_materials ?g) + ?N
        \<and> gs_origColors g' = gs_origColors ?g @ replicate ?N (gl_color (cfg_glass c))
        \<and> gs_origOpacities g' = gs_origOpacities ?g @ replicate ?N (gl_opacity (cfg_glass c))"
      using "2.IH"(1) [OF True refl refl r] by simp
    with b True show ?thesis by (simp add: build_glass_rest replicate_app_Cons_same)
  next
    case False
    obtain ns1 H1 g1 where r: "load_glass c lg ns h g = (ns1, H1, g1)"
      by (cases "load_glass c lg ns h g") blast
    with "2.prems"(1) False have "g' = g1" by simp
    with "2.IH"(2) [OF False r] b False show ?thesis by simp
  qed
qed (auto split: prod.splits)

lemma instantiate_glass_count:
  "instantiate_nodes gs h = (ns, h') \<Longrightarrow>
     (\<forall>mid \<in> set (model_material_ids ns). mid < length h')
   \<and> length (filter (\<lambda>mid. is_glass_material (h' ! mid)) (model_material_ids ns)) = asset_glass_count gs
   \<and> take (length h) h' = h"
proof (induction gs arbitrary: h ns h')
  case Nil
  then show ?case by simp
next
  case (Cons x gs)
  show ?case
  proof (cases x)
    case (GMesh n m)
    obtain ns0 h0 where r: "instantiate_nodes gs (h @ [m]) = (ns0, h0)"
      by (cases "instantiate_nodes gs (h @ [m])") blast
    with Cons.prems GMesh have ns: "ns = SMesh n (length h) # ns0" and hh: "h' = h0" by auto
    from Cons.IH [OF r] have ih: "\<forall>mid \<in> set (model_material_ids ns0). mid < length h0"
      "length (filter (\<lambda>mid. is_glass_material (h0 ! mid)) (model_material_ids ns0)) = asset_glass_count gs"
      "take (Suc (length h)) h0 = h @ [m]" by simp_all
    have "length (take (Suc (length h)) h0) = Suc (length h)" using ih(3) by simp
    then have len: "length h < length h0" by simp
    have "take (Suc (length h)) h0 ! length h = h0 ! length h" by simp
    then have at: "h0 ! length h = m" using ih(3) by simp
    have "take (length h) h0 = take (length h) (take (Suc (length h)) h0)" by simp
    then have tk: "take (length h) h0 = h" using ih(3) by simp
    show ?thesis using ns hh ih len at tk GMesh by simp
  qed (use Cons in \<open>auto split: prod.splits\<close>)
qed

lemma instantiate_cameras:
  "instantiate_nodes gs h = (ns, h') \<Longrightarrow> extract_cameras c ns t = extract_cameras c (asset_camera_nodes gs) t"
proof (induction gs arbitrary: h ns h' t)
  case Nil
  then show ?case by simp
next
  case (Cons x gs)
  then show ?case by (cases x) (auto split: prod.splits)
qed


section \<open>Properties\<close>

text \<open>C18. Round trip: a load of an asset, whatever was loaded before, yields the camera
  table and the number of glass materials that the asset alone determines; loading X, then
  Y, then X again gives the same table and count as the first load of X.\<close>

theorem load_roundtrip:
  "v_targets (js_state (load_model_complete eng t (v_loads s) c a (load_model_start c s))) = asset_cameras a
 \<and> length (gs_materials (v_glass (js_state (load_model_complete eng t (v_loads s) c a (load_model_start c s)))))
     = asset_glass_count (gt_nodes a)"
proof -
  let ?s = "load_model_start c s"
  have t0: "v_targets ?s = Map.empty" and g0: "gs_materials (v_glass ?s) = []"
    by (simp_all add: load_model_start_def Let_def split: option.split)
  obtain ns h where i: "instantiate_nodes (gt_nodes a) (v_heap ?s) = (ns, h)"
    by (cases "instantiate_nodes (gt_nodes a) (v_heap ?s)") blast
  obtain ns' h' g' where l: "load_glass c (v_logo ?s) ns h (v_glass ?s) = (ns', h', g')"
    by (cases "load_glass c (v_logo ?s) ns h (v_glass ?s)") blast
  note ic = instantiate_glass_count [OF i]
  have cnt: "length (gs_materials g') = asset_glass_count (gt_nodes a)"
    using load_glass_count [OF l] ic g0 by simp
  have cams: "extract_cameras (gt_center a) ns Map.empty = asset_cameras a"
    using instantiate_cameras [OF i] by (simp add: asset_cameras_def)
  show ?thesis
    using i l t0 cnt cams apply_config_frame
    by (simp add: load_model_complete_def Let_def)
qed



text \<open>C15. Error path: choosing a skin before the asset has loaded makes \<open>applyConfig\<close>
  throw a \<open>TypeError\<close> at \<open>currentModel.traverse\<close>, after it has already switched the
  glass flags and the logo texture to the chosen config.\<close>

theorem apply_config_before_load_throws:
  assumes "v_model s = None"
  shows "\<exists>s'. apply_config c s = Throw (TypeError ''currentModel is null'') s'
            \<and> v_glass s' = set_glass_flags c (v_glass s)
            \<and> v_logo s' = Some (load_srgb_texture (lg_texture (cfg_logo c)))
            \<and> v_model s' = None"
  using apply_config_no_model [OF assms, of c] assms by simp

theorem apply_config_before_load_throws_witness:
  "\<exists>s'. apply_config CLEAR_SAPPHIRE viewer_start = Throw (TypeError ''currentModel is null'') s'
            \<and> v_glass s' = set_glass_flags CLEAR_SAPPHIRE (v_glass viewer_start)
            \<and> v_logo s' = Some (load_srgb_texture (lg_texture (cfg_logo CLEAR_SAPPHIRE)))
            \<and> v_model s' = None"
proof -
  have "v_model viewer_start = None"
    by (simp add: viewer_start_def viewer_init_def load_model_start_def Let_def)
  then show ?thesis by (rule apply_config_before_load_throws)
qed

text \<open>C17. \<open>applyConfig\<close> tunes the glass materials but never updates
  \<open>originalGlassColors\<close> and \<open>originalGlassOpacities\<close>. After a skin click the rest
  values are still the previous skin's, so when the next frame closes the gate (the new
  skin does not animate on the active camera) while the lenses were animating, every
  lens is reset to the previous skin's colour and opacity, not to the new skin's.\<close>

theorem apply_keeps_stale_rest_values:
  assumes "gs_wasAnimating (v_glass s)"
    and "\<not> should_animate (rig_active (camera_frame eng t (v_rig s))) (set_glass_flags c (v_glass s))"
    and "distinct (gs_materials (v_glass s))" and "i < length (gs_materials (v_glass s))"
    and "gs_materials (v_glass s) ! i < length (v_heap s)"
  shows "gs_origColors (v_glass (js_state (select_config c s))) = gs_origColors (v_glass s)
       \<and> gs_origOpacities (v_glass (js_state (select_config c s))) = gs_origOpacities (v_glass s)
       \<and> m_color (v_heap (viewer_frame eng t (js_state (select_config c s))) ! (gs_materials (v_glass s) ! i))
           = gs_origColors (v_glass s) ! i
       \<and> m_opacity (v_heap (viewer_frame eng t (js_state (select_config c s))) ! (gs_materials (v_glass s) ! i))
           = gs_origOpacities (v_glass s) ! i"
proof -
  let ?s = "js_state (select_config c s)"
  have fr: "v_glass ?s = set_glass_flags c (v_glass s)" "v_rig ?s = v_rig s"
    using apply_config_frame [of c "s\<lparr>v_config := c\<rparr>"] by (simp_all add: select_config_def)
  have "length (v_heap s) \<le> length (v_heap ?s)"
    using apply_config_heap_length [of "s\<lparr>v_config := c\<rparr>" c] by (simp add: select_config_def)
  with assms(5) have b: "gs_materials (v_glass s) ! i < length (v_heap ?s)" by simp
  have "v_heap (viewer_frame eng t ?s) = glass_reset (v_heap ?s) (gs_materials (v_glass s))
      (gs_origColors (v_glass s)) (gs_origOpacities (v_glass s)) 0"
    using fr assms(1,2) by (simp add: viewer_frame_def glass_frame_def Let_def)
  with fr b assms(3,4) show ?thesis by (simp add: glass_reset_nth)
qed

theorem apply_keeps_stale_rest_values_witness:
  "m_color (v_heap (viewer_frame demo_engine 400 (js_state (select_config BLUE_JEANS demo_animating)))
       ! (gs_materials (v_glass demo_animating) ! 0)) = gs_origColors (v_glass demo_animating) ! 0
 \<and> gs_origColors (v_glass demo_animating) ! 0 = gl_color (cfg_glass SHINY_COSMIC_BLUE)
 \<and> gl_color (cfg_glass SHINY_COSMIC_BLUE) \<noteq> gl_color (cfg_glass BLUE_JEANS)"
proof -
  have h1: "gs_wasAnimating (v_glass demo_animating)" by code_simp
  have h2: "\<not> should_animate (rig_active (camera_frame demo_engine 400 (v_rig demo_animating)))
      (set_glass_flags BLUE_JEANS (v_glass demo_animating))" by code_simp
  have h3: "distinct (gs_materials (v_glass demo_animating))" by code_simp
  have h4: "0 < length (gs_materials (v_glass demo_animating))" by code_simp
  have h5: "gs_materials (v_glass demo_animating) ! 0 < length (v_heap demo_animating)" by code_simp
  have h6: "gs_origColors (v_glass demo_animating) ! 0 = gl_color (cfg_glass SHINY_COSMIC_BLUE)" by code_simp
  have h7: "gl_color (cfg_glass SHINY_COSMIC_BLUE) \<noteq> gl_color (cfg_glass BLUE_JEANS)"
    by (simp add: SHINY_COSMIC_BLUE_def BLUE_JEANS_def)
  show ?thesis using apply_keeps_stale_rest_values [OF h1 h2 h3 h4 h5] h6 h7 by simp
qed

text \<open>C19. \<open>loadModel\<close> clears \<open>glassMaterials\<close> and \<open>originalGlassColors\<close> but not
  \<open>originalGlassOpacities\<close>: after any load completes, the colour list holds one entry per
  glass mesh of the new asset, while the opacity list still starts with the entries of the
  earlier loads, so lens \<open>i\<close> reads a stale opacity whenever an earlier load had glass.\<close>

theorem reload_keeps_stale_opacities:
  "gs_origColors (v_glass (js_state (load_model_complete eng t k c a (load_model_start c s))))
     = replicate (asset_glass_count (gt_nodes a)) (gl_color (cfg_glass c))
 \<and> gs_origOpacities (v_glass (js_state (load_model_complete eng t k c a (load_model_start c s))))
     = gs_origOpacities (v_glass s) @ replicate (asset_glass_count (gt_nodes a)) (gl_opacity (cfg_glass c))"
proof -
  let ?s = "load_model_start c s"
  have c0: "gs_origColors (v_glass ?s) = []" and o0: "gs_origOpacities (v_glass ?s) = gs_origOpacities (v_glass s)"
    by (simp_all add: load_model_start_def Let_def split: option.split)
  obtain ns h where i: "instantiate_nodes (gt_nodes a) (v_heap ?s) = (ns, h)"
    by (cases "instantiate_nodes (gt_nodes a) (v_heap ?s)") blast
  obtain ns' h' g' where l: "load_glass c (v_logo ?s) ns h (v_glass ?s) = (ns', h', g')"
    by (cases "load_glass c (v_logo ?s) ns h (v_glass ?s)") blast
  note ic = instantiate_glass_count [OF i]
  have "gs_origColors g' = replicate (asset_glass_count (gt_nodes a)) (gl_color (cfg_glass c))
      \<and> gs_origOpacities g' = gs_origOpacities (v_glass s) @ replicate (asset_glass_count (gt_nodes a)) (gl_opacity (cfg_glass c))"
    using load_glass_count [OF l] ic c0 o0 by simp
  then show ?thesis
    using i l apply_config_frame by (simp add: load_model_complete_def Let_def)
qed


end
