(* ===== verification/Session.thy ===== *)
theory Session
  imports Viewer
begin

text \<open>
  The program as a whole: the events that change its state and the states it can reach.
  After the top level (\<open>viewer_start\<close>: line 900 has issued the one asset request), the
  state changes only on four events, all on the one JavaScript thread: a skin button
  (\<open>select_config\<close>, lines 78 to 81, whose \<open>TypeError\<close> before the load is swallowed by
  the event dispatch, leaving the partial state), a camera button (\<open>select_camera\<close>),
  an animation frame (\<open>viewer_frame\<close>), and the completion of a pending asset request
  (\<open>load_model_complete\<close>) with whatever asset the loader hands back. Timestamps do not
  decrease from one event to the next. \<open>reach\<close> is the set of states these events
  reach; \<open>viewer_inv\<close> is an invariant of it, shown by rule induction.
\<close>

inductive reach :: "engine \<Rightarrow> viewer \<Rightarrow> bool" for eng :: engine where
  start: "reach eng viewer_start"
| skin: "reach eng s \<Longrightarrow> c \<in> set all_configs \<Longrightarrow> reach eng (js_state (select_config c s))"
| camera: "reach eng s \<Longrightarrow> v_now s \<le> t \<Longrightarrow> reach eng (select_camera eng t name s)"
| frame: "reach eng s \<Longrightarrow> v_now s \<le> t \<Longrightarrow> reach eng (viewer_frame eng t s)"
| loaded: "reach eng s \<Longrightarrow> (k, c) \<in> set (v_pending s) \<Longrightarrow> v_now s \<le> t \<Longrightarrow>
            reach eng (js_state (load_model_complete eng t k c a s))"

definition viewer_inv :: "viewer \<Rightarrow> bool" where
  "viewer_inv s \<longleftrightarrow>
     glass_inv (v_glass s) (v_heap s) \<and>
     (\<forall>old. gs_clock (v_glass s) = Some old \<longrightarrow> old \<le> v_now s) \<and>
     camera_inv (v_rig s) \<and>
     v_armsTextMeshes s = [] \<and>
     length (v_scene s) + length (v_pending s) \<le> 1 \<and>
     list_all (config_valid \<circ> snd) (v_pending s)"

section \<open>Lemmas\<close>

lemma glass_inv_append: "glass_inv g h \<Longrightarrow> glass_inv g (h @ xs)"
  by (auto simp: glass_inv_def nth_append)

lemma glass_inv_flags [simp]: "glass_inv (set_glass_flags c g) h = glass_inv g h"
  by (simp add: glass_inv_def)

lemma tune_glass_unit: "config_valid c \<Longrightarrow> mat_in_unit (tune_glass_material c lg m)"
  by (simp add: config_valid_def tune_glass_material_def mat_in_unit_def)

lemma tune_all_inv: "glass_inv g h \<Longrightarrow> config_valid c \<Longrightarrow> glass_inv g (tune_all c lg ms h)"
proof (induction ms arbitrary: h)
  case (Cons mid ms)
  have "\<forall>k \<in> set (gs_materials g). k < length (h[mid := tune_glass_material c lg (h ! mid)])
          \<and> mat_in_unit (h[mid := tune_glass_material c lg (h ! mid)] ! k)"
    using Cons.prems by (intro all_at_list_update tune_glass_unit) (simp_all add: glass_inv_def)
  then have "glass_inv g (h[mid := tune_glass_material c lg (h ! mid)])"
    using Cons.prems(1) by (simp add: glass_inv_def)
  with Cons.IH Cons.prems(2) show ?case by simp
qed simp

lemma instantiate_ext: "instantiate_nodes gs h = (ns, h') \<Longrightarrow> \<exists>xs. h' = h @ xs"
  by (induction gs h arbitrary: ns h' rule: instantiate_nodes.induct) (fastforce split: prod.splits)+

lemma build_glass_unit: "config_valid c \<Longrightarrow> mat_in_unit (build_glass_material c lg)"
  by (simp add: config_valid_def build_glass_material_def mat_in_unit_def Let_def split: option.split)

lemma load_glass_inv:
  "load_glass c lg ns h g = (ns', h', g') \<Longrightarrow> glass_inv g h \<Longrightarrow> config_valid c \<Longrightarrow>
   glass_inv g' h' \<and> (\<exists>xs. h' = h @ xs) \<and> gs_anim g' = gs_anim g \<and> gs_clock g' = gs_clock g"
proof (induction c lg ns h g arbitrary: ns' h' g' rule: load_glass.induct)
  case (2 c lg n mid ns h g)
  show ?case
  proof (cases "is_glass_material (h ! mid)")
    case True
    let ?m = "build_glass_material c lg"
    let ?g = "g\<lparr>gs_materials := gs_materials g @ [length h], gs_origColors := gs_origColors g @ [m_color ?m],
                gs_origOpacities := gs_origOpacities g @ [m_opacity ?m]\<rparr>"
    obtain ns1 H1 g1 where r: "load_glass c lg ns (h @ [?m]) ?g = (ns1, H1, g1)"
      by (cases "load_glass c lg ns (h @ [?m]) ?g") blast
    with "2.prems"(1) True have eq: "g' = g1" "h' = H1" by (simp_all add: Let_def)
    have "glass_inv ?g (h @ [?m])"
      using "2.prems"(2,3) build_glass_unit [OF "2.prems"(3), of lg]
      by (auto simp: glass_inv_def nth_append config_valid_def build_glass_rest)
    from "2.IH"(1) [OF True refl refl r this "2.prems"(3)] eq show ?thesis by auto
  next
    case False
    obtain ns1 H1 g1 where r: "load_glass c lg ns h g = (ns1, H1, g1)"
      by (cases "load_glass c lg ns h g") blast
    with "2.prems"(1) False have "g' = g1" "h' = H1" by simp_all
    with "2.IH"(2) [OF False r "2.prems"(2,3)] show ?thesis by simp
  qed
qed (fastforce split: prod.splits)+

lemma apply_config_glass_inv:
  "glass_inv (v_glass s) (v_heap s) \<Longrightarrow> config_valid c \<Longrightarrow> v_armsTextMeshes s = [] \<Longrightarrow>
   glass_inv (v_glass (js_state (apply_config c s))) (v_heap (js_state (apply_config c s)))"
  by (auto simp: apply_config_def Let_def split: option.splits prod.splits dest!: fake_pass_ext
      intro!: tune_all_inv glass_inv_append)

lemma apply_config_clock: "gs_clock (v_glass (js_state (apply_config c s))) = gs_clock (v_glass s)"
  using apply_config_frame by (simp add: set_glass_flags_def)

lemma glass_frame_clock:
  "gs_clock (fst (glass_frame now act g h)) = gs_clock g \<or> gs_clock (fst (glass_frame now act g h)) = Some now"
  by (cases "gs_clock g") (auto simp: glass_frame_def split: prod.splits)

lemma viewer_inv_start: "viewer_inv viewer_start"
proof -
  have "config_valid SHINY_COSMIC_BLUE"
    using config_valid_buttons by (simp add: all_configs_def model_buttons_def)
  then show ?thesis
    by (simp add: viewer_inv_def viewer_start_def load_model_start_def viewer_init_def glass_init_def
        glassAnim_init_def glass_inv_def camera_inv_init set_glass_flags_def Let_def)
qed

lemma viewer_inv_skin: "viewer_inv s \<Longrightarrow> config_valid c \<Longrightarrow> viewer_inv (js_state (select_config c s))"
  using apply_config_frame [of c "s\<lparr>v_config := c\<rparr>"] apply_config_clock [of c "s\<lparr>v_config := c\<rparr>"]
    apply_config_glass_inv [of "s\<lparr>v_config := c\<rparr>" c]
  by (simp add: viewer_inv_def select_config_def)

lemma viewer_inv_camera: "viewer_inv s \<Longrightarrow> v_now s \<le> t \<Longrightarrow> viewer_inv (select_camera eng t name s)"
  by (auto simp: viewer_inv_def select_camera_def smooth_switch_keeps_inv)

lemma viewer_inv_frame: "viewer_inv s \<Longrightarrow> v_now s \<le> t \<Longrightarrow> viewer_inv (viewer_frame eng t s)"
proof -
  assume inv: "viewer_inv s" and t: "v_now s \<le> t"
  let ?act = "rig_active (camera_frame eng t (v_rig s))"
  obtain g' h' where gf: "glass_frame t ?act (v_glass s) (v_heap s) = (g', h')"
    by (cases "glass_frame t ?act (v_glass s) (v_heap s)") blast
  have clk: "\<forall>old. gs_clock (v_glass s) = Some old \<longrightarrow> old \<le> t"
    using inv t unfolding viewer_inv_def by auto
  have "glass_inv g' h'"
    using glass_frame_inv [of "v_glass s" "v_heap s" t ?act] inv clk gf by (simp add: viewer_inv_def)
  moreover have "gs_clock g' = gs_clock (v_glass s) \<or> gs_clock g' = Some t"
    using glass_frame_clock [of t ?act "v_glass s" "v_heap s"] gf by simp
  ultimately show ?thesis
    using inv clk gf camera_frame_keeps_inv by (auto simp: viewer_inv_def viewer_frame_def)
qed

lemma viewer_inv_loaded:
  assumes inv: "viewer_inv s" and p: "(k, c) \<in> set (v_pending s)" and t: "v_now s \<le> t"
  shows "viewer_inv (js_state (load_model_complete eng t k c a s))"
proof -
  obtain ns h where i: "instantiate_nodes (gt_nodes a) (v_heap s) = (ns, h)"
    by (cases "instantiate_nodes (gt_nodes a) (v_heap s)") blast
  obtain ns' h' g' where l: "load_glass c (v_logo s) ns h (v_glass s) = (ns', h', g')"
    by (cases "load_glass c (v_logo s) ns h (v_glass s)") blast
  have cv: "config_valid c" using inv p by (auto simp: viewer_inv_def list_all_iff)
  obtain xs where hx: "h = v_heap s @ xs" using instantiate_ext [OF i] by blast
  have gi: "glass_inv (v_glass s) h" using inv hx glass_inv_append by (simp add: viewer_inv_def)
  note lg = load_glass_inv [OF l gi cv]
  define targets where "targets = extract_cameras (gt_center a) ns (v_targets s)"
  define s2 where "s2 = s\<lparr>v_model := Some (k, ns'), v_scene := v_scene s @ [k], v_heap := h',
                     v_glass := g', v_targets := targets, v_pending := remove1 (k, c) (v_pending s), v_now := t,
                     v_rig := smooth_switch_camera eng targets t (cfg_startCamera c) (v_rig s)\<rparr>"
  have lc: "load_model_complete eng t k c a s = apply_config c s2"
    by (simp add: load_model_complete_def i l Let_def s2_def targets_def)
  have len: "length (remove1 (k, c) (v_pending s)) = length (v_pending s) - 1"
    using p by (simp add: length_remove1)
  have ge: "length (v_pending s) \<ge> 1" using p by (cases "v_pending s") auto
  have sc: "length (v_scene s) + length (v_pending s) \<le> 1" using inv by (simp add: viewer_inv_def)
  have "length (v_scene s @ [k]) = length (v_scene s) + 1" by simp
  with sc ge len have one: "length (v_scene s @ [k]) + length (remove1 (k, c) (v_pending s)) \<le> 1"
    by linarith
  have "viewer_inv s2"
    using inv lg one t by (auto simp: viewer_inv_def s2_def smooth_switch_keeps_inv list_all_iff dest: in_set_remove1)
  then show ?thesis
    unfolding lc viewer_inv_def
    using apply_config_frame [of c s2] apply_config_clock [of c s2] apply_config_glass_inv [of s2 c] cv
    by simp
qed

lemma reach_viewer_inv: "reach eng s \<Longrightarrow> viewer_inv s"
proof (induction rule: reach.induct)
  case start
  then show ?case by (rule viewer_inv_start)
next
  case (skin s c)
  then show ?case using config_valid_buttons by (simp add: viewer_inv_skin list_all_iff)
qed (simp_all add: viewer_inv_camera viewer_inv_frame viewer_inv_loaded)

lemma reach_demo_loaded: "reach demo_engine demo_loaded"
  unfolding demo_loaded_def
  by (rule reach.loaded [OF reach.start]) (simp_all add: viewer_start_def load_model_start_def viewer_init_def Let_def)

section \<open>Properties\<close>

text \<open>C20. In every reachable state every glass material the animation drives is an
  allocated material whose colour components and opacity lie in [0, 1], whatever asset the
  loader returns, whichever skins and cameras are chosen and however frames interleave.\<close>

theorem reach_glass_in_unit:
  assumes "reach eng s"
  shows "\<forall>mid \<in> set (gs_materials (v_glass s)). mid < length (v_heap s) \<and> mat_in_unit (v_heap s ! mid)"
  using reach_viewer_inv [OF assms] by (simp add: viewer_inv_def glass_inv_def)

theorem reach_glass_in_unit_witness:
  "6 < length (v_heap demo_loaded) \<and> mat_in_unit (v_heap demo_loaded ! 6)
 \<and> 7 < length (v_heap demo_loaded) \<and> mat_in_unit (v_heap demo_loaded ! 7)"
proof -
  have ids: "gs_materials (v_glass demo_loaded) = [6, 7]" by code_simp
  show ?thesis using reach_glass_in_unit [OF reach_demo_loaded] ids by simp
qed

text \<open>C21. The program never holds two assets: in every reachable state the models
  attached to the scene and the asset requests in flight number at most one together.\<close>

theorem reach_single_asset:
  assumes "reach eng s"
  shows "length (v_scene s) + length (v_pending s) \<le> 1"
  using reach_viewer_inv [OF assms] by (simp add: viewer_inv_def)

theorem reach_single_asset_witness: "length (v_scene demo_loaded) + length (v_pending demo_loaded) \<le> 1"
  by (rule reach_single_asset [OF reach_demo_loaded])

text \<open>C22. \<open>armsTextMeshes\<close> is empty in every reachable state: \<open>loadModel\<close> clears it
  and nothing fills it, so the arm-text update of \<open>applyConfig\<close> (lines 430 to 460)
  never runs.\<close>

theorem reach_arms_text_empty:
  assumes "reach eng s"
  shows "v_armsTextMeshes s = []"
  using reach_viewer_inv [OF assms] by (simp add: viewer_inv_def)

theorem reach_arms_text_empty_witness: "v_armsTextMeshes demo_loaded = []"
  by (rule reach_arms_text_empty [OF reach_demo_loaded])

text \<open>C24. Choosing a skin does not reset the glass animation: the phase and the timer
  are those before the click, where the data model asks for a reset on every config
  change.\<close>

theorem skin_keeps_glass_phase:
  "gs_anim (v_glass (js_state (select_config c s))) = gs_anim (v_glass s)"
  using apply_config_frame [of c "s\<lparr>v_config := c\<rparr>"] by (simp add: select_config_def)

end
