(* ===== verification/Roles.thy ===== *)
theory Roles
  imports Session
begin

text \<open>
  The role contract of the specification against the code. The code never computes a
  role: \<open>loadModel\<close> swaps the material of meshes whose material name contains
  \<open>glass\<close>, then \<open>applyConfig\<close> reassigns arm-text and frame meshes by mesh name, swaps
  \<open>fake\<close> materials, and tunes the glass materials in place through the ids of
  \<open>glassMaterials\<close>. A mesh's view is its name, the material it shows and whether that
  material is one of \<open>glassMaterials\<close> (\<open>nview\<close>); each pass changes the views pointwise,
  and the composition is the single dispatch on \<open>mesh_role\<close> (\<open>role_material\<close>).
\<close>

definition nview :: "material list \<Rightarrow> nat list \<Rightarrow> snode \<Rightarrow> (string \<times> material \<times> bool) option" where
  "nview h gs nd = (case nd of SMesh n mid \<Rightarrow> Some (n, h ! mid, mid \<in> set gs) | _ \<Rightarrow> None)"

definition ids_below :: "snode list \<Rightarrow> nat \<Rightarrow> bool" where
  "ids_below ns b \<longleftrightarrow> (\<forall>mid \<in> set (model_material_ids ns). mid < b)"

fun gview :: "gnode \<Rightarrow> (string \<times> material \<times> bool) option" where
  "gview (GMesh n m) = Some (n, m, False)"
| "gview _ = None"

fun glass_view :: "model_config \<Rightarrow> texture option \<Rightarrow> string \<times> material \<times> bool \<Rightarrow> string \<times> material \<times> bool" where
  "glass_view c lg (n, m, b) = (if is_glass_material m then (n, build_glass_material c lg, True) else (n, m, b))"

fun assign_view :: "material \<Rightarrow> material \<Rightarrow> string \<times> material \<times> bool \<Rightarrow> string \<times> material \<times> bool" where
  "assign_view a f (n, m, b) =
     (if is_arm_text_name n then (n, a, False) else if is_frame_name n then (n, f, False) else (n, m, b))"

fun fake_view :: "texture \<Rightarrow> string \<times> material \<times> bool \<Rightarrow> string \<times> material \<times> bool" where
  "fake_view t (n, m, b) = (if is_fake_material m then (n, build_fake_material t, False) else (n, m, b))"

fun tune_view :: "model_config \<Rightarrow> texture option \<Rightarrow> string \<times> material \<times> bool \<Rightarrow> string \<times> material \<times> bool" where
  "tune_view c lg (n, m, b) = (n, if b then tune_glass_material c lg m else m, b)"

text \<open>The logo texture \<open>applyConfig\<close> and \<open>loadModel\<close> load for a config (lines 132, 371).\<close>

definition logo_of :: "model_config \<Rightarrow> texture option" where
  "logo_of c = Some (load_srgb_texture (lg_texture (cfg_logo c)))"

definition fake_opt :: "model_config \<Rightarrow> string \<times> material \<times> bool \<Rightarrow> string \<times> material \<times> bool" where
  "fake_opt c = (case fake_texture c of None \<Rightarrow> id | Some p \<Rightarrow> fake_view (load_srgb_texture p))"

definition apply_view :: "model_config \<Rightarrow> string \<times> material \<times> bool \<Rightarrow> string \<times> material \<times> bool" where
  "apply_view c v =
     tune_view c (logo_of c) (fake_opt c (assign_view (build_arm_text_material c) (build_frame_material (cfg_frame c)) v))"

text \<open>The specification's contract (sections 3 and 4.2 to 4.4): the material a mesh shows
  once its asset is loaded and the config applied is determined by its role.\<close>

fun role_material :: "model_config \<Rightarrow> role \<Rightarrow> material \<Rightarrow> material" where
  "role_material c RArmText m = build_arm_text_material c"
| "role_material c RFrame m = build_frame_material (cfg_frame c)"
| "role_material c RArmNoText m = build_frame_material (cfg_frame c)"
| "role_material c RGlass m = tune_glass_material c (logo_of c) (build_glass_material c (logo_of c))"
| "role_material c RFakeInterior m =
     (case fake_texture c of None \<Rightarrow> m | Some p \<Rightarrow> build_fake_material (load_srgb_texture p))"
| "role_material c ROther m = m"

fun spec_view :: "model_config \<Rightarrow> gnode \<Rightarrow> (string \<times> material) option" where
  "spec_view c (GMesh n m) = Some (n, role_material c (mesh_role n m) m)"
| "spec_view c _ = None"

text \<open>What the meshes of the current model show: each mesh's name and material.\<close>

fun node_shown :: "material list \<Rightarrow> snode \<Rightarrow> (string \<times> material) option" where
  "node_shown h (SMesh n mid) = Some (n, h ! mid)"
| "node_shown h _ = None"

definition shown :: "viewer \<Rightarrow> (string \<times> material) option list" where
  "shown s = (case v_model s of None \<Rightarrow> [] | Some (k, ns) \<Rightarrow> map (node_shown (v_heap s)) ns)"

section \<open>Lemmas\<close>

lemma ids_below_cons [simp]:
  "ids_below (SMesh n mid # ns) b \<longleftrightarrow> mid < b \<and> ids_below ns b"
  "ids_below (SCamera n p q f # ns) b \<longleftrightarrow> ids_below ns b"
  "ids_below (SOther # ns) b \<longleftrightarrow> ids_below ns b"
  "ids_below [] b"
  by (auto simp: ids_below_def)

lemma ids_below_mono: "ids_below ns b \<Longrightarrow> b \<le> b' \<Longrightarrow> ids_below ns b'"
  by (auto simp: ids_below_def)

lemma nview_append:
  "ids_below ns (length h) \<Longrightarrow> map (nview (h @ xs) gs) ns = map (nview h gs) ns"
  by (induction ns rule: model_material_ids.induct) (simp_all add: nview_def nth_append)

lemma tune_glass_idem [simp]: "tune_glass_material c lg (tune_glass_material c lg m) = tune_glass_material c lg m"
  by (simp add: tune_glass_material_def)

lemma tune_all_nth:
  "tune_all c lg ms h ! i = (if i \<in> set ms \<and> i < length h then tune_glass_material c lg (h ! i) else h ! i)"
proof (induction ms arbitrary: h)
  case (Cons a ms)
  show ?case by (cases "a = i") (auto simp: Cons.IH nth_list_update_neq list_update_beyond)
qed simp

lemma nview_tune_all:
  "ids_below ns (length h) \<Longrightarrow>
   map (nview (tune_all c lg gs h) gs) ns = map (map_option (tune_view c lg)) (map (nview h gs) ns)"
  by (induction ns rule: model_material_ids.induct) (simp_all add: nview_def tune_all_nth)

lemma nview_assign:
  "ids_below ns (length h) \<Longrightarrow> \<forall>x \<in> set gs. x < length h \<Longrightarrow>
   map (nview (h @ [a, f]) gs) (map (assign_by_name (length h) (Suc (length h))) ns)
     = map (map_option (assign_view a f)) (map (nview h gs) ns)
 \<and> ids_below (map (assign_by_name (length h) (Suc (length h))) ns) (length (h @ [a, f]))"
  by (induction ns rule: model_material_ids.induct) (auto simp: nview_def nth_append)

lemma nview_fake_pass:
  "fake_pass t ns h = (ns', h') \<Longrightarrow> ids_below ns (length h) \<Longrightarrow> \<forall>x \<in> set gs. x < length h \<Longrightarrow>
   map (nview h' gs) ns' = map (map_option (fake_view t)) (map (nview h gs) ns)
 \<and> ids_below ns' (length h') \<and> (\<exists>xs. h' = h @ xs)"
proof (induction t ns h arbitrary: ns' h' rule: fake_pass.induct)
  case (2 t n mid ns h)
  show ?case
  proof (cases "is_fake_material (h ! mid)")
    case True
    obtain ns1 h1 where r: "fake_pass t ns (h @ [build_fake_material t]) = (ns1, h1)"
      by (cases "fake_pass t ns (h @ [build_fake_material t])") blast
    with "2.prems"(1) True have eq: "ns' = SMesh n (length h) # ns1" "h' = h1" by auto
    have b: "ids_below ns (length (h @ [build_fake_material t]))"
      using "2.prems"(2) by (auto intro: ids_below_mono)
    have "\<forall>x \<in> set gs. x < length (h @ [build_fake_material t])" using "2.prems"(3) by auto
    note ih = "2.IH"(1) [OF True r b this]
    then obtain xs where hx: "h1 = h @ build_fake_material t # xs" by auto
    have "length h \<notin> set gs" using "2.prems"(3) by auto
    then have hd: "nview h1 gs (SMesh n (length h)) = map_option (fake_view t) (nview h gs (SMesh n mid))"
      using hx True by (simp add: nview_def nth_append)
    have v: "map (nview (h @ [build_fake_material t]) gs) ns = map (nview h gs) ns"
      using nview_append [of ns h "[build_fake_material t]" gs] "2.prems"(2) by simp
    from ih hx have "ids_below (SMesh n (length h) # ns1) (length h1)" by simp
    with ih hd v eq hx show ?thesis by simp
  next
    case False
    obtain ns1 h1 where r: "fake_pass t ns h = (ns1, h1)" by (cases "fake_pass t ns h") blast
    with "2.prems"(1) False have eq: "ns' = SMesh n mid # ns1" "h' = h1" by auto
    note ih = "2.IH"(2) [OF False r _ "2.prems"(3)]
    with "2.prems"(2) eq False show ?thesis
      by (auto simp: nview_def nth_append)
  qed
qed (fastforce simp: nview_def split: prod.splits)+

lemma nview_extend:
  "ids_below ns (length h) \<Longrightarrow> \<forall>y \<in> set ys. length h \<le> y \<Longrightarrow>
   map (nview (h @ xs) (gs @ ys)) ns = map (nview h gs) ns"
  by (induction ns rule: model_material_ids.induct) (auto simp: nview_def nth_append)

lemma nview_instantiate:
  "instantiate_nodes gs0 h = (ns, h1) \<Longrightarrow> \<forall>x \<in> set G. x < length h \<Longrightarrow>
   map (nview h1 G) ns = map gview gs0 \<and> ids_below ns (length h1) \<and> (\<exists>xs. h1 = h @ xs)"
proof (induction gs0 arbitrary: h ns h1)
  case (Cons x gs0)
  show ?case
  proof (cases x)
    case (GMesh n m)
    obtain ns0 h0 where r: "instantiate_nodes gs0 (h @ [m]) = (ns0, h0)"
      by (cases "instantiate_nodes gs0 (h @ [m])") blast
    with Cons.prems GMesh have eq: "ns = SMesh n (length h) # ns0" "h1 = h0" by auto
    have "\<forall>x \<in> set G. x < length (h @ [m])" using Cons.prems(2) by auto
    note ih = Cons.IH [OF r this]
    then obtain xs where hx: "h0 = h @ m # xs" by auto
    have "length h \<notin> set G" using Cons.prems(2) by auto
    with ih hx eq GMesh show ?thesis by (simp add: nview_def nth_append)
  qed (use Cons in \<open>auto simp: nview_def split: prod.splits\<close>)
qed simp

lemma nview_load_glass:
  "load_glass c lg ns H g = (ns', H', g') \<Longrightarrow> ids_below ns (length H) \<Longrightarrow>
   \<forall>x \<in> set (gs_materials g). x < length H \<Longrightarrow>
   map (nview H' (gs_materials g')) ns' = map (map_option (glass_view c lg)) (map (nview H (gs_materials g)) ns)
 \<and> ids_below ns' (length H') \<and> (\<forall>x \<in> set (gs_materials g'). x < length H') \<and> (\<exists>xs. H' = H @ xs)
 \<and> (\<exists>ys. gs_materials g' = gs_materials g @ ys \<and> (\<forall>y \<in> set ys. length H \<le> y))"
proof (induction c lg ns H g arbitrary: ns' H' g' rule: load_glass.induct)
  case (2 c lg n mid ns h g)
  show ?case
  proof (cases "is_glass_material (h ! mid)")
    case True
    let ?m = "build_glass_material c lg"
    let ?g = "g\<lparr>gs_materials := gs_materials g @ [length h], gs_origColors := gs_origColors g @ [m_color ?m],
                gs_origOpacities := gs_origOpacities g @ [m_opacity ?m]\<rparr>"
    obtain ns1 H1 g1 where r: "load_glass c lg ns (h @ [?m]) ?g = (ns1, H1, g1)"
      by (cases "load_glass c lg ns (h @ [?m]) ?g") blast
    with "2.prems"(1) True have eq: "ns' = SMesh n (length h) # ns1" "H' = H1" "g' = g1"
      by (simp_all add: Let_def)
    have b: "ids_below ns (length (h @ [?m]))" using "2.prems"(2) by (auto intro: ids_below_mono)
    have "\<forall>x \<in> set (gs_materials ?g). x < length (h @ [?m])" using "2.prems"(3) by auto
    note ih = "2.IH"(1) [OF True refl refl r b this]
    then obtain xs ys where hx: "H1 = h @ ?m # xs" and gy: "gs_materials g1 = gs_materials g @ length h # ys"
      and yb: "\<forall>y \<in> set ys. Suc (length h) \<le> y" by auto
    have v: "map (nview (h @ [?m]) (gs_materials ?g)) ns = map (nview h (gs_materials g)) ns"
      using nview_extend [of ns h "[length h]" "[?m]" "gs_materials g"] "2.prems"(2) by simp
    have hd: "nview H1 (gs_materials g1) (SMesh n (length h))
        = map_option (glass_view c lg) (nview h (gs_materials g) (SMesh n mid))"
      using hx gy True by (simp add: nview_def nth_append)
    have "\<forall>y \<in> set (length h # ys). length h \<le> y" using yb by auto
    with ih hd v eq hx gy show ?thesis by auto
  next
    case False
    obtain ns1 H1 g1 where r: "load_glass c lg ns h g = (ns1, H1, g1)"
      by (cases "load_glass c lg ns h g") blast
    with "2.prems"(1) False have eq: "ns' = SMesh n mid # ns1" "H' = H1" "g' = g1" by simp_all
    have b: "ids_below ns (length h)" using "2.prems"(2) by simp
    note ih = "2.IH"(2) [OF False r b "2.prems"(3)]
    then obtain xs ys where hx: "H1 = h @ xs" and gy: "gs_materials g1 = gs_materials g @ ys"
      and yb: "\<forall>y \<in> set ys. length h \<le> y" by auto
    have "mid \<notin> set ys" using yb "2.prems"(2) by fastforce
    then have hd: "nview H1 (gs_materials g1) (SMesh n mid)
        = map_option (glass_view c lg) (nview h (gs_materials g) (SMesh n mid))"
      using hx gy False "2.prems"(2) by (simp add: nview_def nth_append)
    with ih eq hx "2.prems"(2) show ?thesis by (auto intro: ids_below_mono)
  qed
qed (fastforce simp: nview_def split: prod.splits)+

lemma nview_apply_config:
  assumes m: "v_model s = Some (k, ns)" and b: "ids_below ns (length (v_heap s))"
    and g: "\<forall>x \<in> set (gs_materials (v_glass s)). x < length (v_heap s)" and at: "v_armsTextMeshes s = []"
  shows "\<exists>ns'. v_model (js_state (apply_config c s)) = Some (k, ns')
    \<and> map (nview (v_heap (js_state (apply_config c s))) (gs_materials (v_glass s))) ns'
        = map (map_option (apply_view c)) (map (nview (v_heap s) (gs_materials (v_glass s))) ns)
    \<and> ids_below ns' (length (v_heap (js_state (apply_config c s))))
    \<and> length (v_heap s) \<le> length (v_heap (js_state (apply_config c s)))"
proof -
  let ?G = "gs_materials (v_glass s)" and ?h = "v_heap s"
  let ?A = "build_arm_text_material c" and ?F = "build_frame_material (cfg_frame c)"
  let ?ns1 = "map (assign_by_name (length ?h) (Suc (length ?h))) ns" and ?h1 = "?h @ [?A, ?F]"
  note as = nview_assign [OF b g, of ?A ?F]
  have g1: "\<forall>x \<in> set ?G. x < length ?h1" using g by auto
  obtain ns2 h2 where f: "(case fake_texture c of None \<Rightarrow> (?ns1, ?h1)
                         | Some p \<Rightarrow> fake_pass (load_srgb_texture p) ?ns1 ?h1) = (ns2, h2)"
    by (cases "case fake_texture c of None \<Rightarrow> (?ns1, ?h1) | Some p \<Rightarrow> fake_pass (load_srgb_texture p) ?ns1 ?h1") blast
  have fk: "map (nview h2 ?G) ns2 = map (map_option (fake_opt c)) (map (nview ?h1 ?G) ?ns1)
      \<and> ids_below ns2 (length h2) \<and> length ?h1 \<le> length h2"
  proof (cases "fake_texture c")
    case None
    with f as show ?thesis by (simp add: fake_opt_def option.map_id)
  next
    case (Some p)
    with f have "fake_pass (load_srgb_texture p) ?ns1 ?h1 = (ns2, h2)" by simp
    from nview_fake_pass [OF this _ g1] as Some show ?thesis by (auto simp: fake_opt_def)
  qed
  have ap: "apply_config c s = Ok (s\<lparr>v_heap := ?h1, v_glass := set_glass_flags c (v_glass s),
      v_logo := logo_of c, v_model := Some (k, ns2), v_heap := tune_all c (logo_of c) ?G h2\<rparr>)"
  proof (cases "fake_texture c")
    case None
    with f have "ns2 = ?ns1" "h2 = ?h1" by simp_all
    with None m at show ?thesis by (simp add: apply_config_def Let_def logo_of_def)
  next
    case (Some p)
    with f have "fake_pass (load_srgb_texture p) ?ns1 ?h1 = (ns2, h2)" by simp
    with Some m at show ?thesis by (simp add: apply_config_def Let_def logo_of_def)
  qed
  have g2: "ids_below ns2 (length h2)" using fk by simp
  have as1: "map (nview ?h1 ?G) ?ns1 = map (map_option (assign_view ?A ?F)) (map (nview ?h ?G) ns)"
    using as by blast
  have fk1: "map (nview h2 ?G) ns2 = map (map_option (fake_opt c)) (map (nview ?h1 ?G) ?ns1)"
    using fk by blast
  have tn: "map (nview (tune_all c (logo_of c) ?G h2) ?G) ns2
      = map (map_option (tune_view c (logo_of c))) (map (nview h2 ?G) ns2)"
    by (rule nview_tune_all [OF g2])
  have comp: "map (map_option (tune_view c (logo_of c))) (map (map_option (fake_opt c))
      (map (map_option (assign_view ?A ?F)) X)) = map (map_option (apply_view c)) X" for X
    by (simp add: apply_view_def [abs_def] option.map_comp comp_def)
  have "map (nview (tune_all c (logo_of c) ?G h2) ?G) ns2 = map (map_option (apply_view c)) (map (nview ?h ?G) ns)"
    by (simp only: tn fk1 as1 comp)
  then show ?thesis using ap fk by simp
qed

lemma built_names [simp]:
  "m_name (build_arm_text_material c) = []" "m_name (build_frame_material f) = []"
  "m_name (build_glass_material c lg) = []" "m_name (tune_glass_material c lg m) = m_name m"
  by (simp_all add: build_arm_text_material_def arm_text_base_def build_frame_material_def
      set_reflectivity_def mesh_physical_material_def mesh_standard_material_def build_glass_material_def
      tune_glass_material_def Let_def split: option.split)

lemma no_name_not_fake: "m_name m = [] \<Longrightarrow> \<not> is_fake_material m"
  by (simp add: is_fake_material_def js_to_lower_def)

lemma tune_build_logo:
  "tune_glass_material c lg (build_glass_material c lg0) = tune_glass_material c lg (build_glass_material c lg)"
  by (simp add: tune_glass_material_def build_glass_material_def Let_def split: option.split)

lemma node_shown_nview: "map (node_shown h) ns = map (map_option (\<lambda>(n, m, b). (n, m))) (map (nview h gs) ns)"
  by (induction ns rule: model_material_ids.induct) (simp_all add: nview_def)

lemma load_view_role:
  "map_option (\<lambda>(n, m, b). (n, m)) (map_option (apply_view c) (map_option (glass_view c lg0) (gview x)))
     = spec_view c x"
proof (cases x)
  case (GMesh n m)
  let ?A = "build_arm_text_material c" and ?F = "build_frame_material (cfg_frame c)"
    and ?B = "build_glass_material c lg0"
  have nf: "\<not> is_fake_material ?A" "\<not> is_fake_material ?F" "\<not> is_fake_material ?B"
    by (simp_all add: no_name_not_fake)
  have fo: "fake_opt c (n, m', b) = (n, m', b)" if "\<not> is_fake_material m'" for m' b
    using that by (simp add: fake_opt_def split: option.split)
  consider (arm) "is_arm_text_name n" | (frame) "\<not> is_arm_text_name n" "is_frame_name n"
    | (glass) "\<not> is_arm_text_name n" "\<not> is_frame_name n" "is_glass_material m"
    | (rest) "\<not> is_arm_text_name n" "\<not> is_frame_name n" "\<not> is_glass_material m"
    by blast
  then show ?thesis
  proof cases
    case arm
    then show ?thesis using GMesh nf fo by (simp add: apply_view_def mesh_role_def)
  next
    case frame
    then have "role_material c (mesh_role n m) m = ?F" by (auto simp: mesh_role_def is_frame_name_def)
    with frame show ?thesis using GMesh nf fo by (simp add: apply_view_def)
  next
    case glass
    then have "role_material c (mesh_role n m) m = tune_glass_material c (logo_of c) (build_glass_material c (logo_of c))"
      by (auto simp: mesh_role_def is_frame_name_def)
    with glass show ?thesis using GMesh nf fo
      by (simp add: apply_view_def tune_build_logo [of c "logo_of c" lg0])
  next
    case rest
    then have "mesh_role n m = (if is_fake_material m then RFakeInterior else ROther)"
      by (auto simp: mesh_role_def is_frame_name_def)
    with rest show ?thesis using GMesh
      by (simp add: apply_view_def fake_opt_def split: option.split)
  qed
qed simp_all

lemma role_pipeline:
  "map (map_option (\<lambda>(n, m, b). (n, m))) (map (map_option (apply_view c))
     (map (map_option (glass_view c lg0)) (map gview xs))) = map (spec_view c) xs"
  by (induction xs) (simp_all add: load_view_role)

lemma load_complete_nview:
  assumes inv: "viewer_inv s"
  shows "\<exists>ns''. v_model (js_state (load_model_complete eng t k c a s)) = Some (k, ns'')
    \<and> map (nview (v_heap (js_state (load_model_complete eng t k c a s)))
                (gs_materials (v_glass (js_state (load_model_complete eng t k c a s))))) ns''
        = map (map_option (apply_view c)) (map (map_option (glass_view c (v_logo s))) (map gview (gt_nodes a)))
    \<and> ids_below ns'' (length (v_heap (js_state (load_model_complete eng t k c a s))))"
proof -
  let ?G = "gs_materials (v_glass s)"
  have g: "\<forall>x \<in> set ?G. x < length (v_heap s)" and at: "v_armsTextMeshes s = []"
    using inv by (simp_all add: viewer_inv_def glass_inv_def)
  obtain ns h where i: "instantiate_nodes (gt_nodes a) (v_heap s) = (ns, h)"
    by (cases "instantiate_nodes (gt_nodes a) (v_heap s)") blast
  note iv = nview_instantiate [OF i g]
  have gh: "\<forall>x \<in> set ?G. x < length h" using iv g by auto
  obtain ns' h' g' where l: "load_glass c (v_logo s) ns h (v_glass s) = (ns', h', g')"
    by (cases "load_glass c (v_logo s) ns h (v_glass s)") blast
  have ib: "ids_below ns (length h)" using iv by simp
  note lv = nview_load_glass [OF l ib gh]
  define targets where "targets = extract_cameras (gt_center a) ns (v_targets s)"
  define s2 where "s2 = s\<lparr>v_model := Some (k, ns'), v_scene := v_scene s @ [k], v_heap := h',
                     v_glass := g', v_targets := targets, v_pending := remove1 (k, c) (v_pending s), v_now := t,
                     v_rig := smooth_switch_camera eng targets t (cfg_startCamera c) (v_rig s)\<rparr>"
  have lc: "load_model_complete eng t k c a s = apply_config c s2"
    by (simp add: load_model_complete_def i l Let_def s2_def targets_def)
  have m2: "v_model s2 = Some (k, ns')" and b2: "ids_below ns' (length (v_heap s2))"
    and g2: "\<forall>x \<in> set (gs_materials (v_glass s2)). x < length (v_heap s2)" and at2: "v_armsTextMeshes s2 = []"
    using lv at by (simp_all add: s2_def)
  obtain ns'' where ap: "v_model (js_state (apply_config c s2)) = Some (k, ns'')"
    and av: "map (nview (v_heap (js_state (apply_config c s2))) (gs_materials g')) ns''
        = map (map_option (apply_view c)) (map (nview h' (gs_materials g')) ns')"
    and ab: "ids_below ns'' (length (v_heap (js_state (apply_config c s2))))"
    using nview_apply_config [OF m2 b2 g2 at2, of c] by (auto simp: s2_def)
  have lv1: "map (nview h' (gs_materials g')) ns' = map (map_option (glass_view c (v_logo s))) (map (nview h ?G) ns)"
    using lv by blast
  have iv1: "map (nview h ?G) ns = map gview (gt_nodes a)" using iv by blast
  have gg: "gs_materials (v_glass (js_state (apply_config c s2))) = gs_materials g'"
    using apply_config_frame [of c s2] by (simp add: s2_def)
  show ?thesis
    unfolding lc gg using ap ab av [unfolded lv1 iv1] by blast
qed

definition model_ids_ok :: "viewer \<Rightarrow> bool" where
  "model_ids_ok s \<longleftrightarrow> (case v_model s of None \<Rightarrow> True | Some (k, ns) \<Rightarrow> ids_below ns (length (v_heap s)))"

lemma model_ids_ok_apply:
  "viewer_inv s \<Longrightarrow> model_ids_ok s \<Longrightarrow> model_ids_ok (js_state (apply_config c s))"
proof (cases "v_model s")
  case None
  then show ?thesis by (simp add: model_ids_ok_def apply_config_no_model)
next
  case (Some p)
  assume inv: "viewer_inv s" and ok: "model_ids_ok s"
  obtain k ns where p: "p = (k, ns)" by (cases p) blast
  have g: "\<forall>x \<in> set (gs_materials (v_glass s)). x < length (v_heap s)" and at: "v_armsTextMeshes s = []"
    using inv by (simp_all add: viewer_inv_def glass_inv_def)
  have "ids_below ns (length (v_heap s))" using ok Some p by (simp add: model_ids_ok_def)
  from nview_apply_config [OF Some [unfolded p] this g at, of c] show ?thesis
    by (auto simp: model_ids_ok_def)
qed

lemma reach_model_ids: "reach eng s \<Longrightarrow> model_ids_ok s"
proof (induction rule: reach.induct)
  case start
  then show ?case by (simp add: model_ids_ok_def viewer_start_def load_model_start_def viewer_init_def Let_def)
next
  case (skin s c)
  have "viewer_inv (s\<lparr>v_config := c\<rparr>)" using reach_viewer_inv [OF skin.hyps(1)] by (simp add: viewer_inv_def)
  moreover have "model_ids_ok (s\<lparr>v_config := c\<rparr>)" using skin.IH by (auto simp: model_ids_ok_def split: option.splits)
  ultimately show ?case unfolding select_config_def by (rule model_ids_ok_apply)
next
  case (camera s t name)
  then show ?case by (auto simp: select_camera_def model_ids_ok_def split: option.splits)
next
  case (frame s t)
  then show ?case
    by (auto simp: viewer_frame_def model_ids_ok_def Let_def split: option.splits prod.splits)
      (metis glass_frame_length snd_conv)+
next
  case (loaded s k c t a)
  then show ?case using load_complete_nview [OF reach_viewer_inv [OF loaded.hyps(1)], of eng t k c a]
    by (auto simp: model_ids_ok_def)
qed

lemma load_shown:
  assumes "viewer_inv s"
  shows "shown (js_state (load_model_complete eng t k c a s)) = map (spec_view c) (gt_nodes a)"
proof -
  obtain ns'' where m: "v_model (js_state (load_model_complete eng t k c a s)) = Some (k, ns'')"
    and v: "map (nview (v_heap (js_state (load_model_complete eng t k c a s)))
                (gs_materials (v_glass (js_state (load_model_complete eng t k c a s))))) ns''
        = map (map_option (apply_view c)) (map (map_option (glass_view c (v_logo s))) (map gview (gt_nodes a)))"
    using load_complete_nview [OF assms] by blast
  show ?thesis
    using m by (simp only: shown_def option.case prod.case node_shown_nview [where gs =
        "gs_materials (v_glass (js_state (load_model_complete eng t k c a s)))"] v role_pipeline)
qed

lemma load_complete_config: "v_config (js_state (load_model_complete eng t k c a s)) = v_config s"
  using apply_config_frame by (simp add: load_model_complete_def Let_def split: prod.split)

lemma select_config_config: "v_config (js_state (select_config c s)) = c"
  using apply_config_frame [of c "s\<lparr>v_config := c\<rparr>"] by (simp add: select_config_def)

lemma is_fake_build_fake: "is_fake_material (build_fake_material t)"
  by (simp add: is_fake_material_def build_fake_material_def js_to_lower_def)

lemma is_fake_tune [simp]: "is_fake_material (tune_glass_material c lg m) = is_fake_material m"
  by (simp add: is_fake_material_def)

lemma apply_view_idem: "apply_view c (apply_view c v) = apply_view c v"
  by (cases v) (auto simp: apply_view_def fake_opt_def no_name_not_fake is_fake_build_fake split: option.split)

lemma map_apply_view_idem:
  "map (map_option (apply_view c)) (map (map_option (apply_view c)) xs) = map (map_option (apply_view c)) xs"
  by (induction xs) (auto simp: option.map_comp comp_def apply_view_idem)

lemma set_glass_flags_idem [simp]: "set_glass_flags c (set_glass_flags c g) = set_glass_flags c g"
  by (simp add: set_glass_flags_def)

lemma apply_config_logo: "v_logo (js_state (apply_config c s)) = logo_of c"
  by (simp add: apply_config_def Let_def logo_of_def split: option.split prod.split)

section \<open>Properties\<close>

text \<open>C23. Refinement of the role contract: for every reachable state and every asset the
  loader returns, once the loader callback has run (glass swap of \<open>loadModel\<close>, then
  \<open>applyConfig\<close>) every mesh of the new model shows exactly the material its role
  prescribes: arm text, frame and arm, tuned glass, fake interior, or its own material.\<close>

theorem load_assigns_role_materials:
  assumes "reach eng s"
  shows "shown (js_state (load_model_complete eng t k c a s)) = map (spec_view c) (gt_nodes a)"
  by (rule load_shown [OF reach_viewer_inv [OF assms]])

theorem load_assigns_role_materials_witness:
  "shown demo_loaded = map (spec_view SHINY_COSMIC_BLUE) (gt_nodes demo_asset)"
  unfolding demo_loaded_def by (rule load_assigns_role_materials [OF reach.start])

text \<open>C16. The loader callback applies the config its closure captured, not
  \<open>currentConfig\<close>: in every reachable state, a skin chosen before a pending load
  completes becomes the current config, but the meshes of the loaded model show the role
  materials of the config the load was started with.\<close>

theorem selection_before_load_is_lost:
  assumes "reach eng s" and "c \<in> set all_configs"
  shows "v_config (js_state (load_model_complete eng t k c0 a (js_state (select_config c s)))) = c
       \<and> shown (js_state (load_model_complete eng t k c0 a (js_state (select_config c s))))
           = map (spec_view c0) (gt_nodes a)"
proof -
  have "reach eng (js_state (select_config c s))" using assms by (rule reach.skin)
  from load_shown [OF reach_viewer_inv [OF this]] show ?thesis
    by (simp add: load_complete_config select_config_config)
qed

theorem selection_before_load_is_lost_witness:
  "v_config (js_state (load_model_complete demo_engine 100 0 SHINY_COSMIC_BLUE demo_asset
       (js_state (select_config CLEAR_SAPPHIRE viewer_start)))) = CLEAR_SAPPHIRE
 \<and> shown (js_state (load_model_complete demo_engine 100 0 SHINY_COSMIC_BLUE demo_asset
       (js_state (select_config CLEAR_SAPPHIRE viewer_start)))) = map (spec_view SHINY_COSMIC_BLUE) (gt_nodes demo_asset)
 \<and> build_frame_material (cfg_frame SHINY_COSMIC_BLUE) \<noteq> build_frame_material (cfg_frame CLEAR_SAPPHIRE)"
proof -
  have c: "CLEAR_SAPPHIRE \<in> set all_configs" by (simp add: all_configs_def model_buttons_def)
  have d: "build_frame_material (cfg_frame SHINY_COSMIC_BLUE) \<noteq> build_frame_material (cfg_frame CLEAR_SAPPHIRE)"
    by code_simp
  show ?thesis using selection_before_load_is_lost [OF reach.start c] d by simp
qed

text \<open>C25. \<open>applyConfig\<close> is idempotent on what the program shows (specification,
  section 8): in every reachable state with a loaded model, applying a config a second time
  leaves every mesh showing the same material as after the first application, and the
  glass state (flags and rest values) and the logo texture as they were. Only fresh
  copies of the shared materials are allocated again.\<close>

theorem apply_config_idempotent:
  assumes "reach eng s" and "v_model s \<noteq> None"
  shows "shown (js_state (apply_config c (js_state (apply_config c s)))) = shown (js_state (apply_config c s))
       \<and> v_glass (js_state (apply_config c (js_state (apply_config c s)))) = v_glass (js_state (apply_config c s))
       \<and> v_logo (js_state (apply_config c (js_state (apply_config c s)))) = v_logo (js_state (apply_config c s))"
proof -
  obtain k ns where m: "v_model s = Some (k, ns)" using assms(2) by auto
  have inv: "viewer_inv s" by (rule reach_viewer_inv [OF assms(1)])
  then have g: "\<forall>x \<in> set (gs_materials (v_glass s)). x < length (v_heap s)" and at: "v_armsTextMeshes s = []"
    by (simp_all add: viewer_inv_def glass_inv_def)
  have b: "ids_below ns (length (v_heap s))" using reach_model_ids [OF assms(1)] m by (simp add: model_ids_ok_def)
  let ?s1 = "js_state (apply_config c s)" and ?G = "gs_materials (v_glass s)"
  obtain ns1 where m1: "v_model ?s1 = Some (k, ns1)"
    and v1: "map (nview (v_heap ?s1) ?G) ns1 = map (map_option (apply_view c)) (map (nview (v_heap s) ?G) ns)"
    and b1: "ids_below ns1 (length (v_heap ?s1))" and l1: "length (v_heap s) \<le> length (v_heap ?s1)"
    using nview_apply_config [OF m b g at, of c] by blast
  have G1: "gs_materials (v_glass ?s1) = ?G" and at1: "v_armsTextMeshes ?s1 = []"
    using apply_config_frame [of c s] at by simp_all
  have g1: "\<forall>x \<in> set (gs_materials (v_glass ?s1)). x < length (v_heap ?s1)" using g l1 G1 by auto
  let ?s2 = "js_state (apply_config c ?s1)"
  obtain ns2 where m2: "v_model ?s2 = Some (k, ns2)"
    and v2: "map (nview (v_heap ?s2) ?G) ns2 = map (map_option (apply_view c)) (map (nview (v_heap ?s1) ?G) ns1)"
    using nview_apply_config [OF m1 b1 g1 at1, of c] G1 by auto
  have "shown ?s2 = map (map_option (\<lambda>(n, m, b). (n, m))) (map (nview (v_heap ?s2) ?G) ns2)"
    using m2 by (simp add: shown_def node_shown_nview [where gs = ?G])
  also have "\<dots> = map (map_option (\<lambda>(n, m, b). (n, m))) (map (nview (v_heap ?s1) ?G) ns1)"
    by (simp only: v2 v1 map_apply_view_idem)
  also have "\<dots> = shown ?s1"
    using m1 by (simp add: shown_def node_shown_nview [where gs = ?G])
  finally show ?thesis
    using apply_config_frame [of c ?s1] apply_config_frame [of c s] by (simp add: apply_config_logo)
qed

theorem apply_config_idempotent_witness:
  "shown (js_state (apply_config BLUE_JEANS (js_state (apply_config BLUE_JEANS demo_loaded))))
     = shown (js_state (apply_config BLUE_JEANS demo_loaded))
 \<and> v_glass (js_state (apply_config BLUE_JEANS (js_state (apply_config BLUE_JEANS demo_loaded))))
     = v_glass (js_state (apply_config BLUE_JEANS demo_loaded))
 \<and> v_logo (js_state (apply_config BLUE_JEANS (js_state (apply_config BLUE_JEANS demo_loaded))))
     = v_logo (js_state (apply_config BLUE_JEANS demo_loaded))"
proof -
  have "v_model demo_loaded \<noteq> None" by code_simp
  then show ?thesis by (rule apply_config_idempotent [OF reach_demo_loaded])
qed

end
