(* ===== verification/Spec2Isabelle.thy ===== *)
theory Spec2Isabelle
  imports Roles
begin

text \<open>
  \<^bold>\<open>A verification development of the Wayfarer glasses configurator.\<close>

  The program (\<open>src/main.js\<close> with the skin configs under \<open>src/configs/\<close>) is a
  three.js page that loads one glasses asset, gives its meshes materials built from a
  skin config, moves the camera between named viewpoints with a smooth transition, and
  fades the lenses between their colour and clear while one camera is active. All of
  it runs on one JavaScript thread: the state changes only in the skin and camera button
  handlers, in the asset loader's callback, and once per animation frame.

  \<^bold>\<open>Theories and what they model.\<close>
  \<^item> \<open>Prelude\<close>: the JavaScript helpers the code relies on (\<open>String.includes\<close>,
    \<open>toLowerCase\<close>, \<open>x || null\<close>), the maths shared by the components (\<open>lerp\<close> as
    \<open>THREE.MathUtils.lerp\<close> and \<open>Color.lerp\<close>/\<open>Vector3.lerp\<close>, the smoothstep ease) and
    the bounds lemmas on them, collected in the \<open>ease_bounds\<close> lemma set. JavaScript
    numbers are real numbers: the code only interpolates, compares and divides, and
    no property depends on rounding.
  \<^item> \<open>Configs\<close>: the Config Store. Each file of \<open>src/configs/\<close> is a \<open>model_config\<close>
    record, the optional fields of the JavaScript object as \<open>option\<close>; \<open>model_buttons\<close>
    lists the \<open>makeModelButton\<close> calls of \<open>main.js\<close> (lines 86 to 93).
  \<^item> \<open>Materials\<close>: the Material Builder. A three.js material is the record \<open>material\<close>
    of the properties the code sets, starting from the three.js defaults; the builders of
    \<open>applyConfig\<close> and \<open>loadModel\<close> and the in-place updates are one definition each, and
    the GLSL fragments of the overlay, contrast and HDR shaders are per-pixel functions.
  \<^item> \<open>Glass\<close>: the Glass Animation State Machine (\<open>glassAnim\<close>, lines 485 to 492, and
    the update in \<open>animate\<close>, lines 756 to 850), over a heap of materials so that the
    aliasing between \<open>glassMaterials\<close> and the meshes' materials is explicit.
  \<^item> \<open>Camera\<close>: the Camera Transition State Machine (\<open>smoothSwitchCamera\<close>, lines 662
    to 701, and the transition step of \<open>animate\<close>, lines 722 to 750). three.js's
    \<open>slerp\<close>, \<open>lookAt\<close> and \<open>OrbitControls.update\<close> are parameters (\<open>engine\<close>),
    with the one property of \<open>slerp\<close> the proofs need, exactness at 0 and 1, as a
    hypothesis (\<open>slerp_endpoints\<close>).
  \<^item> \<open>Scene\<close>: the loaded asset as its nodes in \<open>traverse\<close> order, the name tests of
    the role classification and the camera extraction of \<open>loadModel\<close>.
  \<^item> \<open>Viewer\<close>: the whole module state (\<open>viewer\<close>) and the Model Swap Controller and
    Config Apply: \<open>loadModel\<close> split at its asynchronous boundary into
    \<open>load_model_start\<close> and the loader callback \<open>load_model_complete\<close>, \<open>applyConfig\<close>
    as \<open>apply_config\<close> returning \<open>Ok\<close> or \<open>Throw\<close> (a JavaScript exception keeps the
    assignments made before it), the skin and camera button handlers, and the Render
    Loop \<open>animate\<close> as \<open>viewer_frame\<close>.
  \<^item> \<open>Session\<close>: the events of the program as the inductive relation \<open>reach\<close> from the
    start-up state, and the invariant \<open>viewer_inv\<close> of the reachable states, by rule
    induction.
  \<^item> \<open>Roles\<close>: the role contract of the specification (\<open>mesh_role\<close>, \<open>role_material\<close>)
    against the code's passes. A mesh's view (\<open>nview\<close>: its name, the material it shows
    through the heap, and whether that material is one of \<open>glassMaterials\<close>) is the
    abstraction; each pass of \<open>loadModel\<close> and \<open>applyConfig\<close> maps the views pointwise,
    and their composition is the single dispatch on the role.

  \<^bold>\<open>What the lemmas show.\<close>
  The glass claims (C1 to C7) give the specification's scenario for any timing and any
  lens, exact endpoints of both fades, the reset when the gating camera is left, and that
  a frame keeps every glass colour and opacity in [0, 1]; they also show two defects of
  the code: on the frame that ends a fade the phase switch inside the \<open>forEach\<close> skips
  every lens after the first (C4), and because the clock is read only on animating frames,
  coming back to the gating camera skips the dark wait whenever the time away exceeds it
  (C7). C8 checks the data-model invariant of every config. The camera claims (C9 to
  C14) give exact arrival and start, that the free camera never starts a transition, a
  restart from the current pose, the camera invariant, and that progress is clamped from
  above only. The viewer claims show the error path of a skin chosen before the load
  (C15), that such a choice is never shown (C16, for every reachable state), that
  \<open>applyConfig\<close> leaves the glass rest values stale so the gate reset restores the
  previous skin (C17), the reload round trip of the camera table and glass count (C18),
  and that after any load the rest opacities keep the entries of earlier loads while the
  rest colours do not (C19). The session claims hold of every reachable state: glass
  values in [0, 1] (C20), at most one asset (C21), \<open>armsTextMeshes\<close> always empty
  (C22), and a skin change does not reset the glass phase (C24). C23 is the refinement of
  the role contract by the load pipeline, and C25 the idempotence of \<open>applyConfig\<close> on
  what the meshes show.

  \<^bold>\<open>Bounds and fuel.\<close>
  Every loop of the code is a \<open>forEach\<close> or \<open>traverse\<close> over a finite list and is a
  structurally recursive function, so no fuel is needed. The frame loop is the list of
  events a run consists of (\<open>glass_frames\<close>, \<open>camera_frames\<close>, \<open>reach\<close>).
  Two simplifications of time: the glass clock is fed the frame timestamp where
  \<open>THREE.Clock\<close> reads \<open>performance.now()\<close>, and \<open>reach\<close> asks every event's time to
  be at least the previous one's, so the early frame of C14 (a frame timestamp before the
  click that started the transition) is outside \<open>reach\<close>; no reachability claim needs it.

  \<^bold>\<open>Not modelled.\<close>
  Rendering (WebGL, the effect composer and its passes except their colour maths,
  the HDR environment), the DOM (button creation, styling, resize), image decoding and
  the asset's geometry; asset and texture loads that fail (the code registers no error
  callback, so a failed load leaves its request pending forever, which \<open>reach\<close> allows by
  never completing it); multi-material meshes. three.js's quaternion maths is abstract.
  The missing config \<open>SHINY_BLACK_CGREEN\<close> is imported by \<open>main.js\<close> but has no file in
  the repository, so its button is left out of \<open>model_buttons\<close>.
\<close>

end
